theory Spec2Isabelle
  imports Complex_Main
begin

section \<open>Grounding-grid calculation engine: embedding\<close>

text \<open>
  The engine is a collection of pure TypeScript functions over \<^verbatim>\<open>number\<close>, and it is
  modelled at two levels.

  Where a claim is about the value of a formula, a \<^verbatim>\<open>number\<close> that the code only
  computes with is a \<^typ>\<open>real\<close>: the arithmetic of the model is exact, so rounding,
  overflow to \<^verbatim>\<open>Infinity\<close> and the propagation of \<^verbatim>\<open>NaN\<close> are outside it. Where the
  code itself asks whether a value is a usable number (\<^verbatim>\<open>Number.isFinite(t)\<close>,
  \<^verbatim>\<open>!rho2\<close>, an optional argument), the model's type has the extra values and the
  test is written out. \<^verbatim>\<open>Math.sqrt\<close> is \<^const>\<open>sqrt\<close>, \<^verbatim>\<open>Math.log\<close> is \<^const>\<open>ln\<close>,
  \<^verbatim>\<open>Math.log10\<close> is \<^term>\<open>log 10\<close>, \<^verbatim>\<open>Math.PI\<close> is \<^const>\<open>pi\<close>; they agree
  with the program on positive arguments, which is where the theorems below use them.

  Where a claim is about the double that comes out (whether two results are the
  same double, whether a result can be \<^verbatim>\<open>NaN\<close> or infinite, whether every entry of a
  result lies in an interval), the function is modelled in binary64 arithmetic, with
  the rounding of every operation, overflow, underflow and \<^verbatim>\<open>NaN\<close> written out. That
  is done for the conductor sizing, for the Schwarz equations with rods, and for the
  step-voltage matrix.
\<close>

subsection \<open>The type \<^verbatim>\<open>number\<close> in binary64 arithmetic\<close>

text \<open>
  A \<^verbatim>\<open>number\<close> is a finite double, one of the two infinities, or \<^verbatim>\<open>NaN\<close>. The two
  zeros of binary64 are one value here: they differ only in the sign of a quotient by
  zero, and the model takes such a zero as positive (in the functions below every
  zero divisor is the result of operations on positive numbers).
\<close>

datatype js_number = Finite real | PosInfinity | NegInfinity | NaN

text \<open>
  \<open>f64 x\<close> is the double nearest to the real number \<open>x\<close> when the exponent range has no
  upper end: with \<open>2\<^sup>e \<le> |x| < 2\<^sup>e\<^sup>+\<^sup>1\<close> the doubles around \<open>x\<close> are the integer multiples
  of \<open>2\<^sup>e\<^sup>-\<^sup>5\<^sup>2\<close>, below \<open>2\<^sup>-\<^sup>1\<^sup>0\<^sup>2\<^sup>2\<close> (the subnormal numbers) they are the multiples of
  \<open>2\<^sup>-\<^sup>1\<^sup>0\<^sup>7\<^sup>4\<close>, and a tie goes to the even multiple.
\<close>

definition roundTiesToEven :: "real \<Rightarrow> int" where
  "roundTiesToEven r =
     (let f = \<lfloor>r\<rfloor>; d = r - of_int f
      in if d < 1 / 2 then f else if 1 / 2 < d then f + 1 else if even f then f else f + 1)"

definition f64 :: "real \<Rightarrow> real" where
  "f64 x =
     (if x = 0 then 0
      else let e = max \<lfloor>log 2 \<bar>x\<bar>\<rfloor> (- 1022);
               ulp = 2 powr (of_int e - 52)
           in of_int (roundTiesToEven (x / ulp)) * ulp)"

text \<open>
  The result of an operation is the rounded exact result, or an infinity when the
  exact result is at least \<open>2\<^sup>1\<^sup>0\<^sup>2\<^sup>4 - 2\<^sup>9\<^sup>7\<^sup>0\<close> in absolute value: that number lies halfway
  between the largest double and \<open>2\<^sup>1\<^sup>0\<^sup>2\<^sup>4\<close>, and the tie goes to \<open>2\<^sup>1\<^sup>0\<^sup>2\<^sup>4\<close>.
\<close>

definition overflow_threshold :: real where
  "overflow_threshold = 2 ^ 1024 - 2 ^ 970"

definition round64 :: "real \<Rightarrow> js_number" where
  "round64 x =
     (if overflow_threshold \<le> x then PosInfinity
      else if x \<le> - overflow_threshold then NegInfinity
      else Finite (f64 x))"

text \<open>
  The operations \<^verbatim>\<open>-x\<close>, \<^verbatim>\<open>Math.abs\<close>, \<^verbatim>\<open>+\<close>, \<^verbatim>\<open>-\<close>, \<^verbatim>\<open>*\<close>, \<^verbatim>\<open>/\<close> and \<^verbatim>\<open>Math.sqrt\<close> as
  IEEE 754 defines them: \<^verbatim>\<open>NaN\<close> in, \<^verbatim>\<open>NaN\<close> out; the difference of equal infinities,
  the product of zero and an infinity, the quotient of two zeros or of two infinities
  and the root of a negative number are \<^verbatim>\<open>NaN\<close>; everything else is the exact result,
  rounded. \<^verbatim>\<open>Math.sqrt\<close> is taken to be correctly rounded, as the square-root
  instruction is.
\<close>

fun js_neg :: "js_number \<Rightarrow> js_number" where
  "js_neg (Finite x) = Finite (- x)"
| "js_neg PosInfinity = NegInfinity"
| "js_neg NegInfinity = PosInfinity"
| "js_neg NaN = NaN"

fun js_abs :: "js_number \<Rightarrow> js_number" where
  "js_abs (Finite x) = Finite \<bar>x\<bar>"
| "js_abs PosInfinity = PosInfinity"
| "js_abs NegInfinity = PosInfinity"
| "js_abs NaN = NaN"

fun js_add :: "js_number \<Rightarrow> js_number \<Rightarrow> js_number" where
  "js_add (Finite x) (Finite y) = round64 (x + y)"
| "js_add NaN b = NaN"
| "js_add a NaN = NaN"
| "js_add PosInfinity NegInfinity = NaN"
| "js_add NegInfinity PosInfinity = NaN"
| "js_add PosInfinity b = PosInfinity"
| "js_add a PosInfinity = PosInfinity"
| "js_add NegInfinity b = NegInfinity"
| "js_add a NegInfinity = NegInfinity"

definition js_sub :: "js_number \<Rightarrow> js_number \<Rightarrow> js_number" where
  "js_sub a b = js_add a (js_neg b)"

definition infinity_of_sign :: "real \<Rightarrow> js_number" where
  "infinity_of_sign s = (if s = 0 then NaN else if 0 < s then PosInfinity else NegInfinity)"

fun js_mul :: "js_number \<Rightarrow> js_number \<Rightarrow> js_number" where
  "js_mul (Finite x) (Finite y) = round64 (x * y)"
| "js_mul NaN b = NaN"
| "js_mul a NaN = NaN"
| "js_mul (Finite x) PosInfinity = infinity_of_sign x"
| "js_mul (Finite x) NegInfinity = infinity_of_sign (- x)"
| "js_mul PosInfinity (Finite y) = infinity_of_sign y"
| "js_mul NegInfinity (Finite y) = infinity_of_sign (- y)"
| "js_mul PosInfinity PosInfinity = PosInfinity"
| "js_mul PosInfinity NegInfinity = NegInfinity"
| "js_mul NegInfinity PosInfinity = NegInfinity"
| "js_mul NegInfinity NegInfinity = PosInfinity"

fun js_div :: "js_number \<Rightarrow> js_number \<Rightarrow> js_number" where
  "js_div (Finite x) (Finite y) = (if y = 0 then infinity_of_sign x else round64 (x / y))"
| "js_div NaN b = NaN"
| "js_div a NaN = NaN"
| "js_div (Finite x) PosInfinity = Finite 0"
| "js_div (Finite x) NegInfinity = Finite 0"
| "js_div PosInfinity (Finite y) = (if 0 \<le> y then PosInfinity else NegInfinity)"
| "js_div NegInfinity (Finite y) = (if 0 \<le> y then NegInfinity else PosInfinity)"
| "js_div PosInfinity b = NaN"
| "js_div NegInfinity b = NaN"

fun js_sqrt :: "js_number \<Rightarrow> js_number" where
  "js_sqrt (Finite x) = (if x < 0 then NaN else Finite (f64 (sqrt x)))"
| "js_sqrt PosInfinity = PosInfinity"
| "js_sqrt NegInfinity = NaN"
| "js_sqrt NaN = NaN"

text \<open>
  The comparisons \<^verbatim>\<open><\<close>, \<^verbatim>\<open><=\<close> and \<^verbatim>\<open>===\<close>; \<^verbatim>\<open>a > b\<close> is \<open>js_less b a\<close> and \<^verbatim>\<open>a >= b\<close> is
  \<open>js_le b a\<close>. Every comparison with \<^verbatim>\<open>NaN\<close> is false.
\<close>

fun js_less :: "js_number \<Rightarrow> js_number \<Rightarrow> bool" where
  "js_less (Finite x) (Finite y) = (x < y)"
| "js_less NaN b = False"
| "js_less a NaN = False"
| "js_less a NegInfinity = False"
| "js_less PosInfinity b = False"
| "js_less NegInfinity b = True"
| "js_less a PosInfinity = True"

fun js_le :: "js_number \<Rightarrow> js_number \<Rightarrow> bool" where
  "js_le (Finite x) (Finite y) = (x \<le> y)"
| "js_le NaN b = False"
| "js_le a NaN = False"
| "js_le NegInfinity b = True"
| "js_le a PosInfinity = True"
| "js_le a NegInfinity = False"
| "js_le PosInfinity b = False"

definition js_eq :: "js_number \<Rightarrow> js_number \<Rightarrow> bool" where
  "js_eq a b = (a \<noteq> NaN \<and> a = b)"

text \<open>
  \<^verbatim>\<open>Math.PI\<close> is the double 3.141592653589793. The language leaves the results of
  \<^verbatim>\<open>Math.log\<close> and \<^verbatim>\<open>Math.pow\<close> on finite arguments to the implementation, so they are
  parameters: \<open>js_log x\<close> is the double that \<^verbatim>\<open>Math.log\<close> returns for the positive
  double \<open>x\<close>, and \<open>js_pow x y\<close> the number that \<^verbatim>\<open>Math.pow\<close> returns for the doubles
  \<open>x\<close> and \<open>y\<close>. What the language fixes is written out; of \<^verbatim>\<open>Math.pow\<close> only the
  exponent 2 occurs.
\<close>

definition Math_PI :: real where
  "Math_PI = 884279719003555 / 281474976710656"

definition Math_log :: "(real \<Rightarrow> real) \<Rightarrow> js_number \<Rightarrow> js_number" where
  "Math_log js_log a =
     (case a of
        Finite x \<Rightarrow> if x < 0 then NaN else if x = 0 then NegInfinity else Finite (js_log x)
      | PosInfinity \<Rightarrow> PosInfinity
      | NegInfinity \<Rightarrow> NaN
      | NaN \<Rightarrow> NaN)"

definition Math_pow_2 :: "(real \<Rightarrow> real \<Rightarrow> js_number) \<Rightarrow> js_number \<Rightarrow> js_number" where
  "Math_pow_2 js_pow a =
     (case a of
        Finite x \<Rightarrow> js_pow x 2
      | PosInfinity \<Rightarrow> PosInfinity
      | NegInfinity \<Rightarrow> PosInfinity
      | NaN \<Rightarrow> NaN)"

subsection \<open>Permissible voltages (groundingMath)\<close>

text \<open>The string-literal union \<^verbatim>\<open>'50' | '70'\<close> of the body weight.\<close>

datatype BodyWeight = W50 | W70

datatype VoltageDuration = curta | longa

record PermissibleVoltagesResult =
  vPasso :: real
  vToque :: real
  duration :: VoltageDuration

definition calculateMaxTouchVoltage :: "real \<Rightarrow> real \<Rightarrow> real \<Rightarrow> BodyWeight \<Rightarrow> real" where
  "calculateMaxTouchVoltage t cs rho_s bodyWeight =
     (if t \<le> 0 then 0
      else let k = (if bodyWeight = W50 then 0.116 else 0.157)
           in (1000 + 1.5 * cs * rho_s) * (k / sqrt t))"

definition calculateMaxStepVoltage :: "real \<Rightarrow> real \<Rightarrow> real \<Rightarrow> BodyWeight \<Rightarrow> real" where
  "calculateMaxStepVoltage t cs rho_s bodyWeight =
     (if t \<le> 0 then 0
      else let k = (if bodyWeight = W50 then 0.116 else 0.157)
           in (1000 + 6 * cs * rho_s) * (k / sqrt t))"

definition LONG_DURATION_THRESHOLD :: real where
  "LONG_DURATION_THRESHOLD = 3"

definition LONG_DURATION_BODY_CURRENT :: real where
  "LONG_DURATION_BODY_CURRENT = 0.006"

definition calculatePermissibleVoltages ::
  "real \<Rightarrow> real \<Rightarrow> real \<Rightarrow> BodyWeight \<Rightarrow> PermissibleVoltagesResult" where
  "calculatePermissibleVoltages t cs rho_s bodyWeight =
     (if t \<le> 0 then \<lparr>vPasso = 0, vToque = 0, duration = curta\<rparr>
      else if t \<le> LONG_DURATION_THRESHOLD then
        (let vToque = calculateMaxTouchVoltage t cs rho_s bodyWeight;
             vPasso = calculateMaxStepVoltage t cs rho_s bodyWeight
         in \<lparr>vPasso = vPasso, vToque = vToque, duration = curta\<rparr>)
      else
        (let baseTouchResistance = 1000 + 1.5 * cs * rho_s;
             baseStepResistance = 1000 + 6 * cs * rho_s;
             vToqueLong = LONG_DURATION_BODY_CURRENT * baseTouchResistance;
             vPassoLong = LONG_DURATION_BODY_CURRENT * baseStepResistance
         in \<lparr>vPasso = vPassoLong, vToque = vToqueLong, duration = longa\<rparr>))"

subsection \<open>Geometric factors (groundingMath)\<close>

definition calculateKi :: "real \<Rightarrow> real" where
  "calculateKi n = 0.656 + 0.172 * n"

text \<open>
  \<^verbatim>\<open>Math.pow(2 * n, 2 / n)\<close> is only reached with \<open>n > 0\<close>, a positive base, so it
  is \<^const>\<open>powr\<close>; \<^verbatim>\<open>Math.pow(D + 2 * h, 2)\<close> is a square.
\<close>

definition calculateKm :: "real \<Rightarrow> real \<Rightarrow> real \<Rightarrow> real \<Rightarrow> bool \<Rightarrow> real" where
  "calculateKm D h d n hasRods =
     (if D \<le> 0 \<or> h \<le> 0 \<or> d \<le> 0 \<or> n \<le> 0 then 0
      else let Kii = (if hasRods then 1 else 1 / ((2 * n) powr (2 / n)));
               Kh = sqrt (1 + h);
               term1 = (D * D) / (16 * h * d);
               term2 = (D + 2 * h)\<^sup>2 / (8 * D * d);
               term3 = h / (4 * d);
               ln1 = ln (term1 + term2 - term3);
               term4 = Kii / Kh;
               ln2 = ln (8 / (pi * (2 * n - 1)))
           in (1 / (2 * pi)) * (ln1 + term4 * ln2))"

definition calculateKs :: "real \<Rightarrow> real \<Rightarrow> real \<Rightarrow> real" where
  "calculateKs D h n =
     (if D \<le> 0 \<or> h \<le> 0 \<or> n \<le> 0 then 0
      else let term1 = 1 / (2 * h);
               term2 = 1 / (D + h);
               term3 = (1 / D) * (1 - 0.5 powr (n - 2))
           in (1 / pi) * (term1 + term2 + term3))"

subsection \<open>Conductor sizing (groundingMath)\<close>



subsection \<open>Conductor sizing in binary64 arithmetic\<close>



text \<open>
  Three adjacent doubles, 1.2527629684953678, 1.252762968495368 and
  1.2527629684953683: the candidates for \<^verbatim>\<open>Math.log(3.5)\<close>. The middle one is the
  double nearest to \<open>ln 3.5\<close>, the result of a correctly rounded logarithm, and
  \<open>ln 3.5\<close> lies between the first and the middle one.
\<close>

definition ln_3_5_below :: real where
  "ln_3_5_below = 5641942838099295 / 4503599627370496"

definition ln_3_5_nearest :: real where
  "ln_3_5_nearest = 176310713690603 / 140737488355328"

definition ln_3_5_above :: real where
  "ln_3_5_above = 5641942838099297 / 4503599627370496"

text \<open>
  The partial sums of the exponential series, by which \<open>ln 3.5\<close> is located:
  \<open>exp_horner x 0 n\<close> is the sum of the first \<open>n\<close> terms \<open>x\<^sup>m / m!\<close>, and
  \<open>exp_horner x k n\<close> is what Horner's rule leaves inside the \<open>k\<close>-th bracket.
\<close>

definition exp_horner :: "real \<Rightarrow> nat \<Rightarrow> nat \<Rightarrow> real" where
  "exp_horner x k n = (\<Sum>m<n. x ^ m * fact k / fact (k + m))"

subsection \<open>Grid resistance, Schwarz equations (groundingMath)\<close>

text \<open>
  The optional argument \<^verbatim>\<open>rods\<close> is an \<^typ>\<open>'a option\<close>; so are the optional
  fields \<^verbatim>\<open>r1\<close>, \<^verbatim>\<open>r2\<close>, \<^verbatim>\<open>r12\<close> of the result, which the first guard leaves
  out. The field \<^verbatim>\<open>length\<close> of the rods is \<open>length_m\<close> here.
\<close>

record Rods =
  count :: real
  length_m :: real
  diameter_mm :: real

record SchwarzResult =
  resistance :: real
  k1 :: real
  k2 :: real
  r1 :: "real option"
  r2 :: "real option"
  r12 :: "real option"

text \<open>
  The reference curves A, B, C: the nested \<^verbatim>\<open>k1: {m, b}\<close> and \<^verbatim>\<open>k2: {m, b}\<close> are the
  fields \<open>k1m\<close>, \<open>k1b\<close>, \<open>k2m\<close>, \<open>k2b\<close>.
\<close>

record Curve =
  h_ref :: real
  k1m :: real
  k1b :: real
  k2m :: real
  k2b :: real

definition curves :: "Curve list" where
  "curves =
     [\<lparr>h_ref = 0, k1m = - 0.04, k1b = 1.41, k2m = 0.15, k2b = 5.50\<rparr>,
      \<lparr>h_ref = 0.1, k1m = - 0.05, k1b = 1.20, k2m = 0.10, k2b = 4.68\<rparr>,
      \<lparr>h_ref = 1 / 6, k1m = - 0.05, k1b = 1.13, k2m = - 0.05, k2b = 4.40\<rparr>]"

definition calculateSchwarzResistance ::
  "real \<Rightarrow> real \<Rightarrow> real \<Rightarrow> real \<Rightarrow> real \<Rightarrow> real \<Rightarrow> real \<Rightarrow> Rods option \<Rightarrow> SchwarzResult" where
  "calculateSchwarzResistance rho A Lx Ly Lc h d_mm rods =
     (if rho \<le> 0 \<or> A \<le> 0 \<or> Lc \<le> 0 \<or> h \<le> 0 \<or> d_mm \<le> 0
      then \<lparr>resistance = 0, k1 = 0, k2 = 0, r1 = None, r2 = None, r12 = None\<rparr>
      else
        let r_m = (d_mm / 1000) / 2;
            a_prime = sqrt (r_m * 2 * h);
            L = max Lx Ly;
            W = min Lx Ly;
            lwRatio = (if W > 0 then L / W else 1);
            h_sqrtA = h / sqrt A;
            (k1_m, k1_b, k2_m, k2_b) =
              (if h_sqrtA \<le> 0 then
                 (k1m (curves ! 0), k1b (curves ! 0), k2m (curves ! 0), k2b (curves ! 0))
               else if h_sqrtA \<ge> h_ref (curves ! 2) then
                 (k1m (curves ! 2), k1b (curves ! 2), k2m (curves ! 2), k2b (curves ! 2))
               else if h_sqrtA \<le> 0.1 then
                 (let factor = (h_sqrtA - 0) / (0.1 - 0)
                  in (k1m (curves ! 0) + (k1m (curves ! 1) - k1m (curves ! 0)) * factor,
                      k1b (curves ! 0) + (k1b (curves ! 1) - k1b (curves ! 0)) * factor,
                      k2m (curves ! 0) + (k2m (curves ! 1) - k2m (curves ! 0)) * factor,
                      k2b (curves ! 0) + (k2b (curves ! 1) - k2b (curves ! 0)) * factor))
               else
                 (let factor = (h_sqrtA - 0.1) / (h_ref (curves ! 2) - 0.1)
                  in (k1m (curves ! 1) + (k1m (curves ! 2) - k1m (curves ! 1)) * factor,
                      k1b (curves ! 1) + (k1b (curves ! 2) - k1b (curves ! 1)) * factor,
                      k2m (curves ! 1) + (k2m (curves ! 2) - k2m (curves ! 1)) * factor,
                      k2b (curves ! 1) + (k2b (curves ! 2) - k2b (curves ! 1)) * factor)));
            k1 = k1_m * lwRatio + k1_b;
            k2 = k2_m * lwRatio + k2_b;
            term1 = ln ((2 * Lc) / a_prime);
            term2 = (k1 * Lc) / sqrt A;
            term3 = k2;
            r1 = (rho / (pi * Lc)) * (term1 + term2 - term3)
        in
          (case rods of
             None \<Rightarrow> \<lparr>resistance = r1, k1 = k1, k2 = k2, r1 = Some r1, r2 = Some 0, r12 = Some 0\<rparr>
           | Some rd \<Rightarrow>
               if count rd \<le> 0 \<or> length_m rd \<le> 0
               then \<lparr>resistance = r1, k1 = k1, k2 = k2, r1 = Some r1, r2 = Some 0, r12 = Some 0\<rparr>
               else
                 let nr = count rd;
                     Lr = length_m rd;
                     b = (diameter_mm rd / 1000) / 2
                 in
                   if nr = 0 \<or> Lr = 0 \<or> b = 0
                   then \<lparr>resistance = r1, k1 = k1, k2 = k2,
                          r1 = Some r1, r2 = Some 0, r12 = Some 0\<rparr>
                   else
                     let r2_term1 = ln ((4 * Lr) / b);
                         r2_term2 = 1;
                         r2_term3 = (2 * k1 * Lr) / sqrt A * (sqrt nr - 1)\<^sup>2;
                         r2 = (rho / (2 * pi * nr * Lr)) * (r2_term1 - r2_term2 + r2_term3);
                         r12_term1 = ln ((2 * Lc) / Lr);
                         r12_term2 = (k1 * Lc) / sqrt A;
                         r12_term3 = k2;
                         r12_term4 = 1;
                         r12 = (rho / (pi * Lc)) *
                                 (r12_term1 + r12_term2 - r12_term3 + r12_term4);
                         numerator = (r1 * r2) - (r12 * r12);
                         denominator = r1 + r2 - (2 * r12);
                         rg = (if denominator \<noteq> 0 then numerator / denominator else r1)
                     in \<lparr>resistance = rg, k1 = k1, k2 = k2,
                          r1 = Some r1, r2 = Some r2, r12 = Some r12\<rparr>))"

subsection \<open>Grid resistance in binary64 arithmetic\<close>

text \<open>
  \<^verbatim>\<open>calculateSchwarzResistance\<close> once more, on doubles: every operation is the one of
  the source, in its order, with its rounding. The arguments are finite doubles. The
  decimal literals of the table of curves are the doubles nearest to them, and
  \<^verbatim>\<open>1/6\<close> is the rounded quotient. The fields of the result carry the suffix \<open>_f64\<close>.
\<close>

record SchwarzResult_f64 =
  resistance_f64 :: js_number
  k1_f64 :: js_number
  k2_f64 :: js_number
  r1_f64 :: "js_number option"
  r2_f64 :: "js_number option"
  r12_f64 :: "js_number option"

definition curves_f64 :: "Curve list" where
  "curves_f64 =
     [\<lparr>h_ref = 0, k1m = f64 (- 0.04), k1b = f64 1.41, k2m = f64 0.15, k2b = f64 5.50\<rparr>,
      \<lparr>h_ref = f64 0.1, k1m = f64 (- 0.05), k1b = f64 1.20, k2m = f64 0.10, k2b = f64 4.68\<rparr>,
      \<lparr>h_ref = f64 (1 / 6), k1m = f64 (- 0.05), k1b = f64 1.13, k2m = f64 (- 0.05),
       k2b = f64 4.40\<rparr>]"

definition calculateSchwarzResistance_f64 ::
  "(real \<Rightarrow> real) \<Rightarrow> (real \<Rightarrow> real \<Rightarrow> js_number) \<Rightarrow>
   real \<Rightarrow> real \<Rightarrow> real \<Rightarrow> real \<Rightarrow> real \<Rightarrow> real \<Rightarrow> real \<Rightarrow> Rods option \<Rightarrow> SchwarzResult_f64" where
  "calculateSchwarzResistance_f64 js_log js_pow rho A Lx Ly Lc h d_mm rods =
     (if rho \<le> 0 \<or> A \<le> 0 \<or> Lc \<le> 0 \<or> h \<le> 0 \<or> d_mm \<le> 0
      then \<lparr>resistance_f64 = Finite 0, k1_f64 = Finite 0, k2_f64 = Finite 0,
             r1_f64 = None, r2_f64 = None, r12_f64 = None\<rparr>
      else
        let r_m = js_div (js_div (Finite d_mm) (Finite 1000)) (Finite 2);
            a_prime = js_sqrt (js_mul (js_mul r_m (Finite 2)) (Finite h));
            L = max Lx Ly;
            W = min Lx Ly;
            lwRatio = (if W > 0 then js_div (Finite L) (Finite W) else Finite 1);
            h_sqrtA = js_div (Finite h) (js_sqrt (Finite A));
            c0 = curves_f64 ! 0;
            c1 = curves_f64 ! 1;
            c2 = curves_f64 ! 2;
            (k1_m, k1_b, k2_m, k2_b) =
              (if js_le h_sqrtA (Finite 0) then
                 (Finite (k1m c0), Finite (k1b c0), Finite (k2m c0), Finite (k2b c0))
               else if js_le (Finite (h_ref c2)) h_sqrtA then
                 (Finite (k1m c2), Finite (k1b c2), Finite (k2m c2), Finite (k2b c2))
               else if js_le h_sqrtA (Finite (f64 0.1)) then
                 (let factor = js_div (js_sub h_sqrtA (Finite 0))
                                 (js_sub (Finite (f64 0.1)) (Finite 0))
                  in (js_add (Finite (k1m c0))
                        (js_mul (js_sub (Finite (k1m c1)) (Finite (k1m c0))) factor),
                      js_add (Finite (k1b c0))
                        (js_mul (js_sub (Finite (k1b c1)) (Finite (k1b c0))) factor),
                      js_add (Finite (k2m c0))
                        (js_mul (js_sub (Finite (k2m c1)) (Finite (k2m c0))) factor),
                      js_add (Finite (k2b c0))
                        (js_mul (js_sub (Finite (k2b c1)) (Finite (k2b c0))) factor)))
               else
                 (let factor = js_div (js_sub h_sqrtA (Finite (f64 0.1)))
                                 (js_sub (Finite (h_ref c2)) (Finite (f64 0.1)))
                  in (js_add (Finite (k1m c1))
                        (js_mul (js_sub (Finite (k1m c2)) (Finite (k1m c1))) factor),
                      js_add (Finite (k1b c1))
                        (js_mul (js_sub (Finite (k1b c2)) (Finite (k1b c1))) factor),
                      js_add (Finite (k2m c1))
                        (js_mul (js_sub (Finite (k2m c2)) (Finite (k2m c1))) factor),
                      js_add (Finite (k2b c1))
                        (js_mul (js_sub (Finite (k2b c2)) (Finite (k2b c1))) factor))));
            k1 = js_add (js_mul k1_m lwRatio) k1_b;
            k2 = js_add (js_mul k2_m lwRatio) k2_b;
            term1 = Math_log js_log (js_div (js_mul (Finite 2) (Finite Lc)) a_prime);
            term2 = js_div (js_mul k1 (Finite Lc)) (js_sqrt (Finite A));
            term3 = k2;
            r1 = js_mul (js_div (Finite rho) (js_mul (Finite Math_PI) (Finite Lc)))
                   (js_sub (js_add term1 term2) term3)
        in
          (case rods of
             None \<Rightarrow> \<lparr>resistance_f64 = r1, k1_f64 = k1, k2_f64 = k2,
                        r1_f64 = Some r1, r2_f64 = Some (Finite 0), r12_f64 = Some (Finite 0)\<rparr>
           | Some rd \<Rightarrow>
               if count rd \<le> 0 \<or> length_m rd \<le> 0
               then \<lparr>resistance_f64 = r1, k1_f64 = k1, k2_f64 = k2,
                      r1_f64 = Some r1, r2_f64 = Some (Finite 0), r12_f64 = Some (Finite 0)\<rparr>
               else
                 let nr = count rd;
                     Lr = length_m rd;
                     b = js_div (js_div (Finite (diameter_mm rd)) (Finite 1000)) (Finite 2)
                 in
                   if nr = 0 \<or> Lr = 0 \<or> js_eq b (Finite 0)
                   then \<lparr>resistance_f64 = r1, k1_f64 = k1, k2_f64 = k2,
                          r1_f64 = Some r1, r2_f64 = Some (Finite 0), r12_f64 = Some (Finite 0)\<rparr>
                   else
                     let r2_term1 = Math_log js_log (js_div (js_mul (Finite 4) (Finite Lr)) b);
                         r2_term2 = Finite 1;
                         r2_term3 = js_mul
                           (js_div (js_mul (js_mul (Finite 2) k1) (Finite Lr)) (js_sqrt (Finite A)))
                           (Math_pow_2 js_pow (js_sub (js_sqrt (Finite nr)) (Finite 1)));
                         r2 = js_mul
                           (js_div (Finite rho)
                              (js_mul (js_mul (js_mul (Finite 2) (Finite Math_PI)) (Finite nr))
                                 (Finite Lr)))
                           (js_add (js_sub r2_term1 r2_term2) r2_term3);
                         r12_term1 = Math_log js_log (js_div (js_mul (Finite 2) (Finite Lc)) (Finite Lr));
                         r12_term2 = js_div (js_mul k1 (Finite Lc)) (js_sqrt (Finite A));
                         r12_term3 = k2;
                         r12_term4 = Finite 1;
                         r12 = js_mul (js_div (Finite rho) (js_mul (Finite Math_PI) (Finite Lc)))
                                 (js_add (js_sub (js_add r12_term1 r12_term2) r12_term3) r12_term4);
                         numerator = js_sub (js_mul r1 r2) (js_mul r12 r12);
                         denominator = js_sub (js_add r1 r2) (js_mul (Finite 2) r12);
                         rg = (if \<not> js_eq denominator (Finite 0) then js_div numerator denominator
                               else r1)
                     in \<lparr>resistance_f64 = rg, k1_f64 = k1, k2_f64 = k2,
                          r1_f64 = Some r1, r2_f64 = Some r2, r12_f64 = Some r12\<rparr>))"

subsection \<open>Presumed touch voltage curve of NBR 14039 (groundingMath)\<close>

datatype NBR14039Area = interna | externa

text \<open>A curve point \<^verbatim>\<open>{t, v}\<close>; the fields are \<open>point_t\<close> and \<open>point_v\<close>.\<close>

record NBR14039Point =
  point_t :: real
  point_v :: real

definition nbr14039InternalCurve :: "NBR14039Point list" where
  "nbr14039InternalCurve =
     [\<lparr>point_t = 0.01, point_v = 1000\<rparr>,
      \<lparr>point_t = 0.03, point_v = 700\<rparr>,
      \<lparr>point_t = 0.1, point_v = 480\<rparr>,
      \<lparr>point_t = 0.3, point_v = 330\<rparr>,
      \<lparr>point_t = 1, point_v = 230\<rparr>,
      \<lparr>point_t = 3, point_v = 170\<rparr>,
      \<lparr>point_t = 10, point_v = 120\<rparr>]"

definition nbr14039ExternalCurve :: "NBR14039Point list" where
  "nbr14039ExternalCurve =
     [\<lparr>point_t = 0.01, point_v = 800\<rparr>,
      \<lparr>point_t = 0.03, point_v = 550\<rparr>,
      \<lparr>point_t = 0.1, point_v = 380\<rparr>,
      \<lparr>point_t = 0.3, point_v = 260\<rparr>,
      \<lparr>point_t = 1, point_v = 180\<rparr>,
      \<lparr>point_t = 3, point_v = 130\<rparr>,
      \<lparr>point_t = 10, point_v = 90\<rparr>]"

text \<open>
  The \<^verbatim>\<open>for\<close> loop of \<^verbatim>\<open>interpolateLogLog\<close>, from index \<open>i\<close> on: it returns from
  the first bracket \<open>[points[i].t, points[i+1].t]\<close> that holds \<open>t\<close>, and the code after
  the loop returns 0. Both indices are in range under the loop condition.
\<close>

function interpolateLogLog_loop :: "NBR14039Point list \<Rightarrow> real \<Rightarrow> nat \<Rightarrow> real" where
  "interpolateLogLog_loop points t i =
     (if i < length points - 1 then
        (let p1 = points ! i;
             p2 = points ! (i + 1)
         in if t \<ge> point_t p1 \<and> t \<le> point_t p2 then
              (let logT = log 10 t;
                   logT1 = log 10 (point_t p1);
                   logT2 = log 10 (point_t p2);
                   logV1 = log 10 (point_v p1);
                   logV2 = log 10 (point_v p2);
                   ratio = (logT - logT1) / (logT2 - logT1);
                   logV = logV1 + (logV2 - logV1) * ratio
               in 10 powr logV)
            else interpolateLogLog_loop points t (i + 1))
      else 0)"
  by pat_completeness auto
termination
  by (relation "measure (\<lambda>(points, t, i). length points - i)") auto

declare interpolateLogLog_loop.simps [simp del]

definition interpolateLogLog :: "NBR14039Point list \<Rightarrow> real \<Rightarrow> real" where
  "interpolateLogLog points t =
     (if length points = 0 then 0
      else if t \<le> point_t (points ! 0) then point_v (points ! 0)
      else if t \<ge> point_t (points ! (length points - 1))
        then point_v (points ! (length points - 1))
      else interpolateLogLog_loop points t 0)"

text \<open>
  What the claims call interpolation in log-log space: the point at abscissa \<open>t\<close> of
  the straight line through two curve points, in the coordinates \<open>log\<^sub>1\<^sub>0 t\<close> and
  \<open>log\<^sub>1\<^sub>0 v\<close>. The loop above is compared with it below.
\<close>

definition logLogSegment :: "NBR14039Point \<Rightarrow> NBR14039Point \<Rightarrow> real \<Rightarrow> real" where
  "logLogSegment p1 p2 t =
     10 powr (log 10 (point_v p1) +
       (log 10 (point_v p2) - log 10 (point_v p1)) *
         ((log 10 t - log 10 (point_t p1)) / (log 10 (point_t p2) - log 10 (point_t p1))))"

text \<open>
  The property of a curve that the interpolation relies on: abscissae strictly
  increasing, abscissae and ordinates positive. Both tabulated curves have it.
\<close>

definition valid_curve :: "NBR14039Point list \<Rightarrow> bool" where
  "valid_curve points \<longleftrightarrow>
     sorted_wrt (<) (map point_t points) \<and> list_all (\<lambda>p. 0 < point_t p \<and> 0 < point_v p) points"

text \<open>
  The argument \<^verbatim>\<open>t\<close> of \<^verbatim>\<open>calculateNBR14039TouchVoltage\<close> is tested with
  \<^verbatim>\<open>Number.isFinite\<close>, so its type is \<^typ>\<open>js_number\<close>, which has the values of a
  \<^verbatim>\<open>number\<close> that are not finite. The result \<^verbatim>\<open>number | null\<close> is an option.
\<close>

fun isFinite :: "js_number \<Rightarrow> bool" where
  "isFinite (Finite x) = True"
| "isFinite _ = False"

definition calculateNBR14039TouchVoltage :: "js_number \<Rightarrow> NBR14039Area \<Rightarrow> real option" where
  "calculateNBR14039TouchVoltage t area =
     (case t of
        Finite x \<Rightarrow>
          if \<not> isFinite t \<or> x \<le> 0 then None
          else let clampedT = min (max x 0.01) 10;
                   curve = (if area = interna then nbr14039InternalCurve
                            else nbr14039ExternalCurve)
               in Some (interpolateLogLog curve clampedT)
      | _ \<Rightarrow> None)"

subsection \<open>Soil model (soilMath)\<close>

definition calculateReflectionK :: "real \<Rightarrow> real \<Rightarrow> real" where
  "calculateReflectionK rho1 rho2 =
     (if rho1 + rho2 = 0 then 0 else (rho2 - rho1) / (rho2 + rho1))"

definition tolerance :: real where
  "tolerance = 1 / 10 ^ 6"

definition maxIterations :: nat where
  "maxIterations = 10000"

text \<open>
  The \<^verbatim>\<open>while\<close> loop of \<^verbatim>\<open>calculateN\<close> on its three variables \<^verbatim>\<open>sum\<close>, \<^verbatim>\<open>n\<close>
  and \<^verbatim>\<open>term\<close>, here \<open>sumv\<close>, \<open>n\<close> and \<open>termv\<close>; it returns their values at the exit. The counter \<open>n\<close> only takes
  integer values from 1 on, so it is a \<^typ>\<open>nat\<close> and \<^verbatim>\<open>Math.pow(k, n)\<close> is a power.
  The counter grows in every round and the loop condition bounds it: that is the
  termination argument.
\<close>

function calculateN_loop :: "real \<Rightarrow> real \<Rightarrow> real \<Rightarrow> nat \<Rightarrow> real \<Rightarrow> real \<times> nat \<times> real" where
  "calculateN_loop k alpha sumv n termv =
     (if \<bar>termv\<bar> > tolerance \<and> n < maxIterations then
        (let kn = k ^ n;
             denominator = sqrt (1 + (2 * real n / alpha)\<^sup>2);
             term_new = kn / denominator
         in calculateN_loop k alpha (sumv + term_new) (n + 1) term_new)
      else (sumv, n, termv))"
  by pat_completeness auto
termination
  by (relation "measure (\<lambda>(k, alpha, sumv, n, termv). maxIterations - n)") auto

declare calculateN_loop.simps [simp del]

definition calculateN :: "real \<Rightarrow> real \<Rightarrow> real" where
  "calculateN k alpha =
     (if alpha = 0 then 1
      else let (sumv, n, termv) = calculateN_loop k alpha 0 1 1
           in 1 + 2 * sumv)"

text \<open>
  \<^verbatim>\<open>calculateApparentResistivity\<close> tests \<^verbatim>\<open>!rho2\<close>: an argument that is missing
  (\<^verbatim>\<open>undefined\<close>, or the \<^verbatim>\<open>NaN\<close> of an empty input field) is \<open>None\<close>, and
  \<^verbatim>\<open>!rho2\<close> also holds of the number 0. For the number \<open>h1\<close>, \<^verbatim>\<open>!h1\<close> is \<open>h1 = 0\<close>.
\<close>

definition calculateApparentResistivity :: "real \<Rightarrow> real option \<Rightarrow> real \<Rightarrow> real \<Rightarrow> real" where
  "calculateApparentResistivity rho1 rho2 h1 r =
     (if (rho2 = None \<or> rho2 = Some 0) \<or> rho2 = Some rho1 \<or> h1 = 0 \<or> h1 \<le> 0 then rho1
      else let alpha = r / h1;
               k = calculateReflectionK rho1 (the rho2);
               N = calculateN k alpha
           in N * rho1)"

subsection \<open>Step-voltage visualisation (potentialField)\<close>

text \<open>
  A matrix \<^verbatim>\<open>number[][]\<close> is a list of rows of \<^typ>\<open>js_number\<close>, and the function is
  modelled in binary64 arithmetic. Reading \<^verbatim>\<open>potentialMatrix[r][c]\<close> beyond the end of
  a row gives \<^verbatim>\<open>undefined\<close>; the value read is only ever subtracted, which turns
  \<^verbatim>\<open>undefined\<close> into \<^verbatim>\<open>NaN\<close>, so such a read is \<open>NaN\<close>. The loops only read rows that
  exist. On an empty matrix \<^verbatim>\<open>potentialMatrix[0].length\<close> throws a \<^verbatim>\<open>TypeError\<close>.
\<close>

datatype js_error = TypeError

definition cellAt :: "js_number list list \<Rightarrow> nat \<Rightarrow> nat \<Rightarrow> js_number" where
  "cellAt potentialMatrix r c =
     (if r < length potentialMatrix \<and> c < length (potentialMatrix ! r)
      then potentialMatrix ! r ! c else NaN)"

text \<open>
  The body of the first pair of loops up to \<^verbatim>\<open>grad\<close>: the forward differences to the
  right and to the lower neighbour, a cell in the last column or row being its own
  neighbour. The tests \<^verbatim>\<open>c < cols - 1\<close> and \<^verbatim>\<open>r < rows - 1\<close> are written without the
  subtraction.
\<close>

definition gradAt :: "js_number list list \<Rightarrow> nat \<Rightarrow> nat \<Rightarrow> nat \<Rightarrow> nat \<Rightarrow> js_number" where
  "gradAt potentialMatrix rows cols r c =
     (let v = cellAt potentialMatrix r c;
          v_right = (if c + 1 < cols then cellAt potentialMatrix r (c + 1) else v);
          v_down = (if r + 1 < rows then cellAt potentialMatrix (r + 1) c else v);
          dx = js_abs (js_sub v v_right);
          dy = js_abs (js_sub v v_down);
          grad = js_sqrt (js_add (js_mul dx dx) (js_mul dy dy))
      in grad)"

text \<open>
  The state of the loops is the pair of \<^verbatim>\<open>stepMatrix\<close> and \<^verbatim>\<open>maxStep\<close>. One round
  of the inner loop stores the gradient and raises the maximum:
  \<^verbatim>\<open>if (grad > maxStep) maxStep = grad\<close>, where the test is false for \<^verbatim>\<open>NaN\<close>. The
  second pair of loops divides every cell by the maximum.
\<close>

definition raiseMax :: "js_number \<Rightarrow> js_number \<Rightarrow> js_number" where
  "raiseMax grad maxStep = (if js_less maxStep grad then grad else maxStep)"

definition stepCell ::
  "js_number list list \<Rightarrow> nat \<Rightarrow> nat \<Rightarrow> nat \<Rightarrow> nat \<Rightarrow>
   js_number list list \<times> js_number \<Rightarrow> js_number list list \<times> js_number" where
  "stepCell potentialMatrix rows cols r c st =
     (let (stepMatrix, maxStep) = st;
          grad = gradAt potentialMatrix rows cols r c
      in (stepMatrix[r := (stepMatrix ! r)[c := grad]], raiseMax grad maxStep))"

definition normalizeCell ::
  "js_number \<Rightarrow> nat \<Rightarrow> nat \<Rightarrow> js_number list list \<Rightarrow> js_number list list" where
  "normalizeCell maxStep r c stepMatrix =
     stepMatrix[r := (stepMatrix ! r)[c := js_div (stepMatrix ! r ! c) maxStep]]"

definition calculateStepMatrix :: "js_number list list \<Rightarrow> js_error + js_number list list" where
  "calculateStepMatrix potentialMatrix =
     (if potentialMatrix = [] then Inl TypeError
      else
        let rows = length potentialMatrix;
            cols = length (potentialMatrix ! 0);
            stepMatrix0 = replicate rows (replicate cols (Finite 0));
            (stepMatrix, maxStep) =
              fold (\<lambda>r. fold (stepCell potentialMatrix rows cols r) [0..<cols]) [0..<rows]
                (stepMatrix0, Finite 0)
        in Inr (if js_less (Finite 0) maxStep
                then fold (\<lambda>r. fold (normalizeCell maxStep r) [0..<cols]) [0..<rows] stepMatrix
                else stepMatrix))"

section \<open>Verified properties\<close>

subsection \<open>Binary64 arithmetic\<close>

text \<open>
  The rounding of a value is known from a bracket \<open>p \<le> |x| < 2 p\<close> with \<open>p\<close> a power
  of two, not below \<open>2\<^sup>-\<^sup>1\<^sup>0\<^sup>2\<^sup>2\<close>, and a multiple \<open>y\<close> of \<open>p / 2\<^sup>5\<^sup>2\<close> that is less than
  half a unit in the last place away, or exactly half a unit away and even. A value
  below \<open>2\<^sup>-\<^sup>1\<^sup>0\<^sup>7\<^sup>5\<close> rounds to 0.
\<close>

lemma roundTiesToEven_near:
  assumes "\<bar>r - of_int m\<bar> < 1 / 2"
  shows "roundTiesToEven r = m"
proof (cases "of_int m \<le> r")
  case True
  with assms have "\<lfloor>r\<rfloor> = m"
    by (intro floor_unique) linarith+
  with assms True show ?thesis
    by (simp add: roundTiesToEven_def Let_def)
next
  case False
  with assms have f: "\<lfloor>r\<rfloor> = m - 1"
    by (intro floor_unique) (simp, linarith)+
  have "1 / 2 < r - of_int (m - 1)"
    using assms False by simp
  with f show ?thesis
    by (simp add: roundTiesToEven_def Let_def)
qed

lemma floor_log2:
  assumes "p = 2 powr (of_int e)" and "p \<le> x" and "x < 2 * p"
  shows "\<lfloor>log 2 x\<rfloor> = e"
proof -
  have p: "0 < p"
    using assms(1) by simp
  then have x: "0 < x"
    using assms(2) by linarith
  have "log 2 p \<le> log 2 x"
    using p x assms(2) by simp
  moreover have "log 2 x < log 2 (2 * p)"
    using p x assms(3) by simp
  moreover have "log 2 p = of_int e"
    using assms(1) by simp
  moreover have "log 2 (2 * p) = of_int e + 1"
    using p \<open>log 2 p = of_int e\<close> by (simp add: log_mult)
  ultimately show ?thesis
    by (intro floor_unique) linarith+
qed

lemma f64_eqI:
  assumes "p = 2 powr (of_int e)" and "p \<le> \<bar>x\<bar>" and "\<bar>x\<bar> < 2 * p"
    and "y = of_int m * (p / 2 ^ 52)" and "\<bar>x - y\<bar> < p / 2 ^ 53" and "- 1022 \<le> e"
  shows "f64 x = y"
proof -
  have p: "0 < p"
    using assms(1) by simp
  then have x0: "x \<noteq> 0"
    using assms(2) by auto
  have "\<lfloor>log 2 \<bar>x\<bar>\<rfloor> = e"
    using assms(1,2,3) by (rule floor_log2)
  then have e: "max \<lfloor>log 2 \<bar>x\<bar>\<rfloor> (- 1022) = e"
    using \<open>- 1022 \<le> e\<close> by simp
  have ulp: "2 powr (of_int e - 52) = p / 2 ^ 52"
    using assms(1) by (simp add: powr_diff)
  let ?u = "p / 2 ^ 52"
  have u: "0 < ?u"
    using p by simp
  have "x / ?u - of_int m = (x - y) / ?u"
    using u assms(4) by (simp add: field_simps)
  then have "\<bar>x / ?u - of_int m\<bar> = \<bar>x - y\<bar> / ?u"
    using u by (simp add: abs_divide del: times_divide_eq_right divide_divide_eq_right)
  also have "\<dots> < (p / 2 ^ 53) / ?u"
    using assms(5) u by (simp add: divide_strict_right_mono)
  also have "\<dots> = 1 / 2"
    using p by simp
  finally have "roundTiesToEven (x / ?u) = m"
    by (rule roundTiesToEven_near)
  then show ?thesis
    using x0 by (simp add: f64_def e ulp Let_def assms(4))
qed



lemma f64_sqrt_eqI:
  assumes "p = 2 powr (of_int e)" and "p\<^sup>2 \<le> q" and "q < (2 * p)\<^sup>2"
    and "y = of_int m * (p / 2 ^ 52)" and "0 \<le> y - p / 2 ^ 53"
    and "(y - p / 2 ^ 53)\<^sup>2 < q" and "q < (y + p / 2 ^ 53)\<^sup>2" and "- 1022 \<le> e"
  shows "f64 (sqrt q) = y"
proof -
  have p: "0 < p"
    using assms(1) by simp
  have "p \<le> sqrt q"
    using assms(2) p by (simp add: real_le_rsqrt)
  moreover have "sqrt q < 2 * p"
    using assms(3) p by (intro real_less_lsqrt) simp_all
  moreover have "y - p / 2 ^ 53 < sqrt q"
    using assms(5,6) by (intro real_less_rsqrt) simp_all
  moreover have "sqrt q < y + p / 2 ^ 53"
    using assms(5,7) p by (intro real_less_lsqrt) (simp_all add: add_nonneg_nonneg)
  ultimately have "p \<le> \<bar>sqrt q\<bar>" "\<bar>sqrt q\<bar> < 2 * p" "\<bar>sqrt q - y\<bar> < p / 2 ^ 53"
    using p by linarith+
  from f64_eqI [OF assms(1) this(1,2) assms(4) this(3) assms(8)] show ?thesis .
qed

lemma f64_zeroI:
  assumes "\<bar>x\<bar> < 2 powr (- 1075)"
  shows "f64 x = 0"
proof (cases "x = 0")
  case True
  then show ?thesis
    by (simp add: f64_def)
next
  case False
  then have x: "0 < \<bar>x\<bar>"
    by simp
  have "log 2 \<bar>x\<bar> < - 1075"
    using x assms by (simp add: log_less_iff)
  then have "\<lfloor>log 2 \<bar>x\<bar>\<rfloor> \<le> - 1022"
    by (simp add: floor_le_iff)
  then have e: "max \<lfloor>log 2 \<bar>x\<bar>\<rfloor> (- 1022) = - 1022"
    by simp
  have "\<bar>x / 2 powr (- 1074)\<bar> = \<bar>x\<bar> / 2 powr (- 1074)"
    by (simp add: abs_divide)
  also have "\<dots> < 2 powr (- 1075) / 2 powr (- 1074)"
    using assms by (simp add: divide_strict_right_mono)
  also have "\<dots> = 2 powr (- 1075 - (- 1074))"
    by (simp only: powr_diff)
  also have "\<dots> = 1 / 2"
    by (simp add: powr_minus_divide)
  finally have "\<bar>x / 2 powr (- 1074) - of_int 0\<bar> < 1 / 2"
    by simp
  then have "roundTiesToEven (x / 2 powr (- 1074)) = 0"
    by (rule roundTiesToEven_near)
  then show ?thesis
    using False by (simp add: f64_def e Let_def)
qed

text \<open>
  Rounding is odd and monotone against the powers of two: it does not cross an
  integer multiple of the unit in the last place, so a power of two that bounds a
  value bounds its rounding.
\<close>

lemma roundTiesToEven_le:
  assumes "r \<le> of_int n"
  shows "roundTiesToEven r \<le> n"
proof (cases "r = of_int n")
  case True
  then show ?thesis
    by (simp add: roundTiesToEven_def Let_def)
next
  case False
  with assms have "r < of_int n"
    by simp
  then have "\<lfloor>r\<rfloor> < n"
    by (simp add: floor_less_iff)
  then have "\<lfloor>r\<rfloor> + 1 \<le> n" "\<lfloor>r\<rfloor> \<le> n"
    by simp_all
  then show ?thesis
    by (simp add: roundTiesToEven_def Let_def)
qed

lemma roundTiesToEven_ge:
  assumes "of_int n \<le> r"
  shows "n \<le> roundTiesToEven r"
proof -
  have "n \<le> \<lfloor>r\<rfloor>"
    using assms by (simp add: le_floor_iff)
  then have "n \<le> \<lfloor>r\<rfloor> + 1"
    by simp
  with \<open>n \<le> \<lfloor>r\<rfloor>\<close> show ?thesis
    by (simp add: roundTiesToEven_def Let_def)
qed

lemma roundTiesToEven_minus: "roundTiesToEven (- r) = - roundTiesToEven r"
proof (cases "r = of_int \<lfloor>r\<rfloor>")
  case True
  then have "- r = of_int (- \<lfloor>r\<rfloor>)"
    by simp
  then have "\<lfloor>- r\<rfloor> = - \<lfloor>r\<rfloor>"
    by (metis floor_of_int)
  with True show ?thesis
    by (simp add: roundTiesToEven_def Let_def)
next
  case False
  define f where "f = \<lfloor>r\<rfloor>"
  from False have ne: "of_int \<lfloor>r\<rfloor> \<noteq> r"
    by (rule not_sym)
  have le: "of_int \<lfloor>r\<rfloor> \<le> r"
    by (rule of_int_floor_le)
  from ne le have "of_int \<lfloor>r\<rfloor> < r"
    by (rule order.not_eq_order_implies_strict)
  then have lo: "of_int f < r"
    by (simp only: f_def)
  have hi: "r < of_int f + 1"
    unfolding f_def by linarith
  have f': "\<lfloor>- r\<rfloor> = - f - 1"
    using lo hi by (intro floor_unique) simp_all
  have d: "- r - of_int (- f - 1) = 1 - (r - of_int f)"
    by simp
  show ?thesis
    unfolding roundTiesToEven_def Let_def f' d f_def [symmetric]
    using lo hi by auto
qed

lemma f64_minus: "f64 (- x) = - f64 x"
  by (simp add: f64_def Let_def roundTiesToEven_minus)

lemma f64_nonneg:
  assumes "0 \<le> x"
  shows "0 \<le> f64 x"
proof (cases "x = 0")
  case True
  then show ?thesis
    by (simp add: f64_def)
next
  case False
  define u :: real where "u = 2 powr (of_int (max \<lfloor>log 2 \<bar>x\<bar>\<rfloor> (- 1022)) - 52)"
  have u: "0 < u"
    by (simp add: u_def)
  then have "of_int 0 \<le> x / u"
    using assms by simp
  then have "0 \<le> roundTiesToEven (x / u)"
    by (rule roundTiesToEven_ge)
  then have "0 \<le> of_int (roundTiesToEven (x / u)) * u"
    using u by simp
  then show ?thesis
    using False by (simp add: f64_def Let_def u_def)
qed

lemma f64_le_pow2:
  assumes "0 \<le> x" and "x \<le> 2 powr (of_int k)" and "- 1074 \<le> k"
  shows "f64 x \<le> 2 powr (of_int k)"
proof (cases "x = 0")
  case True
  then show ?thesis
    by (simp add: f64_def)
next
  case False
  with assms(1) have x: "0 < x"
    by simp
  define e where "e = max \<lfloor>log 2 \<bar>x\<bar>\<rfloor> (- 1022)"
  define u :: real where "u = 2 powr (of_int e - 52)"
  have u: "0 < u"
    by (simp add: u_def)
  have "log 2 x \<le> of_int k"
    using x assms(2) by (simp add: log_le_iff)
  then have "\<lfloor>log 2 x\<rfloor> \<le> k"
    by (subst floor_le_iff) linarith
  then have ek: "e \<le> k + 52"
    using assms(3) x by (simp add: e_def)
  define n where "n = nat (k + 52 - e)"
  have n: "of_int k = of_int e - 52 + real n"
    using ek by (simp add: n_def)
  have pk: "2 powr (of_int k) = of_int (2 ^ n) * u"
    unfolding u_def n by (simp add: powr_add powr_realpow mult.commute)
  have "x / u \<le> of_int (2 ^ n)"
    using assms(2) u unfolding pk by (simp add: field_simps)
  then have "roundTiesToEven (x / u) \<le> 2 ^ n"
    by (rule roundTiesToEven_le)
  then have "of_int (roundTiesToEven (x / u)) * u \<le> of_int (2 ^ n) * u"
    using u by (simp add: mult_right_mono del: of_int_power)
  then show ?thesis
    using False unfolding pk by (simp add: f64_def Let_def u_def e_def)
qed

lemma f64_ge_pow2:
  assumes "2 powr (of_int k) \<le> x" and "- 1074 \<le> k"
  shows "2 powr (of_int k) \<le> f64 x"
proof -
  have "0 < (2::real) powr (of_int k)"
    by simp
  with assms(1) have x: "0 < x"
    by linarith
  define e0 where "e0 = \<lfloor>log 2 \<bar>x\<bar>\<rfloor>"
  define e where "e = max e0 (- 1022)"
  define u :: real where "u = 2 powr (of_int e - 52)"
  have u: "0 < u"
    by (simp add: u_def)
  have "of_int k \<le> log 2 x"
    using x assms(1) by (simp add: le_log_iff)
  then have ke0: "k \<le> e0"
    using x by (simp add: e0_def le_floor_iff)
  define j where "j = (if e - 52 \<le> k then k else e0)"
  have j1: "e - 52 \<le> j" and j2: "k \<le> j" and j3: "j \<le> e0"
    using ke0 assms(2) by (auto simp: j_def e_def)
  have "of_int e0 \<le> log 2 x"
    using x by (simp add: e0_def)
  then have "of_int j \<le> log 2 x"
    using j3 by (meson of_int_le_iff order_trans)
  then have jx: "2 powr (of_int j) \<le> x"
    using x by (simp add: powr_le_iff)
  define n where "n = nat (j + 52 - e)"
  have n: "of_int j = of_int e - 52 + real n"
    using j1 by (simp add: n_def)
  have pj: "2 powr (of_int j) = of_int (2 ^ n) * u"
    unfolding u_def n by (simp add: powr_add powr_realpow mult.commute)
  have "of_int (2 ^ n) \<le> x / u"
    using jx u unfolding pj by (simp add: field_simps)
  then have "2 ^ n \<le> roundTiesToEven (x / u)"
    by (rule roundTiesToEven_ge)
  then have "of_int (2 ^ n) * u \<le> of_int (roundTiesToEven (x / u)) * u"
    using u by (simp add: mult_right_mono del: of_int_power)
  then have "2 powr (of_int j) \<le> f64 x"
    using x unfolding pj by (simp add: f64_def Let_def u_def e_def e0_def)
  moreover have "2 powr (of_int k) \<le> (2::real) powr (of_int j)"
    using j2 by simp
  ultimately show ?thesis
    by linarith
qed

lemma f64_abs_le_pow2:
  assumes "\<bar>x\<bar> \<le> 2 powr (of_int k)" and "- 1074 \<le> k"
  shows "\<bar>f64 x\<bar> \<le> 2 powr (of_int k)"
proof (cases "0 \<le> x")
  case True
  with assms f64_le_pow2 [of x k] f64_nonneg [of x] show ?thesis
    by simp
next
  case False
  then have "0 \<le> - x" "- x \<le> 2 powr (of_int k)"
    using assms(1) by simp_all
  from f64_le_pow2 [OF this assms(2)] f64_nonneg [OF this(1)] show ?thesis
    by (simp add: f64_minus)
qed

lemma f64_abs_ge_pow2:
  assumes "2 powr (of_int k) \<le> \<bar>x\<bar>" and "- 1074 \<le> k"
  shows "2 powr (of_int k) \<le> \<bar>f64 x\<bar>"
proof (cases "0 \<le> x")
  case True
  with assms f64_ge_pow2 [of k x] show ?thesis
    by simp
next
  case False
  then have "2 powr (of_int k) \<le> - x"
    using assms(1) by simp
  from f64_ge_pow2 [OF this assms(2)] show ?thesis
    by (simp add: f64_minus)
qed

lemma f64_0: "f64 0 = 0"
  by (simp add: f64_def)

lemma f64_1: "f64 1 = 1"
  using f64_le_pow2 [of 1 0] f64_ge_pow2 [of 0 1] by simp

lemma f64_power2: "f64 (2 ^ n) = 2 ^ n"
proof -
  have p: "(2::real) powr real n = 2 ^ n"
    by (simp add: powr_realpow)
  have "f64 (2 ^ n) \<le> 2 ^ n"
    using f64_le_pow2 [of "2 ^ n" "int n"] by (simp add: p)
  moreover have "2 ^ n \<le> f64 (2 ^ n)"
    using f64_ge_pow2 [of "int n" "2 ^ n"] by (simp add: p)
  ultimately show ?thesis
    by linarith
qed

lemma f64_abs_le_power2:
  assumes "\<bar>x\<bar> \<le> 2 ^ n"
  shows "\<bar>f64 x\<bar> \<le> 2 ^ n"
  using f64_abs_le_pow2 [of x "int n"] assms by (simp add: powr_realpow)

lemma overflow_threshold_gt: "n \<le> 1023 \<Longrightarrow> (2::real) ^ n < overflow_threshold"
proof -
  assume "n \<le> 1023"
  then have "(2::real) ^ n \<le> 2 ^ 1023"
    by (intro power_increasing) simp_all
  also have "\<dots> < overflow_threshold"
    by (simp add: overflow_threshold_def)
  finally show ?thesis .
qed

lemma round64_finite:
  assumes "\<bar>x\<bar> \<le> 2 ^ n" and "n \<le> 1023"
  shows "round64 x = Finite (f64 x)"
proof -
  have "2 ^ n < overflow_threshold"
    using assms(2) by (rule overflow_threshold_gt)
  with assms(1) have "\<not> overflow_threshold \<le> x" "\<not> x \<le> - overflow_threshold"
    by linarith+
  then show ?thesis
    by (simp add: round64_def)
qed

lemma round64_unit:
  assumes "0 \<le> x" and "x \<le> 1"
  shows "round64 x = Finite (f64 x)" and "0 \<le> f64 x" and "f64 x \<le> 1"
proof -
  show "round64 x = Finite (f64 x)"
    using round64_finite [of x 0] assms by simp
  show "0 \<le> f64 x"
    using assms(1) by (rule f64_nonneg)
  show "f64 x \<le> 1"
    using f64_le_pow2 [of x 0] assms by simp
qed

lemma f64_ge_inverse_power2:
  assumes "1 / 2 ^ n \<le> x" and "n \<le> 1074"
  shows "1 / 2 ^ n \<le> f64 x"
proof -
  have p: "(2::real) powr (- real n) = 1 / 2 ^ n"
    by (simp add: powr_minus_divide powr_realpow)
  show ?thesis
    using f64_ge_pow2 [of "- int n" x] assms by (simp add: p)
qed
lemma round64_0: "round64 0 = Finite 0"
  by (simp add: round64_def overflow_threshold_def f64_0)

text \<open>
  \<^verbatim>\<open>NaN\<close> is never the result of a rounding, and it is absorbing.
\<close>

lemma round64_not_NaN: "round64 x \<noteq> NaN"
  by (simp add: round64_def)

lemma js_eq_Finite: "js_eq a (Finite x) \<longleftrightarrow> a = Finite x"
  by (auto simp: js_eq_def)

lemma js_NaN:
  "js_add NaN b = NaN" "js_add a NaN = NaN" "js_sub NaN b = NaN" "js_sub a NaN = NaN"
  "js_mul NaN b = NaN" "js_mul a NaN = NaN" "js_div NaN b = NaN" "js_div a NaN = NaN"
  by (cases a; simp add: js_sub_def)+

lemma round64_small_value:
  assumes "\<bar>x\<bar> \<le> 2 ^ 1023"
  shows "round64 x = Finite (f64 x)"
  using assms by (rule round64_finite) simp

text \<open>
  Bounds on the results of operations whose operands are only known within bounds,
  and on the rounded logarithm.
\<close>

lemma js_add_abs:
  assumes "\<bar>x\<bar> \<le> 2 ^ m" and "\<bar>y\<bar> \<le> 2 ^ m" and "m < 1023"
  shows "\<exists>z. js_add (Finite x) (Finite y) = Finite z \<and> \<bar>z\<bar> \<le> 2 ^ Suc m"
proof -
  have b: "\<bar>x + y\<bar> \<le> 2 ^ Suc m"
    using assms(1,2) by simp
  have "js_add (Finite x) (Finite y) = Finite (f64 (x + y))"
    using round64_finite [OF b] assms(3) by simp
  with f64_abs_le_power2 [OF b] show ?thesis
    by blast
qed

lemma js_sub_abs:
  assumes "\<bar>x\<bar> \<le> 2 ^ m" and "\<bar>y\<bar> \<le> 2 ^ m" and "m < 1023"
  shows "\<exists>z. js_sub (Finite x) (Finite y) = Finite z \<and> \<bar>z\<bar> \<le> 2 ^ Suc m"
  using js_add_abs [of x m "- y"] assms by (simp add: js_sub_def)

lemma js_mul_abs:
  assumes "\<bar>x\<bar> \<le> 2 ^ m" and "\<bar>y\<bar> \<le> 2 ^ n" and "m + n \<le> 1023"
  shows "\<exists>z. js_mul (Finite x) (Finite y) = Finite z \<and> \<bar>z\<bar> \<le> 2 ^ (m + n)"
proof -
  have "\<bar>x\<bar> * \<bar>y\<bar> \<le> 2 ^ m * 2 ^ n"
    using assms(1,2) by (intro mult_mono) simp_all
  then have b: "\<bar>x * y\<bar> \<le> 2 ^ (m + n)"
    by (simp add: abs_mult power_add)
  have "js_mul (Finite x) (Finite y) = Finite (f64 (x * y))"
    using round64_finite [OF b assms(3)] by simp
  with f64_abs_le_power2 [OF b] show ?thesis
    by blast
qed

lemma f64_ln_abs:
  assumes "1 \<le> x" and "x \<le> 2 ^ n"
  shows "\<bar>f64 (ln x)\<bar> \<le> 2 ^ n"
proof -
  have "0 \<le> ln x"
    using assms(1) by simp
  moreover have "ln x \<le> x"
    using assms(1) by (intro ln_bound) simp
  ultimately have "\<bar>ln x\<bar> \<le> 2 ^ n"
    using assms(2) by simp
  then show ?thesis
    by (rule f64_abs_le_power2)
qed

lemma power2_le_500: "n \<le> 500 \<Longrightarrow> \<bar>z\<bar> \<le> 2 ^ n \<Longrightarrow> \<bar>z :: real\<bar> \<le> 2 ^ 500"
proof -
  assume "n \<le> 500" and z: "\<bar>z\<bar> \<le> 2 ^ n"
  then have "(2::real) ^ n \<le> 2 ^ 500"
    by (intro power_increasing) simp_all
  with z show ?thesis
    by linarith
qed

lemma f64_between:
  assumes "2 ^ lo \<le> x" and "x \<le> 2 ^ hi"
  shows "2 ^ lo \<le> f64 x" and "f64 x \<le> 2 ^ hi"
proof -
  have x: "0 \<le> x"
    using assms(1) by (meson order_trans zero_le_numeral zero_le_power)
  show "2 ^ lo \<le> f64 x"
    using f64_ge_pow2 [of "int lo" x] assms(1) by (simp add: powr_realpow)
  show "f64 x \<le> 2 ^ hi"
    using f64_le_pow2 [of x "int hi"] assms(2) x by (simp add: powr_realpow)
qed

lemma round64_between:
  assumes "2 ^ lo \<le> x" and "x \<le> 2 ^ hi" and "hi \<le> 1023"
  shows "\<exists>z. round64 x = Finite z \<and> 2 ^ lo \<le> z \<and> z \<le> 2 ^ hi"
proof -
  have "0 \<le> x"
    using assms(1) by (meson order_trans zero_le_numeral zero_le_power)
  with assms(2) have "\<bar>x\<bar> \<le> 2 ^ hi"
    by simp
  from round64_finite [OF this assms(3)] f64_between [OF assms(1,2)] show ?thesis
    by blast
qed

lemma ln_between:
  assumes "3 ^ a \<le> x" and "x \<le> 2 ^ b"
  shows "real a \<le> ln x" and "ln x \<le> real b"
proof -
  have "(0::real) < 3 ^ a"
    by simp
  with assms(1) have x: "0 < x"
    by linarith
  have "exp (real a) = exp 1 ^ a"
    using exp_of_nat_mult [of a "1::real"] by simp
  also have "\<dots> \<le> 3 ^ a"
    by (intro power_mono exp_le) simp
  finally have "exp (real a) \<le> x"
    using assms(1) by linarith
  then show "real a \<le> ln x"
    using x by (simp add: ln_ge_iff)
  have "(2::real) \<le> exp 1"
    using exp_ge_add_one_self [of 1] by simp
  then have "(2::real) ^ b \<le> exp 1 ^ b"
    by (intro power_mono) simp_all
  also have "\<dots> = exp (real b)"
    using exp_of_nat_mult [of b "1::real"] by simp
  finally have "x \<le> exp (real b)"
    using assms(2) by linarith
  then have "exp (ln x) \<le> exp (real b)"
    using x by simp
  then show "ln x \<le> real b"
    by (simp only: exp_le_cancel_iff)
qed

lemma f64_ln_between:
  assumes "3 ^ 4 \<le> x" and "x \<le> 2 ^ 2 ^ hi"
  shows "2 ^ 2 \<le> f64 (ln x)" and "f64 (ln x) \<le> 2 ^ hi"
proof -
  from ln_between [OF assms] have "2 ^ 2 \<le> ln x" "ln x \<le> 2 ^ hi"
    by simp_all
  then show "2 ^ 2 \<le> f64 (ln x)" and "f64 (ln x) \<le> 2 ^ hi"
    by (rule f64_between)+
qed

subsection \<open>Permissible voltages\<close>

text \<open>
  C2. \<^verbatim>\<open>calculatePermissibleVoltages\<close> has three classes of fault duration. For
  \<open>0 < t \<le> 3\<close> the result is the short-duration record built from
  \<^verbatim>\<open>calculateMaxTouchVoltage\<close> and \<^verbatim>\<open>calculateMaxStepVoltage\<close>; for \<open>t > 3\<close> it
  is the long-duration record with the fixed body current 0.006 A applied to the base
  resistances \<open>1000 + 1.5 cs rho_s\<close> and \<open>1000 + 6 cs rho_s\<close>; for \<open>t \<le> 0\<close> both
  voltages are 0 and the duration is short. Hence the duration is long exactly when
  \<open>t > 3\<close>.
\<close>

theorem calculatePermissibleVoltages_classes:
  "(0 < t \<and> t \<le> 3 \<longrightarrow>
      calculatePermissibleVoltages t cs rho_s bw =
        \<lparr>vPasso = calculateMaxStepVoltage t cs rho_s bw,
         vToque = calculateMaxTouchVoltage t cs rho_s bw,
         duration = curta\<rparr>) \<and>
   (3 < t \<longrightarrow>
      calculatePermissibleVoltages t cs rho_s bw =
        \<lparr>vPasso = 0.006 * (1000 + 6 * cs * rho_s),
         vToque = 0.006 * (1000 + 1.5 * cs * rho_s),
         duration = longa\<rparr>) \<and>
   (t \<le> 0 \<longrightarrow>
      calculatePermissibleVoltages t cs rho_s bw =
        \<lparr>vPasso = 0, vToque = 0, duration = curta\<rparr>) \<and>
   (duration (calculatePermissibleVoltages t cs rho_s bw) = longa \<longleftrightarrow> 3 < t)"
  by (simp add: calculatePermissibleVoltages_def LONG_DURATION_THRESHOLD_def
      LONG_DURATION_BODY_CURRENT_def Let_def)

theorem calculatePermissibleVoltages_classes_witness:
  "calculatePermissibleVoltages 3 1 100 W50 =
     \<lparr>vPasso = calculateMaxStepVoltage 3 1 100 W50,
      vToque = calculateMaxTouchVoltage 3 1 100 W50,
      duration = curta\<rparr> \<and>
   calculatePermissibleVoltages 4 1 100 W50 =
     \<lparr>vPasso = 9.6, vToque = 6.9, duration = longa\<rparr> \<and>
   calculatePermissibleVoltages 0 1 100 W50 =
     \<lparr>vPasso = 0, vToque = 0, duration = curta\<rparr> \<and>
   duration (calculatePermissibleVoltages 3 1 100 W50) \<noteq> longa \<and>
   duration (calculatePermissibleVoltages 4 1 100 W50) = longa"
  using calculatePermissibleVoltages_classes [of 3 1 100 W50]
    calculatePermissibleVoltages_classes [of 4 1 100 W50]
    calculatePermissibleVoltages_classes [of 0 1 100 W50]
  by simp



subsection \<open>Irregularity factor\<close>

text \<open>
  C10. \<^verbatim>\<open>calculateKi\<close> validates nothing: for every real \<open>n\<close>, also \<open>n \<le> 0\<close>, it
  is the line \<open>0.656 + 0.172 n\<close>. Its only zero is the root of that line,
  \<open>n = -0.656 / 0.172\<close>, left of which it is negative; no guard replaces the value by
  a neutral 0, whereas \<^verbatim>\<open>calculateKm\<close> and \<^verbatim>\<open>calculateKs\<close> return 0 for every
  \<open>n \<le> 0\<close>.
\<close>

theorem calculateKi_unvalidated:
  "calculateKi n = 0.656 + 0.172 * n \<and>
   (n < - 0.656 / 0.172 \<longrightarrow> calculateKi n < 0) \<and>
   (calculateKi n = 0 \<longleftrightarrow> n = - 0.656 / 0.172) \<and>
   (n \<le> 0 \<longrightarrow> calculateKm D h d n hasRods = 0 \<and> calculateKs D h n = 0) \<and>
   calculateKi 0 = 0.656"
  by (simp add: calculateKi_def calculateKm_def calculateKs_def) argo

theorem calculateKi_unvalidated_witness:
  "calculateKi (-4) = - 0.032 \<and> calculateKi (-4) < 0 \<and> calculateKi (-4) \<noteq> 0 \<and>
   calculateKm 5 0.5 0.01 (-4) True = 0 \<and> calculateKs 5 0.5 (-4) = 0"
  using calculateKi_unvalidated [of "-4" 5 "0.5" "0.01" True]
  by simp

subsection \<open>Conductor sizing\<close>


text \<open>
  The input of the example below consists of doubles.
\<close>

lemma binary64_inputs:
  "f64 10 = 10 \<and> f64 (1 / 2) = (1 / 2) \<and> f64 (1 / 256) = (1 / 256) \<and> f64 (7 / 4) = (7 / 4) \<and>
   f64 (7 / 2) = (7 / 2) \<and> f64 660 = 660 \<and> f64 20 = 20"
proof (intro conjI)
  show "f64 10 = 10"
    by (rule f64_eqI [where e = "3" and p = "8" and m = 5629499534213120]) simp_all
  show "f64 (1 / 2) = (1 / 2)"
    by (rule f64_eqI [where e = "- 1" and p = "(1 / 2)" and m = 4503599627370496]) (simp_all add: powr_minus_divide)
  show "f64 (1 / 256) = (1 / 256)"
    by (rule f64_eqI [where e = "- 8" and p = "(1 / 256)" and m = 4503599627370496]) (simp_all add: powr_minus_divide)
  show "f64 (7 / 4) = (7 / 4)"
    by (rule f64_eqI [where e = "0" and p = "1" and m = 7881299347898368]) simp_all
  show "f64 (7 / 2) = (7 / 2)"
    by (rule f64_eqI [where e = "1" and p = "2" and m = 7881299347898368]) simp_all
  show "f64 660 = 660"
    by (rule f64_eqI [where e = "9" and p = "512" and m = 5805421394657280]) simp_all
  show "f64 20 = 20"
    by (rule f64_eqI [where e = "4" and p = "16" and m = 5629499534213120]) simp_all
qed

text \<open>
  The exponential function between a partial sum of its series and the same sum
  with the Lagrange remainder, and from there the place of \<open>ln 3.5\<close> among the
  three candidates.
\<close>

lemma exp_partial_sum:
  fixes x :: real
  assumes "0 \<le> x" and "exp x \<le> c"
  shows "(\<Sum>m<n. x ^ m / fact m) \<le> exp x"
    and "exp x \<le> (\<Sum>m<n. x ^ m / fact m) + c * x ^ n / fact n"
proof -
  obtain t where t: "\<bar>t\<bar> \<le> \<bar>x\<bar>"
    and e: "exp x = (\<Sum>m<n. x ^ m / fact m) + exp t / fact n * x ^ n"
    using Maclaurin_exp_le [of x n] by blast
  have "t \<le> x"
    using t assms(1) by simp
  then have tc: "exp t \<le> c"
    using assms(2) by (meson exp_le_cancel_iff order_trans)
  have xn: "0 \<le> x ^ n / fact n"
    using assms(1) by simp
  have "0 \<le> exp t * (x ^ n / fact n)"
    by (rule mult_nonneg_nonneg [OF _ xn]) simp
  then show "(\<Sum>m<n. x ^ m / fact m) \<le> exp x"
    using e by simp
  have "exp t * (x ^ n / fact n) \<le> c * (x ^ n / fact n)"
    using tc xn by (rule mult_right_mono)
  then show "exp x \<le> (\<Sum>m<n. x ^ m / fact m) + c * x ^ n / fact n"
    using e by simp
qed

lemma exp_below_4:
  fixes x :: real
  assumes "0 \<le> x" and "x \<le> 63 / 50"
  shows "exp x \<le> 4"
proof -
  have "exp x \<le> exp (1 + 13 / 50 :: real)"
    using assms(2) by simp
  also have "\<dots> = exp 1 * exp (13 / 50 :: real)"
    by (rule exp_add)
  also have "\<dots> \<le> 3 * (1 + 13 / 50 + (13 / 50)\<^sup>2)"
  proof (rule mult_mono)
    show "exp (1 :: real) \<le> 3"
      by (rule exp_le)
    show "exp (13 / 50 :: real) \<le> 1 + 13 / 50 + (13 / 50)\<^sup>2"
      by (rule exp_bound) simp_all
  qed simp_all
  also have "\<dots> \<le> 4"
    by (simp add: power2_eq_square)
  finally show ?thesis .
qed

lemma exp_horner_0: "exp_horner x k 0 = 0"
  by (simp add: exp_horner_def)

lemma exp_horner_term:
  "x ^ Suc m * fact k / fact (k + Suc m) =
     x / (real k + 1) * (x ^ m * fact (Suc k) / fact (Suc k + m))"
proof -
  define F :: real where "F = fact (Suc k + m)"
  have nz: "real k + 1 \<noteq> 0"
    by (simp add: add_nonneg_eq_0_iff)
  have f1: "(fact (k + Suc m) :: real) = F"
    by (simp add: F_def)
  have f2: "(fact (Suc k) :: real) = (real k + 1) * fact k"
    by (simp add: algebra_simps)
  have "x / (real k + 1) * (x ^ m * ((real k + 1) * fact k) / F) = x ^ Suc m * fact k / F"
    using nz by simp
  then show ?thesis
    by (simp only: f1 f2 F_def [symmetric])
qed

lemma exp_horner_Suc: "exp_horner x k (Suc n) = 1 + x / (real k + 1) * exp_horner x (Suc k) n"
proof -
  have "exp_horner x k (Suc n) = 1 + (\<Sum>m<n. x ^ Suc m * fact k / fact (k + Suc m))"
    unfolding exp_horner_def by (subst sum.lessThan_Suc_shift) simp
  also have "(\<Sum>m<n. x ^ Suc m * fact k / fact (k + Suc m)) =
               (\<Sum>m<n. x / (real k + 1) * (x ^ m * fact (Suc k) / fact (Suc k + m)))"
    by (simp only: exp_horner_term)
  also have "\<dots> = x / (real k + 1) * exp_horner x (Suc k) n"
    unfolding exp_horner_def by (simp only: sum_distrib_left)
  finally show ?thesis .
qed

lemma exp_horner_sum: "(\<Sum>m<n. x ^ m / fact m) = exp_horner x 0 n"
  by (simp add: exp_horner_def)

lemma exp_nearest: "7 / 2 < exp ln_3_5_nearest"
proof -
  have "7 / 2 < (\<Sum>m<22. ln_3_5_nearest ^ m / fact m)"
    unfolding exp_horner_sum ln_3_5_nearest_def
    by (simp add: eval_nat_numeral exp_horner_Suc exp_horner_0)
  also have "\<dots> \<le> exp ln_3_5_nearest"
    by (rule exp_partial_sum(1) [where c = "exp ln_3_5_nearest"]) (simp_all add: ln_3_5_nearest_def)
  finally show ?thesis .
qed

lemma exp_midpoint: "exp ((ln_3_5_below + ln_3_5_nearest) / 2) < 7 / 2"
proof -
  define x :: real where "x = 11283885676198591 / 9007199254740992"
  have x: "(ln_3_5_below + ln_3_5_nearest) / 2 = x"
    by (simp add: ln_3_5_below_def ln_3_5_nearest_def x_def)
  have "x ^ 22 \<le> (63 / 50) ^ 22"
    by (rule power_mono) (simp_all add: x_def)
  then have rest: "4 * x ^ 22 / fact 22 \<le> 4 * (63 / 50) ^ 22 / fact 22"
    by (intro divide_right_mono mult_left_mono) simp_all
  have "exp x \<le> (\<Sum>m<22. x ^ m / fact m) + 4 * x ^ 22 / fact 22"
    by (rule exp_partial_sum(2)) (simp_all add: x_def exp_below_4)
  also have "\<dots> \<le> (\<Sum>m<22. x ^ m / fact m) + 4 * (63 / 50) ^ 22 / fact 22"
    using rest by (rule add_left_mono)
  also have "\<dots> < 7 / 2"
    unfolding exp_horner_sum x_def
    by (simp add: eval_nat_numeral exp_horner_Suc exp_horner_0)
  finally show ?thesis
    by (simp only: x)
qed

lemma ln_3_5_bracket:
  "(ln_3_5_below + ln_3_5_nearest) / 2 < ln (7 / 2) \<and> ln (7 / 2) < ln_3_5_nearest"
proof
  have "exp ((ln_3_5_below + ln_3_5_nearest) / 2) < exp (ln (7 / 2 :: real))"
    using exp_midpoint by simp
  then show "(ln_3_5_below + ln_3_5_nearest) / 2 < ln (7 / 2)"
    by (simp only: exp_less_cancel_iff)
  have "exp (ln (7 / 2 :: real)) < exp ln_3_5_nearest"
    using exp_nearest by simp
  then show "ln (7 / 2) < ln_3_5_nearest"
    by (simp only: exp_less_cancel_iff)
qed

lemma f64_ln_3_5: "f64 (ln (7 / 2)) = ln_3_5_nearest"
proof (rule f64_eqI [where e = 0 and p = 1 and m = 5641942838099296])
  have b: "(ln_3_5_below + ln_3_5_nearest) / 2 < ln (7 / 2)" and n: "ln (7 / 2) < ln_3_5_nearest"
    using ln_3_5_bracket by simp_all
  have pos: "1 \<le> ln (7 / 2 :: real)"
    using b by (simp add: ln_3_5_below_def ln_3_5_nearest_def)
  show "1 \<le> \<bar>ln (7 / 2 :: real)\<bar>"
    using pos by simp
  show "\<bar>ln (7 / 2 :: real)\<bar> < 2 * 1"
    using pos n by (simp add: ln_3_5_nearest_def)
  show "\<bar>ln (7 / 2) - ln_3_5_nearest\<bar> < 1 / 2 ^ 53"
    using b n by (simp add: ln_3_5_below_def ln_3_5_nearest_def)
qed (simp_all add: ln_3_5_nearest_def)

lemma ln_3_5_candidates:
  "f64 ln_3_5_below = ln_3_5_below \<and> f64 ln_3_5_nearest = ln_3_5_nearest \<and>
   f64 ln_3_5_above = ln_3_5_above \<and>
   ln_3_5_nearest - ln_3_5_below = 1 / 2 ^ 52 \<and> ln_3_5_above - ln_3_5_nearest = 1 / 2 ^ 52"
proof (intro conjI)
  show "f64 ln_3_5_below = ln_3_5_below"
    unfolding ln_3_5_below_def
    by (rule f64_eqI [where e = 0 and p = 1 and m = 5641942838099295]) simp_all
  show "f64 ln_3_5_nearest = ln_3_5_nearest"
    unfolding ln_3_5_nearest_def
    by (rule f64_eqI [where e = 0 and p = 1 and m = 5641942838099296]) simp_all
  show "f64 ln_3_5_above = ln_3_5_above"
    unfolding ln_3_5_above_def
    by (rule f64_eqI [where e = 0 and p = 1 and m = 5641942838099297]) simp_all
qed (simp_all add: ln_3_5_below_def ln_3_5_nearest_def ln_3_5_above_def)



















































subsection \<open>Grid resistance\<close>

text \<open>
  C3. With positive resistivity, area, conductor length, depth and conductor diameter,
  and no valid rods (the argument absent, or a rod count or rod length that is not
  positive), the combined resistance is the grid-only resistance \<open>R1\<close>: the value
  \<open>(rho / (pi Lc)) (ln (2 Lc / a') + k1 Lc / sqrt A - k2)\<close> that the function reports as
  \<^verbatim>\<open>r1\<close> whatever rods it is given, and \<^verbatim>\<open>r2\<close> and \<^verbatim>\<open>r12\<close> are reported as 0.
\<close>

theorem schwarz_no_valid_rods:
  assumes "0 < rho" and "0 < A" and "0 < Lc" and "0 < h" and "0 < d_mm"
    and "case rods of None \<Rightarrow> True | Some rd \<Rightarrow> count rd \<le> 0 \<or> length_m rd \<le> 0"
  shows "resistance (calculateSchwarzResistance rho A Lx Ly Lc h d_mm rods) =
           (rho / (pi * Lc)) *
             (ln ((2 * Lc) / sqrt ((d_mm / 1000) / 2 * 2 * h)) +
              (k1 (calculateSchwarzResistance rho A Lx Ly Lc h d_mm rods) * Lc) / sqrt A -
              k2 (calculateSchwarzResistance rho A Lx Ly Lc h d_mm rods)) \<and>
         r1 (calculateSchwarzResistance rho A Lx Ly Lc h d_mm rods') =
           Some (resistance (calculateSchwarzResistance rho A Lx Ly Lc h d_mm rods)) \<and>
         r2 (calculateSchwarzResistance rho A Lx Ly Lc h d_mm rods) = Some 0 \<and>
         r12 (calculateSchwarzResistance rho A Lx Ly Lc h d_mm rods) = Some 0"
proof -
  have guards: "\<not> (rho \<le> 0 \<or> A \<le> 0 \<or> Lc \<le> 0 \<or> h \<le> 0 \<or> d_mm \<le> 0)"
    using assms by simp
  show ?thesis
    using assms(6) guards
    by (cases rods; cases rods')
      (simp_all add: calculateSchwarzResistance_def Let_def case_prod_beta)
qed

text \<open>
  The witness is a 50 m by 50 m grid at depth 0.5 m: \<open>h / sqrt A = 0.01\<close> lies between
  the curves A and B, which gives \<open>k1 = 1.348\<close> and \<open>k2 = 5.563\<close>.
\<close>

lemma sqrt_2500: "sqrt 2500 = 50"
  using real_sqrt_abs [of 50] by simp

theorem schwarz_no_valid_rods_witness:
  "r2 (calculateSchwarzResistance 100 2500 50 50 1100 (1/2) 8 None) = Some 0 \<and>
   r12 (calculateSchwarzResistance 100 2500 50 50 1100 (1/2) 8
          (Some \<lparr>count = 0, length_m = 3, diameter_mm = 15\<rparr>)) = Some 0 \<and>
   r1 (calculateSchwarzResistance 100 2500 50 50 1100 (1/2) 8
          (Some \<lparr>count = 4, length_m = 3, diameter_mm = 15\<rparr>)) =
     Some (resistance (calculateSchwarzResistance 100 2500 50 50 1100 (1/2) 8
          (Some \<lparr>count = 4, length_m = 0, diameter_mm = 15\<rparr>))) \<and>
   resistance (calculateSchwarzResistance 100 2500 50 50 1100 (1/2) 8 None) =
     (100 / (pi * 1100)) * (ln (2200 / sqrt 0.004) + (1.348 * 1100) / 50 - 5.563)"
proof -
  have h: "(0::real) < 100" "(0::real) < 2500" "(0::real) < 1100" "(0::real) < 1/2" "(0::real) < 8"
    by simp_all
  have k: "k1 (calculateSchwarzResistance 100 2500 50 50 1100 (1/2) 8 None) = 1.348"
    "k2 (calculateSchwarzResistance 100 2500 50 50 1100 (1/2) 8 None) = 5.563"
    by (simp_all add: calculateSchwarzResistance_def curves_def Let_def sqrt_2500)
  note a = schwarz_no_valid_rods [OF h, where rods = None and Lx = 50 and Ly = 50
      and rods' = None]
  note b = schwarz_no_valid_rods [OF h,
      where rods = "Some \<lparr>count = 0, length_m = 3, diameter_mm = 15\<rparr>"
      and Lx = 50 and Ly = 50 and rods' = None]
  note c = schwarz_no_valid_rods [OF h,
      where rods = "Some \<lparr>count = 4, length_m = 0, diameter_mm = 15\<rparr>"
      and Lx = 50 and Ly = 50
      and rods' = "Some \<lparr>count = 4, length_m = 3, diameter_mm = 15\<rparr>"]
  have "resistance (calculateSchwarzResistance 100 2500 50 50 1100 (1/2) 8 None) =
     (100 / (pi * 1100)) * (ln (2200 / sqrt 0.004) + (1.348 * 1100) / 50 - 5.563)"
    using a by (simp add: k sqrt_2500)
  moreover have "r2 (calculateSchwarzResistance 100 2500 50 50 1100 (1/2) 8 None) = Some 0"
    using a by simp
  moreover have "r12 (calculateSchwarzResistance 100 2500 50 50 1100 (1/2) 8
          (Some \<lparr>count = 0, length_m = 3, diameter_mm = 15\<rparr>)) = Some 0"
    using b by simp
  moreover have "r1 (calculateSchwarzResistance 100 2500 50 50 1100 (1/2) 8
          (Some \<lparr>count = 4, length_m = 3, diameter_mm = 15\<rparr>)) =
     Some (resistance (calculateSchwarzResistance 100 2500 50 50 1100 (1/2) 8
          (Some \<lparr>count = 4, length_m = 0, diameter_mm = 15\<rparr>)))"
    using c by simp
  ultimately show ?thesis
    by simp
qed

text \<open>
  From here on the function is the one in binary64 arithmetic. With three finite
  values of absolute value at most \<open>2\<^sup>5\<^sup>0\<^sup>0\<close> no operation of the combination yields
  \<^verbatim>\<open>NaN\<close>: the products and sums are finite, and a quotient of two finite numbers with
  a divisor that is not 0 is a number or an infinity.
\<close>

lemma combined_not_NaN:
  assumes "\<bar>x1\<bar> \<le> 2 ^ 500" and "\<bar>x2\<bar> \<le> 2 ^ 500" and "\<bar>x12\<bar> \<le> 2 ^ 500"
  shows "(if js_sub (js_add (Finite x1) (Finite x2)) (js_mul (Finite 2) (Finite x12)) = Finite 0
          then Finite x1
          else js_div (js_sub (js_mul (Finite x1) (Finite x2)) (js_mul (Finite x12) (Finite x12)))
                 (js_sub (js_add (Finite x1) (Finite x2)) (js_mul (Finite 2) (Finite x12)))) \<noteq> NaN"
proof -
  have "\<bar>x1 * x2\<bar> \<le> 2 ^ 500 * 2 ^ 500"
    unfolding abs_mult using assms(1,2) by (intro mult_mono) simp_all
  then have p: "\<bar>x1 * x2\<bar> \<le> 2 ^ 1000"
    by (simp add: power_add [symmetric])
  have "\<bar>x12 * x12\<bar> \<le> 2 ^ 500 * 2 ^ 500"
    unfolding abs_mult using assms(3) by (intro mult_mono) simp_all
  then have q: "\<bar>x12 * x12\<bar> \<le> 2 ^ 1000"
    by (simp add: power_add [symmetric])
  have pq: "\<bar>f64 (x1 * x2) - f64 (x12 * x12)\<bar> \<le> 2 ^ 1001"
    using f64_abs_le_power2 [OF p] f64_abs_le_power2 [OF q] by simp
  have num: "js_sub (js_mul (Finite x1) (Finite x2)) (js_mul (Finite x12) (Finite x12)) =
      Finite (f64 (f64 (x1 * x2) - f64 (x12 * x12)))"
    using round64_finite [OF p] round64_finite [OF q] round64_finite [OF pq]
    by (simp add: js_sub_def)
  have s: "\<bar>x1 + x2\<bar> \<le> 2 ^ 501"
    using assms(1,2) by simp
  have t: "\<bar>2 * x12\<bar> \<le> 2 ^ 501"
    using assms(3) by simp
  have st: "\<bar>f64 (x1 + x2) - f64 (2 * x12)\<bar> \<le> 2 ^ 502"
    using f64_abs_le_power2 [OF s] f64_abs_le_power2 [OF t] by simp
  have den: "js_sub (js_add (Finite x1) (Finite x2)) (js_mul (Finite 2) (Finite x12)) =
      Finite (f64 (f64 (x1 + x2) - f64 (2 * x12)))"
    using round64_finite [OF s] round64_finite [OF t] round64_finite [OF st]
    by (simp add: js_sub_def)
  show ?thesis
    unfolding num den by (simp add: round64_not_NaN)
qed

text \<open>
  What the function returns for rods that pass both of its checks.
\<close>

lemma schwarz_valid_rods:
  fixes js_log :: "real \<Rightarrow> real" and js_pow :: "real \<Rightarrow> real \<Rightarrow> js_number" and Lx Ly :: real
  assumes "0 < rho" and "0 < A" and "0 < Lc" and "0 < h" and "0 < d_mm"
    and "0 < count rd" and "0 < length_m rd"
    and "js_div (js_div (Finite (diameter_mm rd)) (Finite 1000)) (Finite 2) \<noteq> Finite 0"
  defines "out \<equiv> calculateSchwarzResistance_f64 js_log js_pow rho A Lx Ly Lc h d_mm (Some rd)"
    and "b \<equiv> js_div (js_div (Finite (diameter_mm rd)) (Finite 1000)) (Finite 2)"
    and "a_prime \<equiv> js_sqrt (js_mul (js_mul (js_div (js_div (Finite d_mm) (Finite 1000)) (Finite 2))
                         (Finite 2)) (Finite h))"
  defines "R1 \<equiv> js_mul (js_div (Finite rho) (js_mul (Finite Math_PI) (Finite Lc)))
                    (js_sub (js_add (Math_log js_log (js_div (js_mul (Finite 2) (Finite Lc)) a_prime))
                               (js_div (js_mul (k1_f64 out) (Finite Lc)) (js_sqrt (Finite A))))
                       (k2_f64 out))"
    and "R2 \<equiv> js_mul (js_div (Finite rho)
                            (js_mul (js_mul (js_mul (Finite 2) (Finite Math_PI)) (Finite (count rd)))
                               (Finite (length_m rd))))
                    (js_add (js_sub (Math_log js_log
                                       (js_div (js_mul (Finite 4) (Finite (length_m rd))) b))
                               (Finite 1))
                       (js_mul (js_div (js_mul (js_mul (Finite 2) (k1_f64 out)) (Finite (length_m rd)))
                                  (js_sqrt (Finite A)))
                          (Math_pow_2 js_pow (js_sub (js_sqrt (Finite (count rd))) (Finite 1)))))"
    and "R12 \<equiv> js_mul (js_div (Finite rho) (js_mul (Finite Math_PI) (Finite Lc)))
                     (js_add (js_sub (js_add (Math_log js_log
                                                (js_div (js_mul (Finite 2) (Finite Lc))
                                                   (Finite (length_m rd))))
                                        (js_div (js_mul (k1_f64 out) (Finite Lc)) (js_sqrt (Finite A))))
                                (k2_f64 out))
                        (Finite 1))"
  shows "r1_f64 out = Some R1" and "r2_f64 out = Some R2" and "r12_f64 out = Some R12"
    and "resistance_f64 out =
       (if js_sub (js_add R1 R2) (js_mul (Finite 2) R12) = Finite 0 then R1
        else js_div (js_sub (js_mul R1 R2) (js_mul R12 R12))
               (js_sub (js_add R1 R2) (js_mul (Finite 2) R12)))"
proof -
  have guards: "\<not> (rho \<le> 0 \<or> A \<le> 0 \<or> Lc \<le> 0 \<or> h \<le> 0 \<or> d_mm \<le> 0)"
    using assms(1-5) by simp
  have rods: "\<not> (count rd \<le> 0 \<or> length_m rd \<le> 0)"
    "\<not> (count rd = 0 \<or> length_m rd = 0 \<or> js_eq (js_div (js_div (Finite (diameter_mm rd)) (Finite 1000)) (Finite 2)) (Finite 0))"
    using assms(6-8) by (simp_all add: js_eq_Finite del: js_div.simps)
  show "r1_f64 out = Some R1" and "r2_f64 out = Some R2" and "r12_f64 out = Some R12"
    and "resistance_f64 out =
       (if js_sub (js_add R1 R2) (js_mul (Finite 2) R12) = Finite 0 then R1
        else js_div (js_sub (js_mul R1 R2) (js_mul R12 R12))
               (js_sub (js_add R1 R2) (js_mul (Finite 2) R12)))"
    unfolding R1_def R2_def R12_def a_prime_def b_def out_def
    using guards rods
    by (simp_all add: calculateSchwarzResistance_f64_def Let_def case_prod_beta js_eq_Finite
        del: js_add.simps js_mul.simps js_div.simps js_sqrt.simps js_le.simps)
qed

lemma schwarz_valid_rods_combined:
  assumes "0 < rho" and "0 < A" and "0 < Lc" and "0 < h" and "0 < d_mm"
    and "0 < count rd" and "0 < length_m rd"
    and "js_div (js_div (Finite (diameter_mm rd)) (Finite 1000)) (Finite 2) \<noteq> Finite 0"
  shows "\<exists>R1 R2 R12.
    r1_f64 (calculateSchwarzResistance_f64 js_log js_pow rho A Lx Ly Lc h d_mm (Some rd)) = Some R1 \<and>
    r2_f64 (calculateSchwarzResistance_f64 js_log js_pow rho A Lx Ly Lc h d_mm (Some rd)) = Some R2 \<and>
    r12_f64 (calculateSchwarzResistance_f64 js_log js_pow rho A Lx Ly Lc h d_mm (Some rd)) = Some R12 \<and>
    resistance_f64 (calculateSchwarzResistance_f64 js_log js_pow rho A Lx Ly Lc h d_mm (Some rd)) =
       (if js_sub (js_add R1 R2) (js_mul (Finite 2) R12) = Finite 0 then R1
        else js_div (js_sub (js_mul R1 R2) (js_mul R12 R12))
               (js_sub (js_add R1 R2) (js_mul (Finite 2) R12)))"
  using schwarz_valid_rods [OF assms, of js_log js_pow Lx Ly] by blast

text \<open>
  The two coefficients do not depend on the rods: they are the interpolation between
  the curves at \<open>h / sqrt A\<close>, applied to the ratio of the sides.
\<close>

lemma schwarz_coefficients:
  assumes "0 < rho" and "0 < A" and "0 < Lc" and "0 < h" and "0 < d_mm"
  shows "(k1_f64 (calculateSchwarzResistance_f64 js_log js_pow rho A Lx Ly Lc h d_mm rods),
          k2_f64 (calculateSchwarzResistance_f64 js_log js_pow rho A Lx Ly Lc h d_mm rods)) =
     (let L = max Lx Ly;
          W = min Lx Ly;
          lwRatio = (if W > 0 then js_div (Finite L) (Finite W) else Finite 1);
          h_sqrtA = js_div (Finite h) (js_sqrt (Finite A));
          c0 = curves_f64 ! 0;
          c1 = curves_f64 ! 1;
          c2 = curves_f64 ! 2;
          (k1_m, k1_b, k2_m, k2_b) =
            (if js_le h_sqrtA (Finite 0) then
               (Finite (k1m c0), Finite (k1b c0), Finite (k2m c0), Finite (k2b c0))
             else if js_le (Finite (h_ref c2)) h_sqrtA then
               (Finite (k1m c2), Finite (k1b c2), Finite (k2m c2), Finite (k2b c2))
             else if js_le h_sqrtA (Finite (f64 0.1)) then
               (let factor = js_div (js_sub h_sqrtA (Finite 0))
                               (js_sub (Finite (f64 0.1)) (Finite 0))
                in (js_add (Finite (k1m c0))
                      (js_mul (js_sub (Finite (k1m c1)) (Finite (k1m c0))) factor),
                    js_add (Finite (k1b c0))
                      (js_mul (js_sub (Finite (k1b c1)) (Finite (k1b c0))) factor),
                    js_add (Finite (k2m c0))
                      (js_mul (js_sub (Finite (k2m c1)) (Finite (k2m c0))) factor),
                    js_add (Finite (k2b c0))
                      (js_mul (js_sub (Finite (k2b c1)) (Finite (k2b c0))) factor)))
             else
               (let factor = js_div (js_sub h_sqrtA (Finite (f64 0.1)))
                               (js_sub (Finite (h_ref c2)) (Finite (f64 0.1)))
                in (js_add (Finite (k1m c1))
                      (js_mul (js_sub (Finite (k1m c2)) (Finite (k1m c1))) factor),
                    js_add (Finite (k1b c1))
                      (js_mul (js_sub (Finite (k1b c2)) (Finite (k1b c1))) factor),
                    js_add (Finite (k2m c1))
                      (js_mul (js_sub (Finite (k2m c2)) (Finite (k2m c1))) factor),
                    js_add (Finite (k2b c1))
                      (js_mul (js_sub (Finite (k2b c2)) (Finite (k2b c1))) factor))))
      in (js_add (js_mul k1_m lwRatio) k1_b, js_add (js_mul k2_m lwRatio) k2_b))"
proof -
  have guards: "\<not> (rho \<le> 0 \<or> A \<le> 0 \<or> Lc \<le> 0 \<or> h \<le> 0 \<or> d_mm \<le> 0)"
    using assms by simp
  show ?thesis
    using guards
    by (cases rods)
      (simp_all add: calculateSchwarzResistance_f64_def Let_def case_prod_beta
        del: js_add.simps js_mul.simps js_div.simps js_sqrt.simps js_le.simps)
qed

text \<open>
  The operations of the function on three inputs, each with its rounding: the grid
  50 m by 50 m at depth 0.5 m with 1100 m of conductor of 8 mm and four rods of 3 m
  and 15 mm, in a soil of 100 ohm m; the same grid with rods of diameter -15 mm; and
  a grid 64 m by 64 m at depth 16 m with 1024 m of conductor and four rods of 1/64 m
  and 1 mm, in a soil of resistivity \<open>2\<^sup>1\<^sup>0\<^sup>2\<^sup>3\<close>.
\<close>

lemma f64_value_1: "f64 (1 / 125) = (1152921504606847 / 144115188075855872)"
  by (rule f64_eqI [where e = "- 7" and p = "(1 / 128)" and m = 4611686018427388]) (simp_all add: powr_minus_divide)

lemma schwarz_op_1: "js_div (Finite 8) (Finite 1000) = Finite (1152921504606847 / 144115188075855872)"
  by (simp add: js_sub_def round64_small_value f64_value_1)

lemma f64_value_2: "f64 (1152921504606847 / 288230376151711744) = (1152921504606847 / 288230376151711744)"
  by (rule f64_eqI [where e = "- 8" and p = "(1 / 256)" and m = 4611686018427388]) (simp_all add: powr_minus_divide)

lemma schwarz_op_2: "js_div (Finite (1152921504606847 / 144115188075855872)) (Finite 2) = Finite (1152921504606847 / 288230376151711744)"
  by (simp add: js_sub_def round64_small_value f64_value_2)

lemma f64_value_3: "f64 (1152921504606847 / 144115188075855872) = (1152921504606847 / 144115188075855872)"
  by (rule f64_eqI [where e = "- 7" and p = "(1 / 128)" and m = 4611686018427388]) (simp_all add: powr_minus_divide)

lemma schwarz_op_3: "js_mul (Finite (1152921504606847 / 288230376151711744)) (Finite 2) = Finite (1152921504606847 / 144115188075855872)"
  by (simp add: js_sub_def round64_small_value f64_value_3)

lemma schwarz_op_4: "js_mul (Finite (1152921504606847 / 144115188075855872)) (Finite (1 / 2)) = Finite (1152921504606847 / 288230376151711744)"
  by (simp add: js_sub_def round64_small_value f64_value_2)

lemma schwarz_op_5: "js_sqrt (Finite (1152921504606847 / 288230376151711744)) = Finite (2278661198716217 / 36028797018963968)"
proof -
  have "f64 (sqrt (1152921504606847 / 288230376151711744)) = (2278661198716217 / 36028797018963968)"
    by (rule f64_sqrt_eqI [where e = "- 4" and p = "(1 / 16)" and m = 4557322397432434])
      (simp_all add: power2_eq_square powr_minus_divide)
  then show ?thesis
    by (simp only: js_sqrt.simps) simp
qed

lemma f64_value_4: "f64 1 = 1"
  by (rule f64_eqI [where e = "0" and p = "1" and m = 4503599627370496]) simp_all

lemma schwarz_op_6: "js_div (Finite 50) (Finite 50) = Finite 1"
  by (simp add: js_sub_def round64_small_value f64_value_4)

lemma schwarz_op_7: "js_sqrt (Finite 2500) = Finite 50"
proof -
  have "f64 (sqrt 2500) = 50"
    by (rule f64_sqrt_eqI [where e = "5" and p = "32" and m = 7036874417766400])
      (simp_all add: power2_eq_square)
  then show ?thesis
    by (simp only: js_sqrt.simps) simp
qed

lemma f64_value_5: "f64 (1 / 100) = (5764607523034235 / 576460752303423488)"
  by (rule f64_eqI [where e = "- 7" and p = "(1 / 128)" and m = 5764607523034235]) (simp_all add: powr_minus_divide)

lemma schwarz_op_8: "js_div (Finite (1 / 2)) (Finite 50) = Finite (5764607523034235 / 576460752303423488)"
  by (simp add: js_sub_def round64_small_value f64_value_5)

lemma f64_value_6: "f64 (- (1 / 25)) = (- (5764607523034235 / 144115188075855872))"
  by (rule f64_eqI [where e = "- 5" and p = "(1 / 32)" and m = "- 5764607523034235"]) (simp_all add: powr_minus_divide)

lemma f64_value_7: "f64 (141 / 100) = (6350075474592399 / 4503599627370496)"
  by (rule f64_eqI [where e = "0" and p = "1" and m = 6350075474592399]) simp_all

lemma f64_value_8: "f64 (3 / 20) = (5404319552844595 / 36028797018963968)"
  by (rule f64_eqI [where e = "- 3" and p = "(1 / 8)" and m = 5404319552844595]) (simp_all add: powr_minus_divide)

lemma f64_value_9: "f64 (11 / 2) = (11 / 2)"
  by (rule f64_eqI [where e = "2" and p = "4" and m = 6192449487634432]) simp_all

lemma f64_value_10: "f64 (1 / 10) = (3602879701896397 / 36028797018963968)"
  by (rule f64_eqI [where e = "- 4" and p = "(1 / 16)" and m = 7205759403792794]) (simp_all add: powr_minus_divide)

lemma f64_value_11: "f64 (- (1 / 20)) = (- (3602879701896397 / 72057594037927936))"
  by (rule f64_eqI [where e = "- 5" and p = "(1 / 32)" and m = "- 7205759403792794"]) (simp_all add: powr_minus_divide)

lemma f64_value_12: "f64 (6 / 5) = (5404319552844595 / 4503599627370496)"
  by (rule f64_eqI [where e = "0" and p = "1" and m = 5404319552844595]) simp_all

lemma f64_value_13: "f64 (117 / 25) = (658651445502935 / 140737488355328)"
  by (rule f64_eqI [where e = "2" and p = "4" and m = 5269211564023480]) simp_all

lemma f64_value_14: "f64 (1 / 6) = (6004799503160661 / 36028797018963968)"
  by (rule f64_eqI [where e = "- 3" and p = "(1 / 8)" and m = 6004799503160661]) (simp_all add: powr_minus_divide)

lemma f64_value_15: "f64 (113 / 100) = (1272266894732165 / 1125899906842624)"
  by (rule f64_eqI [where e = "0" and p = "1" and m = 5089067578928660]) simp_all

lemma f64_value_16: "f64 (22 / 5) = (2476979795053773 / 562949953421312)"
  by (rule f64_eqI [where e = "2" and p = "4" and m = 4953959590107546]) simp_all

lemma f64_value_17: "f64 (5764607523034235 / 576460752303423488) = (5764607523034235 / 576460752303423488)"
  by (rule f64_eqI [where e = "- 7" and p = "(1 / 128)" and m = 5764607523034235]) (simp_all add: powr_minus_divide)

lemma schwarz_op_20: "js_sub (Finite (5764607523034235 / 576460752303423488)) (Finite 0) = Finite (5764607523034235 / 576460752303423488)"
  by (simp add: js_sub_def round64_small_value f64_value_17)

lemma f64_value_18: "f64 (3602879701896397 / 36028797018963968) = (3602879701896397 / 36028797018963968)"
  by (rule f64_eqI [where e = "- 4" and p = "(1 / 16)" and m = 7205759403792794]) (simp_all add: powr_minus_divide)

lemma schwarz_op_21: "js_sub (Finite (3602879701896397 / 36028797018963968)) (Finite 0) = Finite (3602879701896397 / 36028797018963968)"
  by (simp add: js_sub_def round64_small_value f64_value_18)

lemma f64_value_19: "f64 (5764607523034235 / 57646075230342352) = (7205759403792793 / 72057594037927936)"
  by (rule f64_eqI [where e = "- 4" and p = "(1 / 16)" and m = 7205759403792793]) (simp_all add: powr_minus_divide)

lemma schwarz_op_22: "js_div (Finite (5764607523034235 / 576460752303423488)) (Finite (3602879701896397 / 36028797018963968)) = Finite (7205759403792793 / 72057594037927936)"
  by (simp add: js_sub_def round64_small_value f64_value_19)

lemma f64_value_20: "f64 (- (1441151880758559 / 144115188075855872)) = (- (1441151880758559 / 144115188075855872))"
  by (rule f64_eqI [where e = "- 7" and p = "(1 / 128)" and m = "- 5764607523034236"]) (simp_all add: powr_minus_divide)

lemma schwarz_op_23: "js_sub (Finite (- (3602879701896397 / 72057594037927936))) (Finite (- (5764607523034235 / 144115188075855872))) = Finite (- (1441151880758559 / 144115188075855872))"
  by (simp add: js_sub_def round64_small_value f64_value_20)

lemma f64_value_21: "f64 (- (10384593717069656409982497265287 / 10384593717069655257060992658440192)) = (- (1152921504606847 / 1152921504606846976))"
  by (rule f64_eqI [where e = "- 10" and p = "(1 / 1024)" and m = "- 4611686018427388"]) (simp_all add: powr_minus_divide)

lemma schwarz_op_24: "js_mul (Finite (- (1441151880758559 / 144115188075855872))) (Finite (7205759403792793 / 72057594037927936)) = Finite (- (1152921504606847 / 1152921504606846976))"
  by (simp add: js_sub_def round64_small_value f64_value_21)

lemma f64_value_22: "f64 (- (47269781688880727 / 1152921504606846976)) = (- (5908722711110091 / 144115188075855872))"
  by (rule f64_eqI [where e = "- 5" and p = "(1 / 32)" and m = "- 5908722711110091"]) (simp_all add: powr_minus_divide)

lemma schwarz_op_25: "js_add (Finite (- (5764607523034235 / 144115188075855872))) (Finite (- (1152921504606847 / 1152921504606846976))) = Finite (- (5908722711110091 / 144115188075855872))"
  by (simp add: js_sub_def round64_small_value f64_value_22)

lemma f64_value_23: "f64 (- (236438980436951 / 1125899906842624)) = (- (236438980436951 / 1125899906842624))"
  by (rule f64_eqI [where e = "- 3" and p = "(1 / 8)" and m = "- 7566047373982432"]) (simp_all add: powr_minus_divide)

lemma schwarz_op_26: "js_sub (Finite (5404319552844595 / 4503599627370496)) (Finite (6350075474592399 / 4503599627370496)) = Finite (- (236438980436951 / 1125899906842624))"
  by (simp add: js_sub_def round64_small_value f64_value_23)

lemma f64_value_24: "f64 (- (1703722406706739885517804694143 / 81129638414606681695789005144064)) = (- (6052837899185945 / 288230376151711744))"
  by (rule f64_eqI [where e = "- 6" and p = "(1 / 64)" and m = "- 6052837899185945"]) (simp_all add: powr_minus_divide)

lemma schwarz_op_27: "js_mul (Finite (- (236438980436951 / 1125899906842624))) (Finite (7205759403792793 / 72057594037927936)) = Finite (- (6052837899185945 / 288230376151711744))"
  by (simp add: js_sub_def round64_small_value f64_value_24)

lemma f64_value_25: "f64 (400351992474727591 / 288230376151711744) = (6255499882417619 / 4503599627370496)"
  by (rule f64_eqI [where e = "0" and p = "1" and m = 6255499882417619]) simp_all

lemma schwarz_op_28: "js_add (Finite (6350075474592399 / 4503599627370496)) (Finite (- (6052837899185945 / 288230376151711744))) = Finite (6255499882417619 / 4503599627370496)"
  by (simp add: js_sub_def round64_small_value f64_value_25)

lemma f64_value_26: "f64 (- (900719925474099 / 18014398509481984)) = (- (900719925474099 / 18014398509481984))"
  by (rule f64_eqI [where e = "- 5" and p = "(1 / 32)" and m = "- 7205759403792792"]) (simp_all add: powr_minus_divide)

lemma schwarz_op_29: "js_sub (Finite (3602879701896397 / 36028797018963968)) (Finite (5404319552844595 / 36028797018963968)) = Finite (- (900719925474099 / 18014398509481984))"
  by (simp add: js_sub_def round64_small_value f64_value_26)

lemma f64_value_27: "f64 (- (6490371073168532554079284368507 / 1298074214633706907132624082305024)) = (- (5764607523034233 / 1152921504606846976))"
  by (rule f64_eqI [where e = "- 8" and p = "(1 / 256)" and m = "- 5764607523034233"]) (simp_all add: powr_minus_divide)

lemma schwarz_op_30: "js_mul (Finite (- (900719925474099 / 18014398509481984))) (Finite (7205759403792793 / 72057594037927936)) = Finite (- (5764607523034233 / 1152921504606846976))"
  by (simp add: js_sub_def round64_small_value f64_value_27)

lemma f64_value_28: "f64 (167173618167992807 / 1152921504606846976) = (5224175567749775 / 36028797018963968)"
  by (rule f64_eqI [where e = "- 3" and p = "(1 / 8)" and m = 5224175567749775]) (simp_all add: powr_minus_divide)

lemma schwarz_op_31: "js_add (Finite (5404319552844595 / 36028797018963968)) (Finite (- (5764607523034233 / 1152921504606846976))) = Finite (5224175567749775 / 36028797018963968)"
  by (simp add: js_sub_def round64_small_value f64_value_28)

lemma f64_value_29: "f64 (- (115404740451369 / 140737488355328)) = (- (115404740451369 / 140737488355328))"
  by (rule f64_eqI [where e = "- 1" and p = "(1 / 2)" and m = "- 7385903388887616"]) (simp_all add: powr_minus_divide)

lemma schwarz_op_32: "js_sub (Finite (658651445502935 / 140737488355328)) (Finite (11 / 2)) = Finite (- (115404740451369 / 140737488355328))"
  by (simp add: js_sub_def round64_small_value f64_value_29)

lemma f64_value_30: "f64 (- (831578793749718706369369183617 / 10141204801825835211973625643008)) = (- (1477180677777523 / 18014398509481984))"
  by (rule f64_eqI [where e = "- 4" and p = "(1 / 16)" and m = "- 5908722711110092"]) (simp_all add: powr_minus_divide)

lemma schwarz_op_33: "js_mul (Finite (- (115404740451369 / 140737488355328))) (Finite (7205759403792793 / 72057594037927936)) = Finite (- (1477180677777523 / 18014398509481984))"
  by (simp add: js_sub_def round64_small_value f64_value_30)

lemma f64_value_31: "f64 (97602011124373389 / 18014398509481984) = (6100125695273337 / 1125899906842624)"
  by (rule f64_eqI [where e = "2" and p = "4" and m = 6100125695273337]) simp_all

lemma schwarz_op_34: "js_add (Finite (11 / 2)) (Finite (- (1477180677777523 / 18014398509481984))) = Finite (6100125695273337 / 1125899906842624)"
  by (simp add: js_sub_def round64_small_value f64_value_31)

lemma f64_value_32: "f64 (- (5908722711110091 / 144115188075855872)) = (- (5908722711110091 / 144115188075855872))"
  by (rule f64_eqI [where e = "- 5" and p = "(1 / 32)" and m = "- 5908722711110091"]) (simp_all add: powr_minus_divide)

lemma schwarz_op_35: "js_mul (Finite (- (5908722711110091 / 144115188075855872))) (Finite 1) = Finite (- (5908722711110091 / 144115188075855872))"
  by (simp add: js_sub_def round64_small_value f64_value_32)

lemma f64_value_33: "f64 (194267273526253717 / 144115188075855872) = (6070852297695429 / 4503599627370496)"
  by (rule f64_eqI [where e = "0" and p = "1" and m = 6070852297695429]) simp_all

lemma schwarz_op_36: "js_add (Finite (- (5908722711110091 / 144115188075855872))) (Finite (6255499882417619 / 4503599627370496)) = Finite (6070852297695429 / 4503599627370496)"
  by (simp add: js_sub_def round64_small_value f64_value_33)

lemma f64_value_34: "f64 (5224175567749775 / 36028797018963968) = (5224175567749775 / 36028797018963968)"
  by (rule f64_eqI [where e = "- 3" and p = "(1 / 8)" and m = 5224175567749775]) (simp_all add: powr_minus_divide)

lemma schwarz_op_37: "js_mul (Finite (5224175567749775 / 36028797018963968)) (Finite 1) = Finite (5224175567749775 / 36028797018963968)"
  by (simp add: js_sub_def round64_small_value f64_value_34)

lemma f64_value_35: "f64 (200428197816496559 / 36028797018963968) = (6263381181765517 / 1125899906842624)"
  by (rule f64_eqI [where e = "2" and p = "4" and m = 6263381181765517]) simp_all

lemma schwarz_op_38: "js_add (Finite (5224175567749775 / 36028797018963968)) (Finite (6100125695273337 / 1125899906842624)) = Finite (6263381181765517 / 1125899906842624)"
  by (simp add: js_sub_def round64_small_value f64_value_35)

lemma f64_value_36: "f64 2200 = 2200"
  by (rule f64_eqI [where e = "11" and p = "2048" and m = 4837851162214400]) simp_all

lemma schwarz_op_39: "js_mul (Finite 2) (Finite 1100) = Finite 2200"
  by (simp add: js_sub_def round64_small_value f64_value_36)

lemma f64_value_37: "f64 (79263353441720729600 / 2278661198716217) = (298801340888481 / 8589934592)"
  by (rule f64_eqI [where e = "15" and p = "32768" and m = 4780821454215696]) simp_all

lemma schwarz_op_40: "js_div (Finite 2200) (Finite (2278661198716217 / 36028797018963968)) = Finite (298801340888481 / 8589934592)"
  by (simp add: js_sub_def round64_small_value f64_value_37)

lemma f64_value_38: "f64 (1669484381866242975 / 1125899906842624) = (1630355841666253 / 1099511627776)"
  by (rule f64_eqI [where e = "10" and p = "1024" and m = 6521423366665012]) simp_all

lemma schwarz_op_41: "js_mul (Finite (6070852297695429 / 4503599627370496)) (Finite 1100) = Finite (1630355841666253 / 1099511627776)"
  by (simp add: js_sub_def round64_small_value f64_value_38)

lemma f64_value_39: "f64 (1630355841666253 / 54975581388800) = (8347421909331215 / 281474976710656)"
  by (rule f64_eqI [where e = "4" and p = "16" and m = 8347421909331215]) simp_all

lemma schwarz_op_42: "js_div (Finite (1630355841666253 / 1099511627776)) (Finite 50) = Finite (8347421909331215 / 281474976710656)"
  by (simp add: js_sub_def round64_small_value f64_value_39)

lemma f64_value_40: "f64 (243176922725977625 / 70368744177664) = (7599278835186801 / 2199023255552)"
  by (rule f64_eqI [where e = "11" and p = "2048" and m = 7599278835186801]) simp_all

lemma schwarz_op_43: "js_mul (Finite Math_PI) (Finite 1100) = Finite (7599278835186801 / 2199023255552)"
  by (simp add: js_sub_def round64_small_value f64_value_40 Math_PI_def)

lemma f64_value_41: "f64 (219902325555200 / 7599278835186801) = (521287376292969 / 18014398509481984)"
  by (rule f64_eqI [where e = "- 6" and p = "(1 / 64)" and m = 8340598020687504]) (simp_all add: powr_minus_divide)

lemma schwarz_op_44: "js_div (Finite 100) (Finite (7599278835186801 / 2199023255552)) = Finite (521287376292969 / 18014398509481984)"
  by (simp add: js_sub_def round64_small_value f64_value_41)

lemma f64_value_42: "f64 (3 / 200) = (1080863910568919 / 72057594037927936)"
  by (rule f64_eqI [where e = "- 7" and p = "(1 / 128)" and m = 8646911284551352]) (simp_all add: powr_minus_divide)

lemma schwarz_op_45: "js_div (Finite 15) (Finite 1000) = Finite (1080863910568919 / 72057594037927936)"
  by (simp add: js_sub_def round64_small_value f64_value_42)

lemma f64_value_43: "f64 (1080863910568919 / 144115188075855872) = (1080863910568919 / 144115188075855872)"
  by (rule f64_eqI [where e = "- 8" and p = "(1 / 256)" and m = 8646911284551352]) (simp_all add: powr_minus_divide)

lemma schwarz_op_46: "js_div (Finite (1080863910568919 / 72057594037927936)) (Finite 2) = Finite (1080863910568919 / 144115188075855872)"
  by (simp add: js_sub_def round64_small_value f64_value_43)

lemma f64_value_44: "f64 12 = 12"
  by (rule f64_eqI [where e = "3" and p = "8" and m = 6755399441055744]) simp_all

lemma schwarz_op_47: "js_mul (Finite 4) (Finite 3) = Finite 12"
  by (simp add: js_sub_def round64_small_value f64_value_44)

lemma f64_value_45: "f64 (1729382256910270464 / 1080863910568919) = 1600"
  by (rule f64_eqI [where e = "10" and p = "1024" and m = 7036874417766400]) simp_all

lemma schwarz_op_48: "js_div (Finite 12) (Finite (1080863910568919 / 144115188075855872)) = Finite 1600"
  by (simp add: js_sub_def round64_small_value f64_value_45)

lemma schwarz_op_49: "js_sqrt (Finite 4) = Finite 2"
proof -
  have "f64 (sqrt 4) = 2"
    by (rule f64_sqrt_eqI [where e = "1" and p = "2" and m = 4503599627370496])
      (simp_all add: power2_eq_square)
  then show ?thesis
    by (simp only: js_sqrt.simps) simp
qed

lemma schwarz_op_50: "js_sub (Finite 2) (Finite 1) = Finite 1"
  by (simp add: js_sub_def round64_small_value f64_value_4)

lemma f64_value_46: "f64 (6070852297695429 / 2251799813685248) = (6070852297695429 / 2251799813685248)"
  by (rule f64_eqI [where e = "1" and p = "2" and m = 6070852297695429]) simp_all

lemma schwarz_op_51: "js_mul (Finite 2) (Finite (6070852297695429 / 4503599627370496)) = Finite (6070852297695429 / 2251799813685248)"
  by (simp add: js_sub_def round64_small_value f64_value_46)

lemma f64_value_47: "f64 (18212556893086287 / 2251799813685248) = (1138284805817893 / 140737488355328)"
  by (rule f64_eqI [where e = "3" and p = "8" and m = 4553139223271572]) simp_all

lemma schwarz_op_52: "js_mul (Finite (6070852297695429 / 2251799813685248)) (Finite 3) = Finite (1138284805817893 / 140737488355328)"
  by (simp add: js_sub_def round64_small_value f64_value_47)

lemma f64_value_48: "f64 (1138284805817893 / 7036874417766400) = (1457004551446903 / 9007199254740992)"
  by (rule f64_eqI [where e = "- 3" and p = "(1 / 8)" and m = 5828018205787612]) (simp_all add: powr_minus_divide)

lemma schwarz_op_53: "js_div (Finite (1138284805817893 / 140737488355328)) (Finite 50) = Finite (1457004551446903 / 9007199254740992)"
  by (simp add: js_sub_def round64_small_value f64_value_48)

lemma f64_value_49: "f64 (1457004551446903 / 9007199254740992) = (1457004551446903 / 9007199254740992)"
  by (rule f64_eqI [where e = "- 3" and p = "(1 / 8)" and m = 5828018205787612]) (simp_all add: powr_minus_divide)

lemma schwarz_op_54: "js_mul (Finite (1457004551446903 / 9007199254740992)) (Finite 1) = Finite (1457004551446903 / 9007199254740992)"
  by (simp add: js_sub_def round64_small_value f64_value_49)

lemma f64_value_50: "f64 (884279719003555 / 140737488355328) = (884279719003555 / 140737488355328)"
  by (rule f64_eqI [where e = "2" and p = "4" and m = 7074237752028440]) simp_all

lemma schwarz_op_55: "js_mul (Finite 2) (Finite Math_PI) = Finite (884279719003555 / 140737488355328)"
  by (simp add: js_sub_def round64_small_value f64_value_50 Math_PI_def)

lemma f64_value_51: "f64 (884279719003555 / 35184372088832) = (884279719003555 / 35184372088832)"
  by (rule f64_eqI [where e = "4" and p = "16" and m = 7074237752028440]) simp_all

lemma schwarz_op_56: "js_mul (Finite (884279719003555 / 140737488355328)) (Finite 4) = Finite (884279719003555 / 35184372088832)"
  by (simp add: js_sub_def round64_small_value f64_value_51)

lemma f64_value_52: "f64 (2652839157010665 / 35184372088832) = (2652839157010665 / 35184372088832)"
  by (rule f64_eqI [where e = "6" and p = "64" and m = 5305678314021330]) simp_all

lemma schwarz_op_57: "js_mul (Finite (884279719003555 / 35184372088832)) (Finite 3) = Finite (2652839157010665 / 35184372088832)"
  by (simp add: js_sub_def round64_small_value f64_value_52)

lemma f64_value_53: "f64 (703687441776640 / 530567831402133) = (5973084520023603 / 4503599627370496)"
  by (rule f64_eqI [where e = "0" and p = "1" and m = 5973084520023603]) simp_all

lemma schwarz_op_58: "js_div (Finite 100) (Finite (2652839157010665 / 35184372088832)) = Finite (5973084520023603 / 4503599627370496)"
  by (simp add: js_sub_def round64_small_value f64_value_53)

lemma f64_value_54: "f64 (2200 / 3) = (6450468216285867 / 8796093022208)"
  by (rule f64_eqI [where e = "9" and p = "512" and m = 6450468216285867]) simp_all

lemma schwarz_op_59: "js_div (Finite 2200) (Finite 3) = Finite (6450468216285867 / 8796093022208)"
  by (simp add: js_sub_def round64_small_value f64_value_54)

lemmas schwarz_ops =
  schwarz_op_1 schwarz_op_2 schwarz_op_3 schwarz_op_4 schwarz_op_5 schwarz_op_6
  schwarz_op_7 schwarz_op_8 f64_value_6 f64_value_7 f64_value_8 f64_value_9
  f64_value_10 f64_value_11 f64_value_12 f64_value_13 f64_value_14 f64_value_15
  f64_value_16 schwarz_op_20 schwarz_op_21 schwarz_op_22 schwarz_op_23 schwarz_op_24
  schwarz_op_25 schwarz_op_26 schwarz_op_27 schwarz_op_28 schwarz_op_29 schwarz_op_30
  schwarz_op_31 schwarz_op_32 schwarz_op_33 schwarz_op_34 schwarz_op_35 schwarz_op_36
  schwarz_op_37 schwarz_op_38 schwarz_op_39 schwarz_op_40 schwarz_op_41 schwarz_op_42
  schwarz_op_43 schwarz_op_44 schwarz_op_45 schwarz_op_46 schwarz_op_47 schwarz_op_48
  schwarz_op_49 schwarz_op_50 schwarz_op_51 schwarz_op_52 schwarz_op_53 schwarz_op_54
  schwarz_op_55 schwarz_op_56 schwarz_op_57 schwarz_op_58 schwarz_op_59

lemma f64_value_55: "f64 (1152921504606847 / 9007199254740992) = (1152921504606847 / 9007199254740992)"
  by (rule f64_eqI [where e = "- 3" and p = "(1 / 8)" and m = 4611686018427388]) (simp_all add: powr_minus_divide)

lemma schwarz_op_60: "js_mul (Finite (1152921504606847 / 144115188075855872)) (Finite 16) = Finite (1152921504606847 / 9007199254740992)"
  by (simp add: js_sub_def round64_small_value f64_value_55)

lemma schwarz_op_61: "js_sqrt (Finite (1152921504606847 / 9007199254740992)) = Finite (6445027142555617 / 18014398509481984)"
proof -
  have "f64 (sqrt (1152921504606847 / 9007199254740992)) = (6445027142555617 / 18014398509481984)"
    by (rule f64_sqrt_eqI [where e = "- 2" and p = "(1 / 4)" and m = 6445027142555617])
      (simp_all add: power2_eq_square powr_minus_divide)
  then show ?thesis
    by (simp only: js_sqrt.simps) simp
qed

lemma schwarz_op_62: "js_div (Finite 64) (Finite 64) = Finite 1"
  by (simp add: js_sub_def round64_small_value f64_value_4)

lemma schwarz_op_63: "js_sqrt (Finite 4096) = Finite 64"
proof -
  have "f64 (sqrt 4096) = 64"
    by (rule f64_sqrt_eqI [where e = "6" and p = "64" and m = 4503599627370496])
      (simp_all add: power2_eq_square)
  then show ?thesis
    by (simp only: js_sqrt.simps) simp
qed

lemma f64_value_56: "f64 (1 / 4) = (1 / 4)"
  by (rule f64_eqI [where e = "- 2" and p = "(1 / 4)" and m = 4503599627370496]) (simp_all add: powr_minus_divide)

lemma schwarz_op_64: "js_div (Finite 16) (Finite 64) = Finite (1 / 4)"
  by (simp add: js_sub_def round64_small_value f64_value_56)

lemma f64_value_57: "f64 (- (3602879701896397 / 72057594037927936)) = (- (3602879701896397 / 72057594037927936))"
  by (rule f64_eqI [where e = "- 5" and p = "(1 / 32)" and m = "- 7205759403792794"]) (simp_all add: powr_minus_divide)

lemma schwarz_op_65: "js_mul (Finite (- (3602879701896397 / 72057594037927936))) (Finite 1) = Finite (- (3602879701896397 / 72057594037927936))"
  by (simp add: js_sub_def round64_small_value f64_value_57)

lemma f64_value_58: "f64 (77822201560962163 / 72057594037927936) = (4863887597560135 / 4503599627370496)"
  by (rule f64_eqI [where e = "0" and p = "1" and m = 4863887597560135]) simp_all

lemma schwarz_op_66: "js_add (Finite (- (3602879701896397 / 72057594037927936))) (Finite (1272266894732165 / 1125899906842624)) = Finite (4863887597560135 / 4503599627370496)"
  by (simp add: js_sub_def round64_small_value f64_value_58)

lemma f64_value_59: "f64 (313450534064986547 / 72057594037927936) = (4897664594765415 / 1125899906842624)"
  by (rule f64_eqI [where e = "2" and p = "4" and m = 4897664594765415]) simp_all

lemma schwarz_op_67: "js_add (Finite (- (3602879701896397 / 72057594037927936))) (Finite (2476979795053773 / 562949953421312)) = Finite (4897664594765415 / 1125899906842624)"
  by (simp add: js_sub_def round64_small_value f64_value_59)

lemma f64_value_60: "f64 2048 = 2048"
  by (rule f64_eqI [where e = "11" and p = "2048" and m = 4503599627370496]) simp_all

lemma schwarz_op_68: "js_mul (Finite 2) (Finite 1024) = Finite 2048"
  by (simp add: js_sub_def round64_small_value f64_value_60)

lemma f64_value_61: "f64 (36893488147419103232 / 6445027142555617) = (3146985909450985 / 549755813888)"
  by (rule f64_eqI [where e = "12" and p = "4096" and m = 6293971818901970]) simp_all

lemma schwarz_op_69: "js_div (Finite 2048) (Finite (6445027142555617 / 18014398509481984)) = Finite (3146985909450985 / 549755813888)"
  by (simp add: js_sub_def round64_small_value f64_value_61)

lemma f64_value_62: "f64 (4863887597560135 / 4398046511104) = (4863887597560135 / 4398046511104)"
  by (rule f64_eqI [where e = "10" and p = "1024" and m = 4863887597560135]) simp_all

lemma schwarz_op_70: "js_mul (Finite (4863887597560135 / 4503599627370496)) (Finite 1024) = Finite (4863887597560135 / 4398046511104)"
  by (simp add: js_sub_def round64_small_value f64_value_62)

lemma f64_value_63: "f64 (4863887597560135 / 281474976710656) = (4863887597560135 / 281474976710656)"
  by (rule f64_eqI [where e = "4" and p = "16" and m = 4863887597560135]) simp_all

lemma schwarz_op_71: "js_div (Finite (4863887597560135 / 4398046511104)) (Finite 64) = Finite (4863887597560135 / 281474976710656)"
  by (simp add: js_sub_def round64_small_value f64_value_63)

lemma f64_value_64: "f64 (884279719003555 / 274877906944) = (884279719003555 / 274877906944)"
  by (rule f64_eqI [where e = "11" and p = "2048" and m = 7074237752028440]) simp_all

lemma schwarz_op_72: "js_mul (Finite Math_PI) (Finite 1024) = Finite (884279719003555 / 274877906944)"
  by (simp add: js_sub_def round64_small_value f64_value_64 Math_PI_def)

lemma f64_value_65: "f64 (24707306311927565716857342128774085333197833223161879682238935306082805123046306993647507776054336486228891340858985829027076261887914242781617846672453431386903982455635542158748401823985988322905245077938567513252198179128990807936780194781391547404884040101606295111368825026273254703636026307207764436438929167613952 / 884279719003555) = 27940600446845979791831208035496666681817706319940384478431847187081268907025173312605461832031219686301641109194320541834253258541654142763733003202334351652830697639923562200390638281056131892655777323036058918458277915174707137346067014527465310726930422080194766184653629844073245545701661082849902592"
  by (rule f64_eqI [where e = "1011" and p = "21944496275174754733023745004748837080297570543729328280448007953824789527038691788660702798145451174453138901351488446979832735450978591612896414872982681198457994802840025058142360791167736098566050165049439180766375815715632675961171034001565824849041810386302038359368560295224574744242597208206082048" and m = 5734161139222659]) simp_all

lemma schwarz_op_73: "js_div (Finite 89884656743115795386465259539451236680898848947115328636715040578866337902750481566354238661203768010560056939935696678829394884407208311246423715319737062188883946712432742638151109800623047059726541476042502884419075341171231440736956555270413618581675255342293149119973622969239858152417678164812112068608) (Finite (884279719003555 / 274877906944)) = Finite 27940600446845979791831208035496666681817706319940384478431847187081268907025173312605461832031219686301641109194320541834253258541654142763733003202334351652830697639923562200390638281056131892655777323036058918458277915174707137346067014527465310726930422080194766184653629844073245545701661082849902592"
  by (simp add: js_sub_def round64_small_value f64_value_65)

lemma f64_value_66: "f64 (1 / 1000) = (1152921504606847 / 1152921504606846976)"
  by (rule f64_eqI [where e = "- 10" and p = "(1 / 1024)" and m = 4611686018427388]) (simp_all add: powr_minus_divide)

lemma schwarz_op_74: "js_div (Finite 1) (Finite 1000) = Finite (1152921504606847 / 1152921504606846976)"
  by (simp add: js_sub_def round64_small_value f64_value_66)

lemma f64_value_67: "f64 (1152921504606847 / 2305843009213693952) = (1152921504606847 / 2305843009213693952)"
  by (rule f64_eqI [where e = "- 11" and p = "(1 / 2048)" and m = 4611686018427388]) (simp_all add: powr_minus_divide)

lemma schwarz_op_75: "js_div (Finite (1152921504606847 / 1152921504606846976)) (Finite 2) = Finite (1152921504606847 / 2305843009213693952)"
  by (simp add: js_sub_def round64_small_value f64_value_67)

lemma f64_value_68: "f64 (1 / 16) = (1 / 16)"
  by (rule f64_eqI [where e = "- 4" and p = "(1 / 16)" and m = 4503599627370496]) (simp_all add: powr_minus_divide)

lemma schwarz_op_76: "js_mul (Finite 4) (Finite (1 / 64)) = Finite (1 / 16)"
  by (simp add: js_sub_def round64_small_value f64_value_68)

lemma f64_value_69: "f64 (144115188075855872 / 1152921504606847) = 125"
  by (rule f64_eqI [where e = "6" and p = "64" and m = 8796093022208000]) simp_all

lemma schwarz_op_77: "js_div (Finite (1 / 16)) (Finite (1152921504606847 / 2305843009213693952)) = Finite 125"
  by (simp add: js_sub_def round64_small_value f64_value_69)

lemma f64_value_70: "f64 (4863887597560135 / 2251799813685248) = (4863887597560135 / 2251799813685248)"
  by (rule f64_eqI [where e = "1" and p = "2" and m = 4863887597560135]) simp_all

lemma schwarz_op_78: "js_mul (Finite 2) (Finite (4863887597560135 / 4503599627370496)) = Finite (4863887597560135 / 2251799813685248)"
  by (simp add: js_sub_def round64_small_value f64_value_70)

lemma f64_value_71: "f64 (4863887597560135 / 144115188075855872) = (4863887597560135 / 144115188075855872)"
  by (rule f64_eqI [where e = "- 5" and p = "(1 / 32)" and m = 4863887597560135]) (simp_all add: powr_minus_divide)

lemma schwarz_op_79: "js_mul (Finite (4863887597560135 / 2251799813685248)) (Finite (1 / 64)) = Finite (4863887597560135 / 144115188075855872)"
  by (simp add: js_sub_def round64_small_value f64_value_71)

lemma f64_value_72: "f64 (4863887597560135 / 9223372036854775808) = (4863887597560135 / 9223372036854775808)"
  by (rule f64_eqI [where e = "- 11" and p = "(1 / 2048)" and m = 4863887597560135]) (simp_all add: powr_minus_divide)

lemma schwarz_op_80: "js_div (Finite (4863887597560135 / 144115188075855872)) (Finite 64) = Finite (4863887597560135 / 9223372036854775808)"
  by (simp add: js_sub_def round64_small_value f64_value_72)

lemma schwarz_op_81: "js_mul (Finite (4863887597560135 / 9223372036854775808)) (Finite 1) = Finite (4863887597560135 / 9223372036854775808)"
  by (simp add: js_sub_def round64_small_value f64_value_72)

lemma f64_value_73: "f64 (884279719003555 / 2251799813685248) = (884279719003555 / 2251799813685248)"
  by (rule f64_eqI [where e = "- 2" and p = "(1 / 4)" and m = 7074237752028440]) (simp_all add: powr_minus_divide)

lemma schwarz_op_82: "js_mul (Finite (884279719003555 / 35184372088832)) (Finite (1 / 64)) = Finite (884279719003555 / 2251799813685248)"
  by (simp add: js_sub_def round64_small_value f64_value_73)

lemma schwarz_op_83: "js_div (Finite 89884656743115795386465259539451236680898848947115328636715040578866337902750481566354238661203768010560056939935696678829394884407208311246423715319737062188883946712432742638151109800623047059726541476042502884419075341171231440736956555270413618581675255342293149119973622969239858152417678164812112068608) (Finite (884279719003555 / 2251799813685248)) = PosInfinity"
  by (simp add: js_sub_def round64_def overflow_threshold_def)

lemma f64_value_74: "f64 131072 = 131072"
  by (rule f64_eqI [where e = "17" and p = "131072" and m = 4503599627370496]) simp_all

lemma schwarz_op_84: "js_div (Finite 2048) (Finite (1 / 64)) = Finite 131072"
  by (simp add: js_sub_def round64_small_value f64_value_74)

lemmas overflow_ops =
  schwarz_op_1 schwarz_op_2 schwarz_op_3 schwarz_op_60 schwarz_op_61 schwarz_op_62
  schwarz_op_63 schwarz_op_64 f64_value_6 f64_value_7 f64_value_8 f64_value_9
  f64_value_10 f64_value_11 f64_value_12 f64_value_13 f64_value_14 f64_value_15
  f64_value_16 schwarz_op_65 schwarz_op_66 schwarz_op_67 schwarz_op_68 schwarz_op_69
  schwarz_op_70 schwarz_op_71 schwarz_op_72 schwarz_op_73 schwarz_op_74 schwarz_op_75
  schwarz_op_76 schwarz_op_77 schwarz_op_49 schwarz_op_50 schwarz_op_78 schwarz_op_79
  schwarz_op_80 schwarz_op_81 schwarz_op_55 schwarz_op_56 schwarz_op_82 schwarz_op_83
  schwarz_op_84

lemma f64_3_200: "f64 (3 / 200) = (1080863910568919 / 72057594037927936)"
  by (rule f64_eqI [where e = "- 7" and p = "(1 / 128)" and m = 8646911284551352]) (simp_all add: powr_minus_divide)

lemma f64_rod_radius: "f64 (1080863910568919 / 144115188075855872) = (1080863910568919 / 144115188075855872)"
  by (rule f64_eqI [where e = "- 8" and p = "(1 / 256)" and m = 8646911284551352]) (simp_all add: powr_minus_divide)

lemma f64_12: "f64 12 = 12"
  by (rule f64_eqI [where e = "3" and p = "8" and m = 6755399441055744]) simp_all

lemma f64_rod_ratio: "f64 (1729382256910270464 / 1080863910568919) = 1600"
  by (rule f64_eqI [where e = "10" and p = "1024" and m = 7036874417766400]) simp_all

lemma rod_radius:
  "js_div (js_div (Finite 15) (Finite 1000)) (Finite 2) = Finite (1080863910568919 / 144115188075855872)"
  "js_div (js_div (Finite (- 15)) (Finite 1000)) (Finite 2) = Finite (- (1080863910568919 / 144115188075855872))"
  using f64_minus [of "3 / 200"] f64_minus [of "1080863910568919 / 144115188075855872"]
  by (simp_all add: round64_def overflow_threshold_def f64_3_200 f64_rod_radius)

lemma negative_rod_ratio:
  "js_div (js_mul (Finite 4) (Finite 3)) (Finite (- (1080863910568919 / 144115188075855872))) = Finite (- 1600)"
  using f64_minus [of "1729382256910270464 / 1080863910568919"]
  by (simp add: round64_def overflow_threshold_def f64_12 f64_rod_ratio)

text \<open>
  Rods of diameter -15 mm pass both checks of the function, \<^verbatim>\<open>count <= 0 || length <= 0\<close>
  and \<^verbatim>\<open>nr === 0 || Lr === 0 || b === 0\<close>. Their radius \<open>b\<close> is negative, the
  logarithm of \<open>4 Lr / b\<close> is \<^verbatim>\<open>NaN\<close> whatever the implementation of \<^verbatim>\<open>Math.log\<close>, and so
  are \<^verbatim>\<open>r2\<close>, the denominator, which \<^verbatim>\<open>!== 0\<close> lets through, and the result.
\<close>

lemma schwarz_negative_diameter:
  "\<forall>js_log js_pow.
     resistance_f64 (calculateSchwarzResistance_f64 js_log js_pow 100 2500 50 50 1100 (1 / 2) 8
       (Some \<lparr>count = 4, length_m = 3, diameter_mm = - 15\<rparr>)) = NaN \<and>
     r2_f64 (calculateSchwarzResistance_f64 js_log js_pow 100 2500 50 50 1100 (1 / 2) 8
       (Some \<lparr>count = 4, length_m = 3, diameter_mm = - 15\<rparr>)) = Some NaN"
proof (intro allI)
  fix js_log :: "real \<Rightarrow> real" and js_pow :: "real \<Rightarrow> real \<Rightarrow> js_number"
  let ?rd = "\<lparr>count = 4, length_m = 3, diameter_mm = - 15\<rparr>"
  have h: "(0::real) < 100" "(0::real) < 2500" "(0::real) < 1100" "(0::real) < 1 / 2" "(0::real) < 8"
    "0 < count ?rd" "0 < length_m ?rd"
    "js_div (js_div (Finite (diameter_mm ?rd)) (Finite 1000)) (Finite 2) \<noteq> Finite 0"
    by (simp_all add: rod_radius del: js_div.simps)
  have ln: "Math_log js_log (js_div (js_mul (Finite 4) (Finite (length_m ?rd)))
      (js_div (js_div (Finite (diameter_mm ?rd)) (Finite 1000)) (Finite 2))) = NaN"
    by (simp add: rod_radius negative_rod_ratio Math_log_def del: js_div.simps js_mul.simps)
  note out = schwarz_valid_rods(2,4) [OF h, of js_log js_pow 50 50, unfolded ln js_NaN]
  from out(1) have r2: "r2_f64 (calculateSchwarzResistance_f64 js_log js_pow 100 2500 50 50 1100 (1 / 2) 8
       (Some ?rd)) = Some NaN" .
  from out(2) have "resistance_f64 (calculateSchwarzResistance_f64 js_log js_pow 100 2500 50 50 1100
       (1 / 2) 8 (Some ?rd)) = NaN"
    by simp
  with r2 show "resistance_f64 (calculateSchwarzResistance_f64 js_log js_pow 100 2500 50 50 1100 (1 / 2) 8
       (Some ?rd)) = NaN \<and>
     r2_f64 (calculateSchwarzResistance_f64 js_log js_pow 100 2500 50 50 1100 (1 / 2) 8
       (Some ?rd)) = Some NaN"
    by simp
qed

text \<open>
  With every argument positive the result can still be \<^verbatim>\<open>NaN\<close>. In a soil of
  resistivity \<open>2\<^sup>1\<^sup>0\<^sup>2\<^sup>3\<close>, with a correctly rounded logarithm, \<^verbatim>\<open>r1\<close> and \<^verbatim>\<open>r12\<close> are
  finite and at least \<open>2\<^sup>1\<^sup>0\<^sup>1\<^sup>4\<close> and \<^verbatim>\<open>r2\<close> is infinite; both products of the numerator
  are infinite, and their difference is \<^verbatim>\<open>NaN\<close>, while the denominator is infinite.
\<close>

lemma overflow_k:
  "k1_f64 (calculateSchwarzResistance_f64 js_log js_pow (2 ^ 1023) 4096 64 64 1024 16 8 rods) =
     Finite (4863887597560135 / 4503599627370496)"
  "k2_f64 (calculateSchwarzResistance_f64 js_log js_pow (2 ^ 1023) 4096 64 64 1024 16 8 rods) =
     Finite (4897664594765415 / 1125899906842624)"
proof -
  have h: "(0::real) < 2 ^ 1023" "(0::real) < 4096" "(0::real) < 1024" "(0::real) < 16" "(0::real) < 8"
    by simp_all
  from schwarz_coefficients [OF h, of js_log js_pow 64 64 rods]
  show "k1_f64 (calculateSchwarzResistance_f64 js_log js_pow (2 ^ 1023) 4096 64 64 1024 16 8 rods) =
     Finite (4863887597560135 / 4503599627370496)"
    and "k2_f64 (calculateSchwarzResistance_f64 js_log js_pow (2 ^ 1023) 4096 64 64 1024 16 8 rods) =
     Finite (4897664594765415 / 1125899906842624)"
    by (simp_all add: Let_def case_prod_beta curves_f64_def overflow_ops
        del: js_add.simps js_mul.simps js_div.simps js_sqrt.simps)
qed

lemma overflow_b:
  "js_div (js_div (Finite (diameter_mm \<lparr>count = 4, length_m = 1 / 64, diameter_mm = 1\<rparr>)) (Finite 1000))
     (Finite 2) \<noteq> Finite 0"
  by (simp add: overflow_ops del: js_div.simps)

lemma schwarz_overflow:
  "resistance_f64 (calculateSchwarzResistance_f64 (\<lambda>x. f64 (ln x)) (\<lambda>x y. round64 (x powr y)) (2 ^ 1023) 4096 64 64 1024 16 8
       (Some \<lparr>count = 4, length_m = 1 / 64, diameter_mm = 1\<rparr>)) = NaN"
proof -
  define out where "out = calculateSchwarzResistance_f64 (\<lambda>x. f64 (ln x)) (\<lambda>x y. round64 (x powr y)) (2 ^ 1023) 4096 64 64 1024 16 8
       (Some \<lparr>count = 4, length_m = 1 / 64, diameter_mm = 1\<rparr>)"
  let ?rd = "\<lparr>count = 4, length_m = 1 / 64, diameter_mm = 1\<rparr>"
  have h: "(0::real) < 2 ^ 1023" "(0::real) < 4096" "(0::real) < 1024" "(0::real) < 16" "(0::real) < 8"
    "0 < count ?rd" "0 < length_m ?rd"
    "js_div (js_div (Finite (diameter_mm ?rd)) (Finite 1000)) (Finite 2) \<noteq> Finite 0"
    using overflow_b by simp_all
  have pw: "Math_pow_2 (\<lambda>x y. round64 (x powr y)) (Finite 1) = Finite 1"
    by (simp add: Math_pow_2_def round64_small_value f64_1)
  note r = schwarz_valid_rods [OF h, of "\<lambda>x. f64 (ln x)" "\<lambda>x y. round64 (x powr y)" 64 64,
      folded out_def]
  note k = overflow_k [simplified]
  have r1: "r1_f64 out = Some (js_mul (Finite 27940600446845979791831208035496666681817706319940384478431847187081268907025173312605461832031219686301641109194320541834253258541654142763733003202334351652830697639923562200390638281056131892655777323036058918458277915174707137346067014527465310726930422080194766184653629844073245545701661082849902592)
      (js_sub (js_add (Finite (f64 (ln (3146985909450985 / 549755813888)))) (Finite (4863887597560135 / 281474976710656)))
         (Finite (4897664594765415 / 1125899906842624))))"
    using r(1) unfolding out_def
    by (simp add: k overflow_ops Math_log_def
        del: js_add.simps js_mul.simps js_div.simps js_sqrt.simps)
  have r2: "r2_f64 out = Some (js_mul PosInfinity
      (js_add (js_sub (Finite (f64 (ln 125))) (Finite 1)) (Finite (4863887597560135 / 9223372036854775808))))"
    using r(2) unfolding out_def
    by (simp add: k overflow_ops Math_log_def pw
        del: js_add.simps js_mul.simps js_div.simps js_sqrt.simps)
  have r12: "r12_f64 out = Some (js_mul (Finite 27940600446845979791831208035496666681817706319940384478431847187081268907025173312605461832031219686301641109194320541834253258541654142763733003202334351652830697639923562200390638281056131892655777323036058918458277915174707137346067014527465310726930422080194766184653629844073245545701661082849902592)
      (js_add (js_sub (js_add (Finite (f64 (ln 131072))) (Finite (4863887597560135 / 281474976710656)))
         (Finite (4897664594765415 / 1125899906842624))) (Finite 1)))"
    using r(3) unfolding out_def
    by (simp add: k overflow_ops Math_log_def
        del: js_add.simps js_mul.simps js_div.simps js_sqrt.simps)
  have l1: "2 ^ 2 \<le> f64 (ln (3146985909450985 / 549755813888))" "f64 (ln (3146985909450985 / 549755813888)) \<le> 2 ^ 4"
    by (rule f64_ln_between [where hi = 4]; simp)+
  have l2: "2 ^ 2 \<le> f64 (ln 125)" "f64 (ln 125) \<le> 2 ^ 3"
    by (rule f64_ln_between [where hi = 3]; simp)+
  have l3: "2 ^ 2 \<le> f64 (ln 131072)" "f64 (ln 131072) \<le> 2 ^ 5"
    by (rule f64_ln_between [where hi = 5]; simp)+
  have "2 ^ 4 \<le> f64 (ln (3146985909450985 / 549755813888)) + (4863887597560135 / 281474976710656)"
    "f64 (ln (3146985909450985 / 549755813888)) + (4863887597560135 / 281474976710656) \<le> 2 ^ 6"
    using l1 by simp_all
  from round64_between [OF this] obtain a1 where a1:
    "js_add (Finite (f64 (ln (3146985909450985 / 549755813888)))) (Finite (4863887597560135 / 281474976710656)) = Finite a1"
    "2 ^ 4 \<le> a1" "a1 \<le> 2 ^ 6"
    by auto
  have "2 ^ 3 \<le> a1 - (4897664594765415 / 1125899906842624)" "a1 - (4897664594765415 / 1125899906842624) \<le> 2 ^ 6"
    using a1(2,3) by simp_all
  from round64_between [OF this] obtain s1 where s1:
    "js_sub (Finite a1) (Finite (4897664594765415 / 1125899906842624)) = Finite s1" "2 ^ 3 \<le> s1" "s1 \<le> 2 ^ 6"
    by (auto simp: js_sub_def)
  have g: "(2::real) ^ 1011 \<le> 27940600446845979791831208035496666681817706319940384478431847187081268907025173312605461832031219686301641109194320541834253258541654142763733003202334351652830697639923562200390638281056131892655777323036058918458277915174707137346067014527465310726930422080194766184653629844073245545701661082849902592" "27940600446845979791831208035496666681817706319940384478431847187081268907025173312605461832031219686301641109194320541834253258541654142763733003202334351652830697639923562200390638281056131892655777323036058918458277915174707137346067014527465310726930422080194766184653629844073245545701661082849902592 \<le> (2::real) ^ 1012"
    by simp_all
  have "2 ^ 1011 * 2 ^ 3 \<le> 27940600446845979791831208035496666681817706319940384478431847187081268907025173312605461832031219686301641109194320541834253258541654142763733003202334351652830697639923562200390638281056131892655777323036058918458277915174707137346067014527465310726930422080194766184653629844073245545701661082849902592 * s1"
    using g(1) s1(2) by (intro mult_mono) simp_all
  moreover have "27940600446845979791831208035496666681817706319940384478431847187081268907025173312605461832031219686301641109194320541834253258541654142763733003202334351652830697639923562200390638281056131892655777323036058918458277915174707137346067014527465310726930422080194766184653629844073245545701661082849902592 * s1 \<le> 2 ^ 1012 * 2 ^ 6"
    using g(2) s1(2,3) by (intro mult_mono) simp_all
  ultimately have "2 ^ 1014 \<le> 27940600446845979791831208035496666681817706319940384478431847187081268907025173312605461832031219686301641109194320541834253258541654142763733003202334351652830697639923562200390638281056131892655777323036058918458277915174707137346067014527465310726930422080194766184653629844073245545701661082849902592 * s1" "27940600446845979791831208035496666681817706319940384478431847187081268907025173312605461832031219686301641109194320541834253258541654142763733003202334351652830697639923562200390638281056131892655777323036058918458277915174707137346067014527465310726930422080194766184653629844073245545701661082849902592 * s1 \<le> 2 ^ 1018"
    by (simp_all add: power_add [symmetric])
  from round64_between [OF this] obtain x1 where x1:
    "js_mul (Finite 27940600446845979791831208035496666681817706319940384478431847187081268907025173312605461832031219686301641109194320541834253258541654142763733003202334351652830697639923562200390638281056131892655777323036058918458277915174707137346067014527465310726930422080194766184653629844073245545701661082849902592) (Finite s1) = Finite x1" "2 ^ 1014 \<le> x1" "x1 \<le> 2 ^ 1018"
    by auto
  have R1: "r1_f64 out = Some (Finite x1)"
    by (simp only: r1 a1(1) s1(1) x1(1))
  have "2 ^ 1 \<le> f64 (ln 125) - 1" "f64 (ln 125) - 1 \<le> 2 ^ 3"
    using l2 by simp_all
  from round64_between [OF this] obtain a2 where a2:
    "js_sub (Finite (f64 (ln 125))) (Finite 1) = Finite a2" "2 ^ 1 \<le> a2" "a2 \<le> 2 ^ 3"
    by (auto simp: js_sub_def)
  have "2 ^ 1 \<le> a2 + (4863887597560135 / 9223372036854775808)" "a2 + (4863887597560135 / 9223372036854775808) \<le> 2 ^ 4"
    using a2(2,3) by simp_all
  from round64_between [OF this] obtain s2 where s2:
    "js_add (Finite a2) (Finite (4863887597560135 / 9223372036854775808)) = Finite s2" "2 ^ 1 \<le> s2" "s2 \<le> 2 ^ 4"
    by auto
  have "js_mul PosInfinity (Finite s2) = PosInfinity"
    using s2(2) by (simp add: infinity_of_sign_def)
  then have R2: "r2_f64 out = Some PosInfinity"
    by (simp only: r2 a2(1) s2(1))
  have "2 ^ 4 \<le> f64 (ln 131072) + (4863887597560135 / 281474976710656)"
    "f64 (ln 131072) + (4863887597560135 / 281474976710656) \<le> 2 ^ 6"
    using l3 by simp_all
  from round64_between [OF this] obtain a3 where a3:
    "js_add (Finite (f64 (ln 131072))) (Finite (4863887597560135 / 281474976710656)) = Finite a3"
    "2 ^ 4 \<le> a3" "a3 \<le> 2 ^ 6"
    by auto
  have "2 ^ 3 \<le> a3 - (4897664594765415 / 1125899906842624)" "a3 - (4897664594765415 / 1125899906842624) \<le> 2 ^ 6"
    using a3(2,3) by simp_all
  from round64_between [OF this] obtain b3 where b3:
    "js_sub (Finite a3) (Finite (4897664594765415 / 1125899906842624)) = Finite b3" "2 ^ 3 \<le> b3" "b3 \<le> 2 ^ 6"
    by (auto simp: js_sub_def)
  have "2 ^ 3 \<le> b3 + 1" "b3 + 1 \<le> 2 ^ 7"
    using b3(2,3) by simp_all
  from round64_between [OF this] obtain s3 where s3:
    "js_add (Finite b3) (Finite 1) = Finite s3" "2 ^ 3 \<le> s3" "s3 \<le> 2 ^ 7"
    by auto
  have "2 ^ 1011 * 2 ^ 3 \<le> 27940600446845979791831208035496666681817706319940384478431847187081268907025173312605461832031219686301641109194320541834253258541654142763733003202334351652830697639923562200390638281056131892655777323036058918458277915174707137346067014527465310726930422080194766184653629844073245545701661082849902592 * s3"
    using g(1) s3(2) by (intro mult_mono) simp_all
  moreover have "27940600446845979791831208035496666681817706319940384478431847187081268907025173312605461832031219686301641109194320541834253258541654142763733003202334351652830697639923562200390638281056131892655777323036058918458277915174707137346067014527465310726930422080194766184653629844073245545701661082849902592 * s3 \<le> 2 ^ 1012 * 2 ^ 7"
    using g(2) s3(2,3) by (intro mult_mono) simp_all
  ultimately have "2 ^ 1014 \<le> 27940600446845979791831208035496666681817706319940384478431847187081268907025173312605461832031219686301641109194320541834253258541654142763733003202334351652830697639923562200390638281056131892655777323036058918458277915174707137346067014527465310726930422080194766184653629844073245545701661082849902592 * s3" "27940600446845979791831208035496666681817706319940384478431847187081268907025173312605461832031219686301641109194320541834253258541654142763733003202334351652830697639923562200390638281056131892655777323036058918458277915174707137346067014527465310726930422080194766184653629844073245545701661082849902592 * s3 \<le> 2 ^ 1019"
    by (simp_all add: power_add [symmetric])
  from round64_between [OF this] obtain x12 where x12:
    "js_mul (Finite 27940600446845979791831208035496666681817706319940384478431847187081268907025173312605461832031219686301641109194320541834253258541654142763733003202334351652830697639923562200390638281056131892655777323036058918458277915174707137346067014527465310726930422080194766184653629844073245545701661082849902592) (Finite s3) = Finite x12" "2 ^ 1014 \<le> x12" "x12 \<le> 2 ^ 1019"
    by auto
  have R12: "r12_f64 out = Some (Finite x12)"
    by (simp only: r12 a3(1) b3(1) s3(1) x12(1))
  have x1_pos: "0 < x1"
    using x1(2) by (meson less_le_trans zero_less_numeral zero_less_power)
  have p1: "js_mul (Finite x1) PosInfinity = PosInfinity"
    using x1_pos by (simp add: infinity_of_sign_def)
  have "2 ^ 1014 * 2 ^ 1014 \<le> x12 * x12"
    using x12(2) by (intro mult_mono) simp_all
  then have "(2::real) ^ 2028 \<le> x12 * x12"
    by (simp add: power_add [symmetric])
  moreover have "overflow_threshold \<le> 2 ^ 2028"
    by (simp add: overflow_threshold_def)
  ultimately have p2: "js_mul (Finite x12) (Finite x12) = PosInfinity"
    by (simp add: round64_def)
  have num: "js_sub (js_mul (Finite x1) PosInfinity) (js_mul (Finite x12) (Finite x12)) = NaN"
    by (simp only: p1 p2) (simp add: js_sub_def)
  from schwarz_valid_rods_combined [OF h, of "\<lambda>x. f64 (ln x)" "\<lambda>x y. round64 (x powr y)" 64 64,
      folded out_def]
  obtain Q1 Q2 Q12 where q: "r1_f64 out = Some Q1" "r2_f64 out = Some Q2" "r12_f64 out = Some Q12"
    "resistance_f64 out =
       (if js_sub (js_add Q1 Q2) (js_mul (Finite 2) Q12) = Finite 0 then Q1
        else js_div (js_sub (js_mul Q1 Q2) (js_mul Q12 Q12))
               (js_sub (js_add Q1 Q2) (js_mul (Finite 2) Q12)))"
    by blast
  have Q: "Q1 = Finite x1" "Q2 = PosInfinity" "Q12 = Finite x12"
    using q(1,2,3) R1 R2 R12 by simp_all
  have "2 * x12 \<le> 2 ^ 1020"
    using x12(3) by simp
  moreover have "(2::real) ^ 1020 < overflow_threshold"
    by (simp add: overflow_threshold_def)
  moreover have "- overflow_threshold < 2 * x12"
    using x12(2) by (simp add: overflow_threshold_def)
  ultimately have "round64 (2 * x12) = Finite (f64 (2 * x12))"
    by (simp add: round64_def)
  then have den: "js_sub (js_add (Finite x1) PosInfinity) (js_mul (Finite 2) (Finite x12)) = PosInfinity"
    by (simp add: js_sub_def)
  have "resistance_f64 out = NaN"
    unfolding q(4) Q den num by simp
  then show ?thesis
    by (simp only: out_def)
qed

text \<open>
  C4, as stated, fails: the quotient is never taken with a divisor 0, but its result
  can be \<^verbatim>\<open>NaN\<close>. It is \<^verbatim>\<open>NaN\<close> for the rods of diameter -15 mm, which pass both checks,
  with any implementation of \<^verbatim>\<open>Math.log\<close> and \<^verbatim>\<open>Math.pow\<close>; and it is \<^verbatim>\<open>NaN\<close>, by
  overflow, for the positive arguments above with the correctly rounded logarithm.
\<close>

theorem schwarz_NaN_counterexample:
  "(\<forall>js_log js_pow.
      resistance_f64 (calculateSchwarzResistance_f64 js_log js_pow 100 2500 50 50 1100 (1 / 2) 8
        (Some \<lparr>count = 4, length_m = 3, diameter_mm = - 15\<rparr>)) = NaN) \<and>
   resistance_f64 (calculateSchwarzResistance_f64 (\<lambda>x. f64 (ln x)) (\<lambda>x y. round64 (x powr y))
     (2 ^ 1023) 4096 64 64 1024 16 8
     (Some \<lparr>count = 4, length_m = 1 / 64, diameter_mm = 1\<rparr>)) = NaN"
  using schwarz_negative_diameter schwarz_overflow by blast

text \<open>
  C4, amended. With positive resistivity, area, conductor length, depth and conductor
  diameter, and rods that pass both checks of the function (a positive count, a
  positive length, and a radius \<open>b = (diameter / 1000) / 2\<close> that is not 0 as a
  double), the function reports \<open>R1\<close>, \<open>R2\<close> and \<open>R12\<close> of the Schwarz equations, each
  operation with its rounding, and combines them as
  \<open>(R1 R2 - R12 R12) / (R1 + R2 - 2 R12)\<close>; when that denominator is exactly 0 the
  quotient is not taken and the result is \<open>R1\<close>. The result is not \<^verbatim>\<open>NaN\<close> when \<open>R1\<close>,
  \<open>R2\<close> and \<open>R12\<close> are finite and at most \<open>2\<^sup>5\<^sup>0\<^sup>0\<close> in absolute value.
\<close>

theorem schwarz_combined_resistance:
  assumes "0 < rho" and "0 < A" and "0 < Lc" and "0 < h" and "0 < d_mm"
    and "0 < count rd" and "0 < length_m rd"
    and "js_div (js_div (Finite (diameter_mm rd)) (Finite 1000)) (Finite 2) \<noteq> Finite 0"
  shows "let out = calculateSchwarzResistance_f64 js_log js_pow rho A Lx Ly Lc h d_mm (Some rd);
             b = js_div (js_div (Finite (diameter_mm rd)) (Finite 1000)) (Finite 2);
             a_prime = js_sqrt (js_mul (js_mul (js_div (js_div (Finite d_mm) (Finite 1000)) (Finite 2))
                         (Finite 2)) (Finite h));
             R1 = js_mul (js_div (Finite rho) (js_mul (Finite Math_PI) (Finite Lc)))
                    (js_sub (js_add (Math_log js_log (js_div (js_mul (Finite 2) (Finite Lc)) a_prime))
                               (js_div (js_mul (k1_f64 out) (Finite Lc)) (js_sqrt (Finite A))))
                       (k2_f64 out));
             R2 = js_mul (js_div (Finite rho)
                            (js_mul (js_mul (js_mul (Finite 2) (Finite Math_PI)) (Finite (count rd)))
                               (Finite (length_m rd))))
                    (js_add (js_sub (Math_log js_log
                                       (js_div (js_mul (Finite 4) (Finite (length_m rd))) b))
                               (Finite 1))
                       (js_mul (js_div (js_mul (js_mul (Finite 2) (k1_f64 out)) (Finite (length_m rd)))
                                  (js_sqrt (Finite A)))
                          (Math_pow_2 js_pow (js_sub (js_sqrt (Finite (count rd))) (Finite 1)))));
             R12 = js_mul (js_div (Finite rho) (js_mul (Finite Math_PI) (Finite Lc)))
                     (js_add (js_sub (js_add (Math_log js_log
                                                (js_div (js_mul (Finite 2) (Finite Lc))
                                                   (Finite (length_m rd))))
                                        (js_div (js_mul (k1_f64 out) (Finite Lc)) (js_sqrt (Finite A))))
                                (k2_f64 out))
                        (Finite 1));
             denominator = js_sub (js_add R1 R2) (js_mul (Finite 2) R12)
         in r1_f64 out = Some R1 \<and> r2_f64 out = Some R2 \<and> r12_f64 out = Some R12 \<and>
            resistance_f64 out =
              (if denominator = Finite 0 then R1
               else js_div (js_sub (js_mul R1 R2) (js_mul R12 R12)) denominator) \<and>
            ((\<exists>x1 x2 x12. R1 = Finite x1 \<and> R2 = Finite x2 \<and> R12 = Finite x12 \<and>
                \<bar>x1\<bar> \<le> 2 ^ 500 \<and> \<bar>x2\<bar> \<le> 2 ^ 500 \<and> \<bar>x12\<bar> \<le> 2 ^ 500) \<longrightarrow>
             resistance_f64 out \<noteq> NaN)"
proof -
  define out where "out = calculateSchwarzResistance_f64 js_log js_pow rho A Lx Ly Lc h d_mm (Some rd)"
  define b where "b = js_div (js_div (Finite (diameter_mm rd)) (Finite 1000)) (Finite 2)"
  define a_prime where "a_prime = js_sqrt (js_mul (js_mul (js_div (js_div (Finite d_mm) (Finite 1000))
    (Finite 2)) (Finite 2)) (Finite h))"
  define R1 where "R1 = js_mul (js_div (Finite rho) (js_mul (Finite Math_PI) (Finite Lc)))
                    (js_sub (js_add (Math_log js_log (js_div (js_mul (Finite 2) (Finite Lc)) a_prime))
                               (js_div (js_mul (k1_f64 out) (Finite Lc)) (js_sqrt (Finite A))))
                       (k2_f64 out))"
  define R2 where "R2 = js_mul (js_div (Finite rho)
                            (js_mul (js_mul (js_mul (Finite 2) (Finite Math_PI)) (Finite (count rd)))
                               (Finite (length_m rd))))
                    (js_add (js_sub (Math_log js_log
                                       (js_div (js_mul (Finite 4) (Finite (length_m rd))) b))
                               (Finite 1))
                       (js_mul (js_div (js_mul (js_mul (Finite 2) (k1_f64 out)) (Finite (length_m rd)))
                                  (js_sqrt (Finite A)))
                          (Math_pow_2 js_pow (js_sub (js_sqrt (Finite (count rd))) (Finite 1)))))"
  define R12 where "R12 = js_mul (js_div (Finite rho) (js_mul (Finite Math_PI) (Finite Lc)))
                     (js_add (js_sub (js_add (Math_log js_log
                                                (js_div (js_mul (Finite 2) (Finite Lc))
                                                   (Finite (length_m rd))))
                                        (js_div (js_mul (k1_f64 out) (Finite Lc)) (js_sqrt (Finite A))))
                                (k2_f64 out))
                        (Finite 1))"
  define den where "den = js_sub (js_add R1 R2) (js_mul (Finite 2) R12)"
  note fields = schwarz_valid_rods [OF assms, of js_log js_pow Lx Ly,
      folded out_def b_def a_prime_def, folded R1_def R2_def R12_def, folded den_def]
  have finite: "resistance_f64 out \<noteq> NaN"
    if "\<exists>x1 x2 x12. R1 = Finite x1 \<and> R2 = Finite x2 \<and> R12 = Finite x12 \<and>
          \<bar>x1\<bar> \<le> 2 ^ 500 \<and> \<bar>x2\<bar> \<le> 2 ^ 500 \<and> \<bar>x12\<bar> \<le> 2 ^ 500"
  proof -
    from that obtain x1 x2 x12 where x: "R1 = Finite x1" "R2 = Finite x2" "R12 = Finite x12"
      "\<bar>x1\<bar> \<le> 2 ^ 500" "\<bar>x2\<bar> \<le> 2 ^ 500" "\<bar>x12\<bar> \<le> 2 ^ 500"
      by blast
    from combined_not_NaN [OF x(4,5,6)] show ?thesis
      unfolding fields(4) den_def x(1,2,3) .
  qed
  from fields finite show ?thesis
    unfolding Let_def out_def [symmetric] b_def [symmetric] a_prime_def [symmetric]
      R1_def [symmetric] R2_def [symmetric] R12_def [symmetric] den_def [symmetric]
    by blast
qed

text \<open>
  The witness is the grid of 50 m by 50 m with four rods of 3 m and 15 mm, with a
  correctly rounded logarithm: \<open>k1\<close> and \<open>k2\<close> are the doubles 1.348 and 5.563, and the
  three resistances are finite and within the bound, so the result is not \<^verbatim>\<open>NaN\<close>.
\<close>

lemma witness_k:
  "k1_f64 (calculateSchwarzResistance_f64 js_log js_pow 100 2500 50 50 1100 (1 / 2) 8 rods) =
     Finite (6070852297695429 / 4503599627370496)"
  "k2_f64 (calculateSchwarzResistance_f64 js_log js_pow 100 2500 50 50 1100 (1 / 2) 8 rods) =
     Finite (6263381181765517 / 1125899906842624)"
proof -
  have h: "(0::real) < 100" "(0::real) < 2500" "(0::real) < 1100" "(0::real) < 1 / 2" "(0::real) < 8"
    by simp_all
  from schwarz_coefficients [OF h, of js_log js_pow 50 50 rods]
  show "k1_f64 (calculateSchwarzResistance_f64 js_log js_pow 100 2500 50 50 1100 (1 / 2) 8 rods) =
     Finite (6070852297695429 / 4503599627370496)"
    and "k2_f64 (calculateSchwarzResistance_f64 js_log js_pow 100 2500 50 50 1100 (1 / 2) 8 rods) =
     Finite (6263381181765517 / 1125899906842624)"
    by (simp_all add: Let_def case_prod_beta curves_f64_def schwarz_ops
        del: js_add.simps js_mul.simps js_div.simps js_sqrt.simps)
qed

lemma witness_b:
  "js_div (js_div (Finite (diameter_mm \<lparr>count = 4, length_m = 3, diameter_mm = 15\<rparr>)) (Finite 1000))
     (Finite 2) \<noteq> Finite 0"
  by (simp add: schwarz_ops del: js_div.simps)

lemma witness_values:
  fixes out
  defines "out \<equiv> calculateSchwarzResistance_f64 (\<lambda>x. f64 (ln x)) (\<lambda>x y. round64 (x powr y)) 100 2500 50 50 1100 (1 / 2) 8
       (Some \<lparr>count = 4, length_m = 3, diameter_mm = 15\<rparr>)"
  shows "\<exists>x1 x2 x12. r1_f64 out = Some (Finite x1) \<and> r2_f64 out = Some (Finite x2) \<and>
           r12_f64 out = Some (Finite x12) \<and>
           \<bar>x1\<bar> \<le> 2 ^ 500 \<and> \<bar>x2\<bar> \<le> 2 ^ 500 \<and> \<bar>x12\<bar> \<le> 2 ^ 500"
proof -
  let ?rd = "\<lparr>count = 4, length_m = 3, diameter_mm = 15\<rparr>"
  have h: "(0::real) < 100" "(0::real) < 2500" "(0::real) < 1100" "(0::real) < 1 / 2" "(0::real) < 8"
    "0 < count ?rd" "0 < length_m ?rd"
    "js_div (js_div (Finite (diameter_mm ?rd)) (Finite 1000)) (Finite 2) \<noteq> Finite 0"
    using witness_b by simp_all
  have pw: "Math_pow_2 (\<lambda>x y. round64 (x powr y)) (Finite 1) = Finite 1"
    by (simp add: Math_pow_2_def round64_small_value f64_1)
  note r = schwarz_valid_rods(1-3) [OF h, of "\<lambda>x. f64 (ln x)" "\<lambda>x y. round64 (x powr y)" 50 50,
      folded out_def]
  have r1: "r1_f64 out = Some (js_mul (Finite (521287376292969 / 18014398509481984))
      (js_sub (js_add (Finite (f64 (ln (298801340888481 / 8589934592)))) (Finite (8347421909331215 / 281474976710656)))
         (Finite (6263381181765517 / 1125899906842624))))"
    using r(1) unfolding out_def
    by (simp add: witness_k schwarz_ops Math_log_def
        del: js_add.simps js_mul.simps js_div.simps js_sqrt.simps)
  have r2: "r2_f64 out = Some (js_mul (Finite (5973084520023603 / 4503599627370496))
      (js_add (js_sub (Finite (f64 (ln 1600))) (Finite 1)) (Finite (1457004551446903 / 9007199254740992))))"
    using r(2) unfolding out_def
    by (simp add: witness_k schwarz_ops Math_log_def pw
        del: js_add.simps js_mul.simps js_div.simps js_sqrt.simps)
  have r12: "r12_f64 out = Some (js_mul (Finite (521287376292969 / 18014398509481984))
      (js_add (js_sub (js_add (Finite (f64 (ln (6450468216285867 / 8796093022208)))) (Finite (8347421909331215 / 281474976710656)))
         (Finite (6263381181765517 / 1125899906842624))) (Finite 1)))"
    using r(3) unfolding out_def
    by (simp add: witness_k schwarz_ops Math_log_def
        del: js_add.simps js_mul.simps js_div.simps js_sqrt.simps)
  have l1: "\<bar>f64 (ln (298801340888481 / 8589934592))\<bar> \<le> 2 ^ 16"
    by (rule f64_ln_abs) simp_all
  have l2: "\<bar>f64 (ln 1600)\<bar> \<le> 2 ^ 16"
    by (rule f64_ln_abs) simp_all
  have l3: "\<bar>f64 (ln (6450468216285867 / 8796093022208))\<bar> \<le> 2 ^ 16"
    by (rule f64_ln_abs) simp_all
  have c: "\<bar>(8347421909331215 / 281474976710656) :: real\<bar> \<le> 2 ^ 16" "\<bar>(6263381181765517 / 1125899906842624) :: real\<bar> \<le> 2 ^ 17"
    "\<bar>(521287376292969 / 18014398509481984) :: real\<bar> \<le> 2 ^ 0" "\<bar>(5973084520023603 / 4503599627370496) :: real\<bar> \<le> 2 ^ 1"
    "\<bar>1 :: real\<bar> \<le> 2 ^ 16" "\<bar>(1457004551446903 / 9007199254740992) :: real\<bar> \<le> 2 ^ 17" "\<bar>1 :: real\<bar> \<le> 2 ^ 18"
    by simp_all
  from js_add_abs [OF l1 c(1)] obtain a1 where a1:
    "js_add (Finite (f64 (ln (298801340888481 / 8589934592)))) (Finite (8347421909331215 / 281474976710656)) = Finite a1" "\<bar>a1\<bar> \<le> 2 ^ 17"
    by auto
  from js_sub_abs [OF a1(2) c(2)] obtain s1 where s1:
    "js_sub (Finite a1) (Finite (6263381181765517 / 1125899906842624)) = Finite s1" "\<bar>s1\<bar> \<le> 2 ^ 18"
    by auto
  from js_mul_abs [OF c(3) s1(2)] obtain x1 where x1:
    "js_mul (Finite (521287376292969 / 18014398509481984)) (Finite s1) = Finite x1" "\<bar>x1\<bar> \<le> 2 ^ 18"
    by auto
  from js_sub_abs [OF l2 c(5)] obtain a2 where a2:
    "js_sub (Finite (f64 (ln 1600))) (Finite 1) = Finite a2" "\<bar>a2\<bar> \<le> 2 ^ 17"
    by auto
  from js_add_abs [OF a2(2) c(6)] obtain s2 where s2:
    "js_add (Finite a2) (Finite (1457004551446903 / 9007199254740992)) = Finite s2" "\<bar>s2\<bar> \<le> 2 ^ 18"
    by auto
  from js_mul_abs [OF c(4) s2(2)] obtain x2 where x2:
    "js_mul (Finite (5973084520023603 / 4503599627370496)) (Finite s2) = Finite x2" "\<bar>x2\<bar> \<le> 2 ^ 19"
    by auto
  from js_add_abs [OF l3 c(1)] obtain a3 where a3:
    "js_add (Finite (f64 (ln (6450468216285867 / 8796093022208)))) (Finite (8347421909331215 / 281474976710656)) = Finite a3" "\<bar>a3\<bar> \<le> 2 ^ 17"
    by auto
  from js_sub_abs [OF a3(2) c(2)] obtain b3 where b3:
    "js_sub (Finite a3) (Finite (6263381181765517 / 1125899906842624)) = Finite b3" "\<bar>b3\<bar> \<le> 2 ^ 18"
    by auto
  from js_add_abs [OF b3(2) c(7)] obtain s3 where s3:
    "js_add (Finite b3) (Finite 1) = Finite s3" "\<bar>s3\<bar> \<le> 2 ^ 19"
    by auto
  from js_mul_abs [OF c(3) s3(2)] obtain x12 where x12:
    "js_mul (Finite (521287376292969 / 18014398509481984)) (Finite s3) = Finite x12" "\<bar>x12\<bar> \<le> 2 ^ 19"
    by auto
  have "r1_f64 out = Some (Finite x1)"
    by (simp only: r1 a1(1) s1(1) x1(1))
  moreover have "r2_f64 out = Some (Finite x2)"
    by (simp only: r2 a2(1) s2(1) x2(1))
  moreover have "r12_f64 out = Some (Finite x12)"
    by (simp only: r12 a3(1) b3(1) s3(1) x12(1))
  moreover have "\<bar>x1\<bar> \<le> 2 ^ 500" "\<bar>x2\<bar> \<le> 2 ^ 500" "\<bar>x12\<bar> \<le> 2 ^ 500"
    using x1(2) x2(2) x12(2) by (auto intro: power2_le_500 [rotated])
  ultimately show ?thesis
    by blast
qed

theorem schwarz_combined_resistance_witness:
  "let out = calculateSchwarzResistance_f64 (\<lambda>x. f64 (ln x)) (\<lambda>x y. round64 (x powr y)) 100 2500 50 50 1100 (1 / 2) 8
       (Some \<lparr>count = 4, length_m = 3, diameter_mm = 15\<rparr>)
   in (\<exists>R1 R2 R12. r1_f64 out = Some R1 \<and> r2_f64 out = Some R2 \<and> r12_f64 out = Some R12 \<and>
         resistance_f64 out =
           (if js_sub (js_add R1 R2) (js_mul (Finite 2) R12) = Finite 0 then R1
            else js_div (js_sub (js_mul R1 R2) (js_mul R12 R12))
                   (js_sub (js_add R1 R2) (js_mul (Finite 2) R12)))) \<and>
      resistance_f64 out \<noteq> NaN \<and>
      k1_f64 out = Finite (6070852297695429 / 4503599627370496) \<and>
      k2_f64 out = Finite (6263381181765517 / 1125899906842624)"
proof -
  define out where "out = calculateSchwarzResistance_f64 (\<lambda>x. f64 (ln x)) (\<lambda>x y. round64 (x powr y)) 100 2500 50 50 1100 (1 / 2) 8
       (Some \<lparr>count = 4, length_m = 3, diameter_mm = 15\<rparr>)"
  let ?rd = "\<lparr>count = 4, length_m = 3, diameter_mm = 15\<rparr>"
  have h: "(0::real) < 100" "(0::real) < 2500" "(0::real) < 1100" "(0::real) < 1 / 2" "(0::real) < 8"
    "0 < count ?rd" "0 < length_m ?rd"
    "js_div (js_div (Finite (diameter_mm ?rd)) (Finite 1000)) (Finite 2) \<noteq> Finite 0"
    using witness_b by simp_all
  note t = schwarz_combined_resistance [OF h, of "\<lambda>x. f64 (ln x)" "\<lambda>x y. round64 (x powr y)" 50 50,
      unfolded Let_def, folded out_def]
  from witness_values [folded out_def] obtain x1 x2 x12 where x:
    "r1_f64 out = Some (Finite x1)" "r2_f64 out = Some (Finite x2)" "r12_f64 out = Some (Finite x12)"
    "\<bar>x1\<bar> \<le> 2 ^ 500" "\<bar>x2\<bar> \<le> 2 ^ 500" "\<bar>x12\<bar> \<le> 2 ^ 500"
    by blast
  from t have fields: "\<exists>R1 R2 R12. r1_f64 out = Some R1 \<and> r2_f64 out = Some R2 \<and>
      r12_f64 out = Some R12 \<and>
      resistance_f64 out =
        (if js_sub (js_add R1 R2) (js_mul (Finite 2) R12) = Finite 0 then R1
         else js_div (js_sub (js_mul R1 R2) (js_mul R12 R12))
                (js_sub (js_add R1 R2) (js_mul (Finite 2) R12)))"
    by blast
  from t x have number: "resistance_f64 out \<noteq> NaN"
    by (metis option.inject)
  have k: "k1_f64 out = Finite (6070852297695429 / 4503599627370496)"
    "k2_f64 out = Finite (6263381181765517 / 1125899906842624)"
    unfolding out_def by (rule witness_k)+
  from fields number k show ?thesis
    unfolding Let_def out_def [symmetric] by (intro conjI)
qed

subsection \<open>Soil model: the image series\<close>

text \<open>
  One round of the loop, and the states in which it stops. The loop goes on exactly
  while \<open>|term| > tolerance\<close> and \<open>n < maxIterations\<close>.
\<close>

lemma calculateN_loop_stops:
  assumes "\<bar>tm\<bar> \<le> tolerance \<or> maxIterations \<le> n"
  shows "calculateN_loop k alpha s n tm = (s, n, tm)"
  using assms by (subst calculateN_loop.simps) auto

lemma calculateN_loop_round:
  assumes "tolerance < \<bar>tm\<bar>" and "n < maxIterations"
  shows "calculateN_loop k alpha s n tm =
    calculateN_loop k alpha (s + k ^ n / sqrt (1 + (2 * real n / alpha)\<^sup>2)) (n + 1)
      (k ^ n / sqrt (1 + (2 * real n / alpha)\<^sup>2))"
  using assms by (subst calculateN_loop.simps) (simp add: Let_def)

lemma calculateN_loop_exit:
  assumes "calculateN_loop k alpha s n tm = (s', n', tm')"
  shows "(\<bar>tm'\<bar> \<le> tolerance \<or> maxIterations \<le> n') \<and> n \<le> n' \<and>
         (n \<le> maxIterations \<longrightarrow> n' \<le> maxIterations)"
  using assms
proof (induction k alpha s n tm rule: calculateN_loop.induct)
  case (1 k alpha sumv n termv)
  show ?case
  proof (cases "tolerance < \<bar>termv\<bar> \<and> n < maxIterations")
    case True
    then have "calculateN_loop k alpha (sumv + k ^ n / sqrt (1 + (2 * real n / alpha)\<^sup>2)) (n + 1)
      (k ^ n / sqrt (1 + (2 * real n / alpha)\<^sup>2)) = (s', n', tm')"
      using "1.prems" calculateN_loop_round by simp
    from "1.IH" [OF True refl refl refl this] True show ?thesis
      by auto
  next
    case False
    then have "calculateN_loop k alpha sumv n termv = (sumv, n, termv)"
      by (intro calculateN_loop_stops) auto
    with "1.prems" False show ?thesis
      by auto
  qed
qed

lemma calculateN_first_round:
  "calculateN_loop k alpha 0 1 1 =
     calculateN_loop k alpha (k / sqrt (1 + (2 / alpha)\<^sup>2)) 2 (k / sqrt (1 + (2 / alpha)\<^sup>2))"
proof -
  have "tolerance < \<bar>1::real\<bar>" "1 < maxIterations"
    by (simp_all add: tolerance_def maxIterations_def)
  from calculateN_loop_round [OF this, of k alpha 0] show ?thesis
    by (simp add: numeral_2_eq_2)
qed

lemma calculateN_k_zero: "calculateN 0 alpha = 1"
proof -
  have "calculateN_loop 0 alpha 0 1 1 = (0, 2, 0)"
    by (subst calculateN_first_round) (simp add: calculateN_loop_stops tolerance_def)
  then show ?thesis
    by (simp add: calculateN_def)
qed

text \<open>
  For \<open>|k| \<ge> 1\<close> and \<open>|alpha| \<ge> 1\<close> no term of the first 9999 is as small as the
  tolerance, so only the cap on the counter ends the loop.
\<close>

lemma term_above_tolerance:
  assumes "1 \<le> \<bar>k\<bar>" and "1 \<le> \<bar>alpha\<bar>" and "n < maxIterations"
  shows "tolerance < \<bar>k ^ n / sqrt (1 + (2 * real n / alpha)\<^sup>2)\<bar>"
proof -
  have n: "real n < 10000"
    using assms(3) by (simp add: maxIterations_def)
  have "\<bar>2 * real n / alpha\<bar> = 2 * real n / \<bar>alpha\<bar>"
    by simp
  also have "\<dots> \<le> 2 * real n / 1"
    using assms(2) by (intro divide_left_mono) auto
  finally have "\<bar>2 * real n / alpha\<bar> \<le> 2 * real n"
    by simp
  then have "(2 * real n / alpha)\<^sup>2 \<le> (2 * real n)\<^sup>2"
    by (metis abs_le_square_iff abs_of_nonneg mult_nonneg_nonneg of_nat_0_le_iff zero_le_numeral)
  also have "\<dots> < (20000)\<^sup>2"
    using n by (intro power_strict_mono) auto
  finally have "1 + (2 * real n / alpha)\<^sup>2 < (10 ^ 6)\<^sup>2"
    by simp
  then have "sqrt (1 + (2 * real n / alpha)\<^sup>2) < 10 ^ 6"
    by (intro real_less_lsqrt) auto
  moreover have pos: "0 < sqrt (1 + (2 * real n / alpha)\<^sup>2)"
    by (simp add: add_pos_nonneg)
  moreover have "1 \<le> \<bar>k\<bar> ^ n"
    using assms(1) by (rule one_le_power)
  ultimately have "1 / 10 ^ 6 < \<bar>k\<bar> ^ n / sqrt (1 + (2 * real n / alpha)\<^sup>2)"
    by (smt (verit) frac_less2 zero_less_one)
  then show ?thesis
    using pos by (simp add: tolerance_def power_abs)
qed

lemma calculateN_loop_cap:
  assumes "1 \<le> \<bar>k\<bar>" and "1 \<le> \<bar>alpha\<bar>" and "tolerance < \<bar>tm\<bar>" and "n \<le> maxIterations"
  shows "fst (snd (calculateN_loop k alpha s n tm)) = maxIterations"
  using assms
proof (induction k alpha s n tm rule: calculateN_loop.induct)
  case (1 k alpha sumv n termv)
  show ?case
  proof (cases "n < maxIterations")
    case True
    with "1.prems" have c: "tolerance < \<bar>termv\<bar> \<and> n < maxIterations"
      by simp
    have t: "tolerance < \<bar>k ^ n / sqrt (1 + (2 * real n / alpha)\<^sup>2)\<bar>"
      using "1.prems"(1,2) True by (rule term_above_tolerance)
    from "1.IH" [OF c refl refl refl "1.prems"(1,2) t] True
    show ?thesis
      using calculateN_loop_round [of termv n k alpha sumv] c by simp
  next
    case False
    with "1.prems" show ?thesis
      by (simp add: calculateN_loop_stops)
  qed
qed

text \<open>
  C6. \<^verbatim>\<open>calculateN\<close> returns for every real \<open>k\<close> and \<open>alpha\<close> (the loop is a total
  function, by the bound on its counter). It returns 1 at once when \<open>alpha = 0\<close>.
  Otherwise the loop runs from \<open>sum = 0\<close>, \<open>n = 1\<close>, \<open>term = 1\<close>, makes at least one
  and at most 9999 rounds and leaves with a term of absolute value at most
  \<open>10\<^sup>-\<^sup>6\<close> or with the counter at the cap 10000; for \<open>|k| \<ge> 1\<close> and \<open>|alpha| \<ge> 1\<close>
  it is the cap that ends it. In any state a term below the tolerance, or a counter
  at the cap, stops the loop there. Finally \<open>calculateN 0 alpha = 1\<close> for
  \<open>alpha > 0\<close>.
\<close>

theorem calculateN_terminates:
  "calculateN k 0 = 1 \<and>
   (alpha \<noteq> 0 \<longrightarrow>
      (\<exists>sumv n termv. calculateN_loop k alpha 0 1 1 = (sumv, n, termv) \<and>
         calculateN k alpha = 1 + 2 * sumv \<and>
         2 \<le> n \<and> n \<le> 10000 \<and> (\<bar>termv\<bar> \<le> 1 / 10 ^ 6 \<or> n = 10000) \<and>
         (1 \<le> \<bar>k\<bar> \<and> 1 \<le> \<bar>alpha\<bar> \<longrightarrow> n = 10000))) \<and>
   (\<bar>tm0\<bar> < 1 / 10 ^ 6 \<or> 10000 \<le> n0 \<longrightarrow>
      calculateN_loop k alpha s0 n0 tm0 = (s0, n0, tm0)) \<and>
   (0 < alpha \<longrightarrow> calculateN 0 alpha = 1)"
proof -
  obtain sumv n termv where run: "calculateN_loop k alpha 0 1 1 = (sumv, n, termv)"
    by (metis prod_cases3)
  let ?t1 = "k / sqrt (1 + (2 / alpha)\<^sup>2)"
  have "calculateN_loop k alpha ?t1 2 ?t1 = (sumv, n, termv)"
    using run by (simp only: calculateN_first_round)
  from calculateN_loop_exit [OF this]
  have exit: "\<bar>termv\<bar> \<le> 1 / 10 ^ 6 \<or> n = 10000" and lo: "2 \<le> n" and hi: "n \<le> 10000"
    by (auto simp: tolerance_def maxIterations_def)
  have cap: "n = 10000" if "1 \<le> \<bar>k\<bar>" "1 \<le> \<bar>alpha\<bar>"
  proof -
    have "tolerance < \<bar>1::real\<bar>" "1 \<le> maxIterations"
      by (simp_all add: tolerance_def maxIterations_def)
    from calculateN_loop_cap [OF that this, of 0, unfolded run] show ?thesis
      by (simp add: maxIterations_def)
  qed
  have val: "calculateN k alpha = 1 + 2 * sumv" if "alpha \<noteq> 0"
    unfolding calculateN_def run using that by simp
  have stop: "calculateN_loop k alpha s0 n0 tm0 = (s0, n0, tm0)"
    if "\<bar>tm0\<bar> < 1 / 10 ^ 6 \<or> 10000 \<le> n0"
    using that by (intro calculateN_loop_stops) (auto simp: tolerance_def maxIterations_def)
  have zero: "calculateN k 0 = 1"
    by (simp add: calculateN_def)
  show ?thesis
    using run exit lo hi cap val stop zero calculateN_k_zero by blast
qed

theorem calculateN_terminates_witness:
  "calculateN 2 0 = 1 \<and>
   (\<exists>sumv termv. calculateN_loop 2 1 0 1 1 = (sumv, 10000, termv) \<and>
      calculateN 2 1 = 1 + 2 * sumv) \<and>
   calculateN_loop 2 1 5 3 0 = (5, 3, 0) \<and>
   calculateN_loop 2 1 5 10000 7 = (5, 10000, 7) \<and>
   calculateN 0 5 = 1"
  using calculateN_terminates [of 2 1 0 3 5] calculateN_terminates [of 2 1 7 10000 5]
    calculateN_terminates [of 2 5 0 3 5]
  by auto

subsection \<open>Soil model: apparent resistivity\<close>

text \<open>
  With \<open>k = -1\<close> and \<open>alpha = 10\<^sup>-\<^sup>6\<close> the first term of the series is already within
  the tolerance, so the loop makes one round.
\<close>

lemma sqrt_big: "(10::real) ^ 6 \<le> sqrt 4000000000001"
  by (rule real_le_rsqrt) simp

lemma calculateN_tiny_alpha: "calculateN (- 1) (1 / 10 ^ 6) = 1 - 2 / sqrt 4000000000001"
proof -
  have "\<bar>- 1 / sqrt 4000000000001\<bar> \<le> tolerance"
    using sqrt_big by (simp add: tolerance_def field_simps)
  then have "calculateN_loop (- 1) (1 / 10 ^ 6) 0 1 1 =
      (- 1 / sqrt 4000000000001, 2, - 1 / sqrt 4000000000001)"
    by (subst calculateN_first_round) (simp add: calculateN_loop_stops)
  then show ?thesis
    by (simp add: calculateN_def)
qed

text \<open>
  C5, as stated, fails for a second layer of resistivity 0: the argument is present,
  differs from \<open>rho1 = 100\<close>, and \<open>h1 = 1000\<close> is positive, so the claim gives
  \<open>calculateN k (r / h1) * rho1\<close> with \<open>k = (0 - 100) / (0 + 100)\<close>, which is below
  100; the function returns \<open>rho1 = 100\<close>, because \<^verbatim>\<open>!rho2\<close> holds of 0.
\<close>

theorem calculateApparentResistivity_rho2_zero_counterexample:
  "calculateApparentResistivity 100 (Some 0) 1000 (1 / 1000) = 100 \<and>
   calculateN ((0 - 100) / (0 + 100)) ((1 / 1000) / 1000) * 100 < 100 \<and>
   Some (0::real) \<noteq> None \<and> Some (0::real) \<noteq> Some 100 \<and> \<not> (1000::real) \<le> 0"
proof -
  have args: "(0 - 100) / (0 + 100) = (- 1::real)" "(1 / 1000) / 1000 = (1 / 10 ^ 6::real)"
    by simp_all
  have "(0::real) < 2 / sqrt 4000000000001"
    by simp
  then have "calculateN (- 1) (1 / 10 ^ 6) < 1"
    unfolding calculateN_tiny_alpha by linarith
  then have "calculateN ((0 - 100) / (0 + 100)) ((1 / 1000) / 1000) * 100 < 100"
    unfolding args by linarith
  moreover have "calculateApparentResistivity 100 (Some 0) 1000 (1 / 1000) = 100"
    by (simp add: calculateApparentResistivity_def)
  ultimately show ?thesis
    by simp
qed

text \<open>
  C5, amended. \<^verbatim>\<open>calculateApparentResistivity\<close> returns \<open>rho1\<close> whenever \<open>rho2\<close> is
  absent or 0, \<open>rho2\<close> equals \<open>rho1\<close>, or \<open>h1 \<le> 0\<close>; in particular it returns 100
  for \<open>rho1 = rho2 = 100\<close>, \<open>h1 = 2\<close>, \<open>r = 5\<close>. Otherwise it returns
  \<open>calculateN k (r / h1) * rho1\<close> with \<open>k\<close> the value of \<^verbatim>\<open>calculateReflectionK\<close>,
  which is \<open>(rho2 - rho1) / (rho2 + rho1)\<close> when \<open>rho1 + rho2 \<noteq> 0\<close> and 0 when
  \<open>rho1 + rho2 = 0\<close>.
\<close>

theorem calculateApparentResistivity_cases:
  "(rho2 = None \<or> rho2 = Some 0 \<or> rho2 = Some rho1 \<or> h1 \<le> 0 \<longrightarrow>
      calculateApparentResistivity rho1 rho2 h1 r = rho1) \<and>
   (rho2 = Some v \<and> v \<noteq> 0 \<and> v \<noteq> rho1 \<and> 0 < h1 \<longrightarrow>
      calculateApparentResistivity rho1 rho2 h1 r =
        calculateN (calculateReflectionK rho1 v) (r / h1) * rho1 \<and>
      (rho1 + v \<noteq> 0 \<longrightarrow> calculateReflectionK rho1 v = (v - rho1) / (v + rho1)) \<and>
      (rho1 + v = 0 \<longrightarrow> calculateReflectionK rho1 v = 0)) \<and>
   calculateApparentResistivity 100 (Some 100) 2 5 = 100"
  by (auto simp: calculateApparentResistivity_def calculateReflectionK_def Let_def)

theorem calculateApparentResistivity_cases_witness:
  "calculateApparentResistivity 100 None 2 5 = 100 \<and>
   calculateApparentResistivity 100 (Some 0) 2 5 = 100 \<and>
   calculateApparentResistivity 100 (Some 100) 2 5 = 100 \<and>
   calculateApparentResistivity 100 (Some 300) 0 5 = 100 \<and>
   calculateApparentResistivity 100 (Some 300) 2 5 =
     calculateN (calculateReflectionK 100 300) (5 / 2) * 100 \<and>
   calculateReflectionK 100 300 = 1 / 2 \<and>
   calculateReflectionK 100 (- 100) = 0"
  using calculateApparentResistivity_cases [of None 100 2 5]
    calculateApparentResistivity_cases [of "Some 0" 100 2 5]
    calculateApparentResistivity_cases [of "Some 100" 100 2 5]
    calculateApparentResistivity_cases [of "Some 300" 100 0 5]
    calculateApparentResistivity_cases [of "Some 300" 100 2 5 300]
    calculateApparentResistivity_cases [of "Some (- 100)" 100 2 5 "- 100"]
  by simp

subsection \<open>Presumed touch voltage curve\<close>

text \<open>
  The loop skips a bracket that does not hold \<open>t\<close> and returns the log-log segment of
  the first one that does. On a valid curve the segments agree where they meet, so
  for \<open>t\<close> in the bracket \<open>j\<close> the result is the segment \<open>j\<close>, whichever bracket
  the loop stopped at; the two exits before the loop return the tabulated end values.
\<close>

lemma interpolateLogLog_loop_next:
  assumes "i < length points - 1"
    and "\<not> (point_t (points ! i) \<le> t \<and> t \<le> point_t (points ! (i + 1)))"
  shows "interpolateLogLog_loop points t i = interpolateLogLog_loop points t (i + 1)"
  using assms by (subst interpolateLogLog_loop.simps) (auto simp: Let_def)

lemma interpolateLogLog_loop_found:
  assumes "i < length points - 1"
    and "point_t (points ! i) \<le> t" and "t \<le> point_t (points ! (i + 1))"
  shows "interpolateLogLog_loop points t i = logLogSegment (points ! i) (points ! (i + 1)) t"
  using assms by (subst interpolateLogLog_loop.simps) (simp add: Let_def logLogSegment_def)

lemma logLogSegment_left:
  assumes "0 < point_v p1"
  shows "logLogSegment p1 p2 (point_t p1) = point_v p1"
  using assms by (simp add: logLogSegment_def)

lemma logLogSegment_right:
  assumes "0 < point_v p2" and "0 < point_t p1" and "point_t p1 < point_t p2"
  shows "logLogSegment p1 p2 (point_t p2) = point_v p2"
proof -
  have "log 10 (point_t p1) < log 10 (point_t p2)"
    using assms(2,3) by simp
  then show ?thesis
    using assms(1) by (simp add: logLogSegment_def)
qed

lemma valid_curve_nth:
  assumes "valid_curve points" and "i < length points"
  shows "0 < point_t (points ! i)" and "0 < point_v (points ! i)"
  using assms by (simp_all add: valid_curve_def list_all_length)

lemma valid_curve_less:
  assumes "valid_curve points" and "i < j" and "j < length points"
  shows "point_t (points ! i) < point_t (points ! j)"
proof -
  have "sorted_wrt (<) (map point_t points)"
    using assms(1) by (simp add: valid_curve_def)
  from sorted_wrt_nth_less [OF this, of i j] assms(2,3) show ?thesis
    by simp
qed

lemma interpolateLogLog_loop_segment:
  assumes "valid_curve points" and "i \<le> j" and "j + 1 < length points"
    and "point_t (points ! j) \<le> t" and "t \<le> point_t (points ! (j + 1))"
  shows "interpolateLogLog_loop points t i = logLogSegment (points ! j) (points ! (j + 1)) t"
  using assms(2)
proof (induction "j - i" arbitrary: i)
  case 0
  then have "i = j"
    by simp
  with assms(3,4,5) show ?case
    by (simp add: interpolateLogLog_loop_found)
next
  case (Suc d)
  then have ij: "i < j" and i1: "i + 1 \<le> j" and d: "d = j - (i + 1)"
    by simp_all
  have range: "i < length points - 1"
    using ij assms(3) by simp
  have lo: "point_t (points ! i) \<le> t"
    using valid_curve_less [OF assms(1) ij] assms(3,4) by simp
  show ?case
  proof (cases "t \<le> point_t (points ! (i + 1))")
    case False
    then have "interpolateLogLog_loop points t i = interpolateLogLog_loop points t (i + 1)"
      using range by (simp add: interpolateLogLog_loop_next)
    with Suc.hyps(1) [OF d i1] show ?thesis
      by simp
  next
    case True
    have "j = i + 1"
    proof (rule ccontr)
      assume "j \<noteq> i + 1"
      then have "i + 1 < j"
        using i1 by simp
      from valid_curve_less [OF assms(1) this] assms(3,4) True show False
        by simp
    qed
    with True assms(4) have t: "t = point_t (points ! (i + 1))"
      by simp
    have "interpolateLogLog_loop points t i = logLogSegment (points ! i) (points ! (i + 1)) t"
      using range lo True by (rule interpolateLogLog_loop_found)
    also have "\<dots> = point_v (points ! (i + 1))"
      unfolding t
      using valid_curve_nth [OF assms(1), of "i + 1"] valid_curve_nth [OF assms(1), of i]
        valid_curve_less [OF assms(1), of i "i + 1"] range
      by (intro logLogSegment_right) simp_all
    also have "\<dots> = logLogSegment (points ! j) (points ! (j + 1)) t"
      unfolding t \<open>j = i + 1\<close>
      using valid_curve_nth [OF assms(1), of "i + 1"] range
      by (intro logLogSegment_left [symmetric]) simp
    finally show ?thesis .
  qed
qed

lemma interpolateLogLog_segment:
  assumes "valid_curve points" and "j + 1 < length points"
    and "point_t (points ! j) \<le> t" and "t \<le> point_t (points ! (j + 1))"
  shows "interpolateLogLog points t = logLogSegment (points ! j) (points ! (j + 1)) t"
proof -
  let ?last = "length points - 1"
  have len: "length points \<noteq> 0"
    using assms(2) by auto
  consider (first) "t \<le> point_t (points ! 0)"
    | (last) "point_t (points ! 0) < t" "point_t (points ! ?last) \<le> t"
    | (inner) "point_t (points ! 0) < t" "t < point_t (points ! ?last)"
    by linarith
  then show ?thesis
  proof cases
    case first
    have "j = 0"
    proof (rule ccontr)
      assume "j \<noteq> 0"
      then have "0 < j"
        by simp
      from valid_curve_less [OF assms(1) this] assms(2,3) first show False
        by simp
    qed
    with first assms(3) have t: "t = point_t (points ! 0)"
      by simp
    have "interpolateLogLog points t = point_v (points ! 0)"
      using len first by (simp add: interpolateLogLog_def)
    also have "\<dots> = logLogSegment (points ! j) (points ! (j + 1)) t"
      unfolding t \<open>j = 0\<close>
      using valid_curve_nth [OF assms(1), of 0] len
      by (intro logLogSegment_left [symmetric]) simp
    finally show ?thesis .
  next
    case last
    have "j + 1 = ?last"
    proof (rule ccontr)
      assume "j + 1 \<noteq> ?last"
      then have "j + 1 < ?last"
        using assms(2) by simp
      from valid_curve_less [OF assms(1) this] assms(4) last(2) len show False
        by simp
    qed
    with last(2) assms(4) have t: "t = point_t (points ! (j + 1))"
      by simp
    have "interpolateLogLog points t = point_v (points ! ?last)"
      using len last by (simp add: interpolateLogLog_def)
    also have "\<dots> = logLogSegment (points ! j) (points ! (j + 1)) t"
      unfolding t \<open>j + 1 = ?last\<close> [symmetric]
      using valid_curve_nth [OF assms(1), of "j + 1"] valid_curve_nth [OF assms(1), of j]
        valid_curve_less [OF assms(1), of j "j + 1"] assms(2)
      by (intro logLogSegment_right [symmetric]) simp_all
    finally show ?thesis .
  next
    case inner
    then have "interpolateLogLog points t = interpolateLogLog_loop points t 0"
      using len by (simp add: interpolateLogLog_def)
    also have "\<dots> = logLogSegment (points ! j) (points ! (j + 1)) t"
      using assms by (intro interpolateLogLog_loop_segment) simp_all
    finally show ?thesis .
  qed
qed

lemma valid_nbr14039_curves:
  "valid_curve nbr14039InternalCurve" "valid_curve nbr14039ExternalCurve"
  by (simp_all add: valid_curve_def nbr14039InternalCurve_def nbr14039ExternalCurve_def)

lemma nbr14039_curve_ends:
  assumes "curve = (if area = interna then nbr14039InternalCurve else nbr14039ExternalCurve)"
  shows "length curve = 7" and "point_t (curve ! 0) = 0.01" and "point_t (curve ! 6) = 10"
    and "valid_curve curve"
  using assms valid_nbr14039_curves
  by (simp_all add: nbr14039InternalCurve_def nbr14039ExternalCurve_def)

lemma calculateNBR14039TouchVoltage_finite:
  assumes "0 < x"
  shows "calculateNBR14039TouchVoltage (Finite x) area =
    Some (interpolateLogLog
      (if area = interna then nbr14039InternalCurve else nbr14039ExternalCurve)
      (min (max x 0.01) 10))"
  using assms by (simp add: calculateNBR14039TouchVoltage_def Let_def)

text \<open>
  C7. \<^verbatim>\<open>calculateNBR14039TouchVoltage\<close> returns null for a \<open>t\<close> that is not finite
  or not positive. For every other \<open>t\<close> it looks the value clamped to \<open>[0.01, 10]\<close> up
  in the curve of the area: at or below 0.01 s the result is the first tabulated
  voltage, at or above 10 s the last one, both returned before the loop, and for \<open>t\<close>
  between two neighbouring points of the seven it is the log-log segment through them.
  In particular the internal curve gives 1000 at 0.01 s and 120 at 10 s.
\<close>

theorem calculateNBR14039TouchVoltage_curve:
  assumes "curve = (if area = interna then nbr14039InternalCurve else nbr14039ExternalCurve)"
  shows "calculateNBR14039TouchVoltage PosInfinity area = None \<and>
         calculateNBR14039TouchVoltage NegInfinity area = None \<and>
         calculateNBR14039TouchVoltage NaN area = None \<and>
         (x \<le> 0 \<longrightarrow> calculateNBR14039TouchVoltage (Finite x) area = None) \<and>
         (0 < x \<longrightarrow> calculateNBR14039TouchVoltage (Finite x) area =
            Some (interpolateLogLog curve (min (max x 0.01) 10))) \<and>
         (0 < x \<and> x \<le> 0.01 \<longrightarrow>
            calculateNBR14039TouchVoltage (Finite x) area = Some (point_v (curve ! 0))) \<and>
         (10 \<le> x \<longrightarrow>
            calculateNBR14039TouchVoltage (Finite x) area = Some (point_v (curve ! 6))) \<and>
         (\<forall>i<6. point_t (curve ! i) \<le> x \<and> x \<le> point_t (curve ! (i + 1)) \<longrightarrow>
            calculateNBR14039TouchVoltage (Finite x) area =
              Some (logLogSegment (curve ! i) (curve ! (i + 1)) x)) \<and>
         calculateNBR14039TouchVoltage (Finite 0.01) interna = Some 1000 \<and>
         calculateNBR14039TouchVoltage (Finite 10) interna = Some 120"
proof -
  note ends = nbr14039_curve_ends [OF assms]
  have nonfinite: "calculateNBR14039TouchVoltage PosInfinity area = None"
    "calculateNBR14039TouchVoltage NegInfinity area = None"
    "calculateNBR14039TouchVoltage NaN area = None"
    by (simp_all add: calculateNBR14039TouchVoltage_def)
  have nonpos: "calculateNBR14039TouchVoltage (Finite x) area = None" if "x \<le> 0"
    using that by (simp add: calculateNBR14039TouchVoltage_def)
  have clamp: "calculateNBR14039TouchVoltage (Finite x) area =
      Some (interpolateLogLog curve (min (max x 0.01) 10))" if "0 < x"
    using calculateNBR14039TouchVoltage_finite [OF that] assms by simp
  have low: "calculateNBR14039TouchVoltage (Finite x) area = Some (point_v (curve ! 0))"
    if "0 < x \<and> x \<le> 0.01"
  proof -
    have "min (max x 0.01) 10 = (0.01::real)"
      using that by simp
    then show ?thesis
      using that ends(1,2) by (simp add: clamp interpolateLogLog_def)
  qed
  have high: "calculateNBR14039TouchVoltage (Finite x) area = Some (point_v (curve ! 6))"
    if "10 \<le> x"
  proof -
    have "min (max x 0.01) 10 = (10::real)" and "0 < x"
      using that by simp_all
    then show ?thesis
      using ends(1,2,3) by (simp add: clamp interpolateLogLog_def)
  qed
  have inner: "calculateNBR14039TouchVoltage (Finite x) area =
      Some (logLogSegment (curve ! i) (curve ! (i + 1)) x)"
    if "i < 6" and "point_t (curve ! i) \<le> x \<and> x \<le> point_t (curve ! (i + 1))" for i
  proof -
    have "point_t (curve ! 0) \<le> point_t (curve ! i)"
      using valid_curve_less [OF ends(4), of 0 i] that(1) ends(1) by (cases "i = 0") simp_all
    moreover have "point_t (curve ! (i + 1)) \<le> point_t (curve ! 6)"
      using valid_curve_less [OF ends(4), of "i + 1" 6] that(1) ends(1)
      by (cases "i + 1 = 6") simp_all
    ultimately have x: "0.01 \<le> x" "x \<le> 10"
      using that(2) ends(2,3) by simp_all
    then have "min (max x 0.01) 10 = x" and "0 < x"
      by simp_all
    then have "calculateNBR14039TouchVoltage (Finite x) area = Some (interpolateLogLog curve x)"
      by (simp add: clamp)
    also have "interpolateLogLog curve x = logLogSegment (curve ! i) (curve ! (i + 1)) x"
      using ends(4) that ends(1) by (intro interpolateLogLog_segment) simp_all
    finally show ?thesis .
  qed
  have "calculateNBR14039TouchVoltage (Finite 0.01) interna = Some 1000"
    by (simp add: calculateNBR14039TouchVoltage_def interpolateLogLog_def
        nbr14039InternalCurve_def)
  moreover have "calculateNBR14039TouchVoltage (Finite 10) interna = Some 120"
    by (simp add: calculateNBR14039TouchVoltage_def interpolateLogLog_def
        nbr14039InternalCurve_def)
  ultimately show ?thesis
    using nonfinite nonpos clamp low high inner by blast
qed

theorem calculateNBR14039TouchVoltage_curve_witness:
  "calculateNBR14039TouchVoltage (Finite (- 1)) interna = None \<and>
   calculateNBR14039TouchVoltage (Finite (1 / 200)) interna = Some 1000 \<and>
   calculateNBR14039TouchVoltage (Finite 50) externa = Some 90 \<and>
   calculateNBR14039TouchVoltage (Finite (1 / 2)) interna =
     Some (logLogSegment \<lparr>point_t = 0.3, point_v = 330\<rparr> \<lparr>point_t = 1, point_v = 230\<rparr> (1 / 2)) \<and>
   calculateNBR14039TouchVoltage (Finite 0.01) interna = Some 1000 \<and>
   calculateNBR14039TouchVoltage (Finite 10) interna = Some 120"
proof -
  have int: "nbr14039InternalCurve =
      (if interna = interna then nbr14039InternalCurve else nbr14039ExternalCurve)"
    and ext: "nbr14039ExternalCurve =
      (if externa = interna then nbr14039InternalCurve else nbr14039ExternalCurve)"
    by simp_all
  from calculateNBR14039TouchVoltage_curve [OF int, of "- 1"]
  have "- 1 \<le> (0::real) \<longrightarrow> calculateNBR14039TouchVoltage (Finite (- 1)) interna = None"
    by blast
  then have a: "calculateNBR14039TouchVoltage (Finite (- 1)) interna = None"
    by simp
  from calculateNBR14039TouchVoltage_curve [OF int, of "1 / 200"]
  have "0 < (1 / 200::real) \<and> (1 / 200::real) \<le> 0.01 \<longrightarrow>
      calculateNBR14039TouchVoltage (Finite (1 / 200)) interna =
        Some (point_v (nbr14039InternalCurve ! 0))"
    by blast
  then have b: "calculateNBR14039TouchVoltage (Finite (1 / 200)) interna = Some 1000"
    by (simp add: nbr14039InternalCurve_def)
  from calculateNBR14039TouchVoltage_curve [OF ext, of 50]
  have "(10::real) \<le> 50 \<longrightarrow>
      calculateNBR14039TouchVoltage (Finite 50) externa =
        Some (point_v (nbr14039ExternalCurve ! 6))"
    by blast
  then have c: "calculateNBR14039TouchVoltage (Finite 50) externa = Some 90"
    by (simp add: nbr14039ExternalCurve_def)
  from calculateNBR14039TouchVoltage_curve [OF int, of "1 / 2"]
  have "\<forall>i<6. point_t (nbr14039InternalCurve ! i) \<le> 1 / 2 \<and>
        1 / 2 \<le> point_t (nbr14039InternalCurve ! (i + 1)) \<longrightarrow>
        calculateNBR14039TouchVoltage (Finite (1 / 2)) interna =
          Some (logLogSegment (nbr14039InternalCurve ! i) (nbr14039InternalCurve ! (i + 1)) (1 / 2))"
    by blast
  then have "(3::nat) < 6 \<longrightarrow> point_t (nbr14039InternalCurve ! 3) \<le> 1 / 2 \<and>
        1 / 2 \<le> point_t (nbr14039InternalCurve ! (3 + 1)) \<longrightarrow>
        calculateNBR14039TouchVoltage (Finite (1 / 2)) interna =
          Some (logLogSegment (nbr14039InternalCurve ! 3) (nbr14039InternalCurve ! (3 + 1)) (1 / 2))"
    by (rule spec)
  then have d: "calculateNBR14039TouchVoltage (Finite (1 / 2)) interna =
     Some (logLogSegment \<lparr>point_t = 0.3, point_v = 330\<rparr> \<lparr>point_t = 1, point_v = 230\<rparr> (1 / 2))"
    by (simp add: nbr14039InternalCurve_def)
  from calculateNBR14039TouchVoltage_curve [OF int, of 1]
  have e: "calculateNBR14039TouchVoltage (Finite 0.01) interna = Some 1000"
    "calculateNBR14039TouchVoltage (Finite 10) interna = Some 120"
    by blast+
  from a b c d e show ?thesis
    by simp
qed

subsection \<open>Step-voltage visualisation\<close>

text \<open>
  The two components of the loop state do not depend on each other: the matrix is
  filled cell by cell, and the maximum is raised cell by cell.
\<close>

lemma stepCell_fold_fst:
  "fst (fold (stepCell pm rows cols r) cs st) =
     fold (\<lambda>c sm. sm[r := (sm ! r)[c := gradAt pm rows cols r c]]) cs (fst st)"
  by (induction cs arbitrary: st) (simp_all add: stepCell_def case_prod_beta Let_def)

lemma stepCell_fold_snd:
  "snd (fold (stepCell pm rows cols r) cs st) =
     fold (\<lambda>c. raiseMax (gradAt pm rows cols r c)) cs (snd st)"
  by (induction cs arbitrary: st) (simp_all add: stepCell_def case_prod_beta Let_def)

lemma stepRows_fold_fst:
  "fst (fold (\<lambda>r. fold (stepCell pm rows cols r) cs) rs st) =
     fold (\<lambda>r. fold (\<lambda>c sm. sm[r := (sm ! r)[c := gradAt pm rows cols r c]]) cs) rs (fst st)"
  by (induction rs arbitrary: st) (simp_all add: stepCell_fold_fst)

lemma stepRows_fold_snd:
  "snd (fold (\<lambda>r. fold (stepCell pm rows cols r) cs) rs st) =
     fold (\<lambda>r. fold (\<lambda>c. raiseMax (gradAt pm rows cols r c)) cs) rs (snd st)"
  by (induction rs arbitrary: st) (simp_all add: stepCell_fold_snd)

text \<open>
  A pair of nested loops that overwrites the cell \<open>(r, c)\<close> with a function of its old
  value, for \<open>r < m\<close> and \<open>c < n\<close>, changes exactly those cells and no dimension. Both
  pairs of loops of \<^verbatim>\<open>calculateStepMatrix\<close> are of this kind.
\<close>

lemma fill_row:
  assumes "r < length sm" and "n \<le> length (sm ! r)"
  shows "length (fold (\<lambda>c sm. sm[r := (sm ! r)[c := h c (sm ! r ! c)]]) [0..<n] sm) = length sm \<and>
    (\<forall>r'<length sm. \<forall>c'.
       length (fold (\<lambda>c sm. sm[r := (sm ! r)[c := h c (sm ! r ! c)]]) [0..<n] sm ! r') =
         length (sm ! r') \<and>
       fold (\<lambda>c sm. sm[r := (sm ! r)[c := h c (sm ! r ! c)]]) [0..<n] sm ! r' ! c' =
         (if r' = r \<and> c' < n then h c' (sm ! r ! c') else sm ! r' ! c'))"
  using assms(2)
proof (induction n)
  case 0
  then show ?case by simp
next
  case (Suc n)
  let ?f = "\<lambda>c sm. sm[r := (sm ! r)[c := h c (sm ! r ! c)]]"
  let ?m = "fold ?f [0..<n] sm"
  from Suc have IH: "length ?m = length sm"
    "\<And>r' c'. r' < length sm \<Longrightarrow> length (?m ! r') = length (sm ! r')"
    "\<And>r' c'. r' < length sm \<Longrightarrow> ?m ! r' ! c' = (if r' = r \<and> c' < n then h c' (sm ! r ! c') else sm ! r' ! c')"
    by simp_all
  have step: "fold ?f [0..<Suc n] sm = ?m[r := (?m ! r)[n := h n (?m ! r ! n)]]"
    by simp
  have n: "n < length (sm ! r)"
    using Suc.prems by simp
  show ?case
    unfolding step using assms(1) n IH
    by (auto simp: nth_list_update less_Suc_eq)
qed

lemma fill_rows:
  assumes "m \<le> length sm" and "\<forall>r<m. n \<le> length (sm ! r)"
  shows "length (fold (\<lambda>r. fold (\<lambda>c sm. sm[r := (sm ! r)[c := h r c (sm ! r ! c)]]) [0..<n]) [0..<m] sm)
      = length sm \<and>
    (\<forall>r'<length sm. \<forall>c'.
       length (fold (\<lambda>r. fold (\<lambda>c sm. sm[r := (sm ! r)[c := h r c (sm ! r ! c)]]) [0..<n]) [0..<m] sm ! r') =
         length (sm ! r') \<and>
       fold (\<lambda>r. fold (\<lambda>c sm. sm[r := (sm ! r)[c := h r c (sm ! r ! c)]]) [0..<n]) [0..<m] sm ! r' ! c' =
         (if r' < m \<and> c' < n then h r' c' (sm ! r' ! c') else sm ! r' ! c'))"
  using assms
proof (induction m)
  case 0
  then show ?case by simp
next
  case (Suc m)
  let ?g = "\<lambda>r. fold (\<lambda>c sm. sm[r := (sm ! r)[c := h r c (sm ! r ! c)]]) [0..<n]"
  let ?M = "fold ?g [0..<m] sm"
  from Suc have IH: "length ?M = length sm"
    "\<And>r' c'. r' < length sm \<Longrightarrow> length (?M ! r') = length (sm ! r')"
    "\<And>r' c'. r' < length sm \<Longrightarrow> ?M ! r' ! c' = (if r' < m \<and> c' < n then h r' c' (sm ! r' ! c') else sm ! r' ! c')"
    by simp_all
  have m: "m < length ?M" "n \<le> length (?M ! m)"
    using Suc.prems IH(1,2) by simp_all
  have step: "fold ?g [0..<Suc m] sm = ?g m ?M"
    by simp
  note row = fill_row [OF m, of "h m"]
  show ?case
    unfolding step using row IH m
    by (auto simp: less_Suc_eq)
qed

text \<open>
  The gradient of three numbers of absolute value at most \<open>2\<^sup>5\<^sup>0\<^sup>0\<close>: no operation
  overflows, and the result is a number that is not negative.
\<close>

lemma difference_bounded:
  assumes "\<bar>v\<bar> \<le> 2 ^ 500" and "\<bar>w\<bar> \<le> 2 ^ 500"
  shows "js_abs (js_sub (Finite v) (Finite w)) = Finite \<bar>f64 (v - w)\<bar>"
    and "\<bar>f64 (v - w)\<bar> \<le> 2 ^ 501"
proof -
  have b: "\<bar>v - w\<bar> \<le> 2 ^ 501"
    using assms by simp
  then show "\<bar>f64 (v - w)\<bar> \<le> 2 ^ 501"
    by (rule f64_abs_le_power2)
  show "js_abs (js_sub (Finite v) (Finite w)) = Finite \<bar>f64 (v - w)\<bar>"
    using round64_finite [OF b] by (simp add: js_sub_def)
qed

lemma square_bounded:
  assumes "0 \<le> d" and "d \<le> 2 ^ 501"
  shows "js_mul (Finite d) (Finite d) = Finite (f64 (d * d))"
    and "0 \<le> f64 (d * d)" and "f64 (d * d) \<le> 2 ^ 1002"
proof -
  have "d * d \<le> 2 ^ 501 * 2 ^ 501"
    using assms by (intro mult_mono) simp_all
  then have b: "\<bar>d * d\<bar> \<le> 2 ^ 1002"
    using assms(1) by (simp add: power_add [symmetric])
  show "js_mul (Finite d) (Finite d) = Finite (f64 (d * d))"
    using round64_finite [OF b] by simp
  show "0 \<le> f64 (d * d)"
    using assms(1) by (intro f64_nonneg) simp
  show "f64 (d * d) \<le> 2 ^ 1002"
    using f64_abs_le_power2 [OF b] by simp
qed

lemma gradient_bounded:
  assumes "\<bar>v\<bar> \<le> 2 ^ 500" and "\<bar>w\<bar> \<le> 2 ^ 500" and "\<bar>z\<bar> \<le> 2 ^ 500"
  shows "\<exists>g. js_sqrt (js_add
           (js_mul (js_abs (js_sub (Finite v) (Finite w))) (js_abs (js_sub (Finite v) (Finite w))))
           (js_mul (js_abs (js_sub (Finite v) (Finite z))) (js_abs (js_sub (Finite v) (Finite z))))) =
         Finite g \<and> 0 \<le> g \<and>
         (1 / 2 ^ 500 \<le> \<bar>v - w\<bar> \<or> 1 / 2 ^ 500 \<le> \<bar>v - z\<bar> \<longrightarrow> 0 < g)"
proof -
  define dx where "dx = \<bar>f64 (v - w)\<bar>"
  define dy where "dy = \<bar>f64 (v - z)\<bar>"
  define s where "s = f64 (f64 (dx * dx) + f64 (dy * dy))"
  note x = difference_bounded [OF assms(1,2), folded dx_def]
  note y = difference_bounded [OF assms(1,3), folded dy_def]
  have dx0: "0 \<le> dx" and dy0: "0 \<le> dy"
    by (simp_all add: dx_def dy_def)
  note xx = square_bounded [OF dx0 x(2)]
  note yy = square_bounded [OF dy0 y(2)]
  have s0: "0 \<le> f64 (dx * dx) + f64 (dy * dy)"
    using xx(2) yy(2) by simp
  have "f64 (dx * dx) + f64 (dy * dy) \<le> 2 ^ 1002 + 2 ^ 1002"
    using xx(3) yy(3) by (rule add_mono)
  then have b: "\<bar>f64 (dx * dx) + f64 (dy * dy)\<bar> \<le> 2 ^ 1003"
    using s0 by simp
  have sum: "js_add (Finite (f64 (dx * dx))) (Finite (f64 (dy * dy))) = Finite s"
    using round64_finite [OF b] by (simp add: s_def)
  have s1: "0 \<le> s"
    unfolding s_def using s0 by (rule f64_nonneg)
  have "js_sqrt (js_add
           (js_mul (js_abs (js_sub (Finite v) (Finite w))) (js_abs (js_sub (Finite v) (Finite w))))
           (js_mul (js_abs (js_sub (Finite v) (Finite z))) (js_abs (js_sub (Finite v) (Finite z))))) =
         js_sqrt (Finite s)"
    by (simp only: x(1) y(1) xx(1) yy(1) sum)
  also have "\<dots> = Finite (f64 (sqrt s))"
    using s1 by simp
  finally have val: "js_sqrt (js_add
           (js_mul (js_abs (js_sub (Finite v) (Finite w))) (js_abs (js_sub (Finite v) (Finite w))))
           (js_mul (js_abs (js_sub (Finite v) (Finite z))) (js_abs (js_sub (Finite v) (Finite z))))) =
         Finite (f64 (sqrt s))" .
  have "0 \<le> sqrt s"
    using s1 by simp
  then have nonneg: "0 \<le> f64 (sqrt s)"
    by (rule f64_nonneg)
  have square: "1 / 2 ^ 1000 \<le> f64 (d * d)" if "1 / 2 ^ 500 \<le> d" for d :: real
  proof -
    have "(1 / 2 ^ 500) * (1 / 2 ^ 500) \<le> d * d"
      using that by (intro mult_mono) simp_all
    then have "1 / 2 ^ 1000 \<le> d * d"
      by (simp add: power_add [symmetric])
    then show ?thesis
      by (rule f64_ge_inverse_power2) simp
  qed
  have steep: "0 < f64 (sqrt s)" if "1 / 2 ^ 500 \<le> dx \<or> 1 / 2 ^ 500 \<le> dy"
  proof -
    have "1 / 2 ^ 1000 \<le> f64 (dx * dx) + f64 (dy * dy)"
      using that square [of dx] square [of dy] xx(2) yy(2) by linarith
    then have "1 / 2 ^ 1000 \<le> s"
      unfolding s_def by (rule f64_ge_inverse_power2) simp
    then have "sqrt (1 / 2 ^ 1000) \<le> sqrt s"
      by (simp only: real_sqrt_le_iff)
    moreover have "(1 / 2 ^ 500 :: real)\<^sup>2 = 1 / 2 ^ 1000"
      by (simp add: power_divide power_mult [symmetric])
    then have "sqrt (1 / 2 ^ 1000) = 1 / 2 ^ 500"
      by (rule real_sqrt_unique) simp
    ultimately have "1 / 2 ^ 500 \<le> sqrt s"
      by (simp only:)
    then have "1 / 2 ^ 500 \<le> f64 (sqrt s)"
      by (rule f64_ge_inverse_power2) simp
    moreover have "(0::real) < 1 / 2 ^ 500"
      by simp
    ultimately show ?thesis
      by linarith
  qed
  have dxs: "1 / 2 ^ 500 \<le> dx" if "1 / 2 ^ 500 \<le> \<bar>v - w\<bar>"
    unfolding dx_def using f64_abs_ge_pow2 [of "- 500" "v - w"] that
    by (simp add: powr_minus_divide)
  have dys: "1 / 2 ^ 500 \<le> dy" if "1 / 2 ^ 500 \<le> \<bar>v - z\<bar>"
    unfolding dy_def using f64_abs_ge_pow2 [of "- 500" "v - z"] that
    by (simp add: powr_minus_divide)
  show ?thesis
    using val nonneg steep dxs dys by blast
qed

lemma gradient_flat:
  "js_sqrt (js_add
     (js_mul (js_abs (js_sub (Finite v) (Finite v))) (js_abs (js_sub (Finite v) (Finite v))))
     (js_mul (js_abs (js_sub (Finite v) (Finite v))) (js_abs (js_sub (Finite v) (Finite v))))) =
   Finite 0"
  by (simp add: js_sub_def round64_0 f64_0)

text \<open>
  After the loops over gradients that are numbers, \<^verbatim>\<open>maxStep\<close> is a number, at least
  its start value and at least every gradient, and it is the start value or one of
  the gradients.
\<close>

lemma raiseMax_finite: "raiseMax (Finite g) (Finite m) = Finite (max m g)"
  by (simp add: raiseMax_def max_def)

lemma raiseMax_row:
  assumes "\<forall>c<n. G c = Finite (g c)"
  shows "\<exists>M. fold (\<lambda>c. raiseMax (G c)) [0..<n] (Finite mx) = Finite M \<and> mx \<le> M \<and>
           (\<forall>c<n. g c \<le> M) \<and> (M = mx \<or> (\<exists>c<n. g c = M))"
  using assms
proof (induction n)
  case 0
  then show ?case by simp
next
  case (Suc n)
  have "\<forall>c<n. G c = Finite (g c)"
    using Suc.prems by simp
  from Suc.IH [OF this] obtain M where M: "fold (\<lambda>c. raiseMax (G c)) [0..<n] (Finite mx) = Finite M"
    "mx \<le> M" "\<And>c. c < n \<Longrightarrow> g c \<le> M" "M = mx \<or> (\<exists>c<n. g c = M)"
    by blast
  have Gn: "G n = Finite (g n)"
    using Suc.prems by simp
  have step: "fold (\<lambda>c. raiseMax (G c)) [0..<Suc n] (Finite mx) = Finite (max M (g n))"
    by (simp add: M(1) Gn raiseMax_finite)
  have ub: "g c \<le> max M (g n)" if "c < Suc n" for c
  proof (cases "c = n")
    case True
    then show ?thesis by simp
  next
    case False
    with that have "c < n" by simp
    from M(3) [OF this] show ?thesis by simp
  qed
  have att: "max M (g n) = mx \<or> (\<exists>c<Suc n. g c = max M (g n))"
  proof (cases "M < g n")
    case True
    then have "g n = max M (g n)" by simp
    then show ?thesis by blast
  next
    case False
    then have "max M (g n) = M" by simp
    with M(4) show ?thesis
      by (metis less_Suc_eq)
  qed
  have "mx \<le> max M (g n)"
    using M(2) by simp
  with step ub att show ?case
    by blast
qed

lemma raiseMax_rows:
  assumes "\<forall>r<m. \<forall>c<n. G r c = Finite (g r c)"
  shows "\<exists>M. fold (\<lambda>r. fold (\<lambda>c. raiseMax (G r c)) [0..<n]) [0..<m] (Finite mx) = Finite M \<and>
           mx \<le> M \<and> (\<forall>r<m. \<forall>c<n. g r c \<le> M) \<and> (M = mx \<or> (\<exists>r<m. \<exists>c<n. g r c = M))"
  using assms
proof (induction m)
  case 0
  then show ?case by simp
next
  case (Suc m)
  have "\<forall>r<m. \<forall>c<n. G r c = Finite (g r c)"
    using Suc.prems by simp
  from Suc.IH [OF this] obtain M where M:
    "fold (\<lambda>r. fold (\<lambda>c. raiseMax (G r c)) [0..<n]) [0..<m] (Finite mx) = Finite M"
    "mx \<le> M" "\<And>r c. r < m \<Longrightarrow> c < n \<Longrightarrow> g r c \<le> M" "M = mx \<or> (\<exists>r<m. \<exists>c<n. g r c = M)"
    by blast
  have "\<forall>c<n. G m c = Finite (g m c)"
    using Suc.prems by simp
  from raiseMax_row [OF this, of M] obtain M' where M':
    "fold (\<lambda>c. raiseMax (G m c)) [0..<n] (Finite M) = Finite M'"
    "M \<le> M'" "\<And>c. c < n \<Longrightarrow> g m c \<le> M'" "M' = M \<or> (\<exists>c<n. g m c = M')"
    by blast
  have step: "fold (\<lambda>r. fold (\<lambda>c. raiseMax (G r c)) [0..<n]) [0..<Suc m] (Finite mx) = Finite M'"
    by (simp add: M(1) M'(1))
  have le: "mx \<le> M'"
    using M(2) M'(2) by linarith
  have ub: "g r c \<le> M'" if "r < Suc m" "c < n" for r c
  proof (cases "r = m")
    case True
    with M'(3) that show ?thesis by simp
  next
    case False
    with that have "r < m" by simp
    from M(3) [OF this that(2)] M'(2) show ?thesis by linarith
  qed
  have att: "M' = mx \<or> (\<exists>r<Suc m. \<exists>c<n. g r c = M')"
  proof (cases "M' = M")
    case True
    with M(4) show ?thesis
      by (metis less_Suc_eq)
  next
    case False
    with M'(4) have "\<exists>c<n. g m c = M'" by simp
    then show ?thesis by blast
  qed
  from step le ub att show ?case
    by blast
qed

lemma normalizeCell_fill:
  "normalizeCell mx r = (\<lambda>c sm. sm[r := (sm ! r)[c := js_div (sm ! r ! c) mx]])"
  by (intro ext) (simp add: normalizeCell_def)

lemma calculateStepMatrix_cells:
  assumes "potentialMatrix \<noteq> []"
  defines "rows \<equiv> length potentialMatrix" and "cols \<equiv> length (potentialMatrix ! 0)"
  assumes "\<forall>r<rows. \<forall>c<cols. gradAt potentialMatrix rows cols r c = Finite (g r c)"
  shows "\<exists>stepMatrix maxStep.
    calculateStepMatrix potentialMatrix = Inr stepMatrix \<and>
    length stepMatrix = rows \<and> (\<forall>r<rows. length (stepMatrix ! r) = cols) \<and>
    0 \<le> maxStep \<and> (\<forall>r<rows. \<forall>c<cols. g r c \<le> maxStep) \<and>
    (maxStep = 0 \<or> (\<exists>r<rows. \<exists>c<cols. g r c = maxStep)) \<and>
    (\<forall>r<rows. \<forall>c<cols. stepMatrix ! r ! c =
       (if 0 < maxStep then js_div (Finite (g r c)) (Finite maxStep) else Finite (g r c)))"
proof -
  define G where "G = gradAt potentialMatrix rows cols"
  have G: "\<forall>r<rows. \<forall>c<cols. G r c = Finite (g r c)"
    using assms(4) by (simp add: G_def)
  define sm0 :: "js_number list list" where "sm0 = replicate rows (replicate cols (Finite 0))"
  define st where "st = fold (\<lambda>r. fold (stepCell potentialMatrix rows cols r) [0..<cols]) [0..<rows]
    (sm0, Finite 0)"
  define sm1 where "sm1 = fst st"
  have sm1: "sm1 = fold (\<lambda>r. fold (\<lambda>c sm. sm[r := (sm ! r)[c := G r c]]) [0..<cols]) [0..<rows] sm0"
    by (simp add: sm1_def st_def stepRows_fold_fst G_def)
  have mxf: "snd st = fold (\<lambda>r. fold (\<lambda>c. raiseMax (G r c)) [0..<cols]) [0..<rows] (Finite 0)"
    by (simp add: st_def stepRows_fold_snd G_def)
  from raiseMax_rows [OF G, of 0] obtain mx where
    mx: "snd st = Finite mx" and mx0: "0 \<le> mx"
    and ub: "\<And>r c. r < rows \<Longrightarrow> c < cols \<Longrightarrow> g r c \<le> mx"
    and att: "mx = 0 \<or> (\<exists>r<rows. \<exists>c<cols. g r c = mx)"
    unfolding mxf [symmetric] by blast
  have dims0: "rows \<le> length sm0" "\<forall>r<rows. cols \<le> length (sm0 ! r)" "length sm0 = rows"
    by (simp_all add: sm0_def)
  from fill_rows [OF dims0(1,2), of "\<lambda>r c old. G r c"]
  have len1: "length sm1 = rows" and rowlen1: "\<And>r. r < rows \<Longrightarrow> length (sm1 ! r) = cols"
    and cell1: "\<And>r c. r < rows \<Longrightarrow> c < cols \<Longrightarrow> sm1 ! r ! c = G r c"
    unfolding sm1 [symmetric] dims0(3) by (simp_all add: sm0_def)
  define out where "out = (if 0 < mx
    then fold (\<lambda>r. fold (normalizeCell (Finite mx) r) [0..<cols]) [0..<rows] sm1 else sm1)"
  have res: "calculateStepMatrix potentialMatrix = Inr out"
    using assms(1) mx
    by (simp add: calculateStepMatrix_def Let_def case_prod_beta out_def sm1_def st_def
        sm0_def rows_def cols_def)
  have dims1: "rows \<le> length sm1" "\<forall>r<rows. cols \<le> length (sm1 ! r)"
    using len1 rowlen1 by simp_all
  from fill_rows [OF dims1, of "\<lambda>r c old. js_div old (Finite mx)"]
  have norm: "length (fold (\<lambda>r. fold (normalizeCell (Finite mx) r) [0..<cols]) [0..<rows] sm1) = rows"
    "\<And>r. r < rows \<Longrightarrow>
      length (fold (\<lambda>r. fold (normalizeCell (Finite mx) r) [0..<cols]) [0..<rows] sm1 ! r) = cols"
    "\<And>r c. r < rows \<Longrightarrow> c < cols \<Longrightarrow>
      fold (\<lambda>r. fold (normalizeCell (Finite mx) r) [0..<cols]) [0..<rows] sm1 ! r ! c =
        js_div (G r c) (Finite mx)"
    unfolding normalizeCell_fill len1 using rowlen1 cell1 by simp_all
  have "length out = rows" "\<forall>r<rows. length (out ! r) = cols"
    "\<forall>r<rows. \<forall>c<cols. out ! r ! c =
       (if 0 < mx then js_div (Finite (g r c)) (Finite mx) else Finite (g r c))"
    using norm len1 rowlen1 cell1 G by (simp_all add: out_def)
  with res mx0 ub att show ?thesis
    by blast
qed

text \<open>
  In a rectangular matrix of numbers of absolute value at most \<open>2\<^sup>5\<^sup>0\<^sup>0\<close> every cell and
  both its neighbours can be read, and every gradient is a number that is not negative.
\<close>

lemma gradAt_rectangular:
  assumes "\<forall>r<length pm. length (pm ! r) = cols"
    and "\<forall>r<length pm. \<forall>c<cols. \<exists>x. pm ! r ! c = Finite x \<and> \<bar>x\<bar> \<le> 2 ^ 500"
    and "r < length pm" and "c < cols"
  shows "\<exists>g. gradAt pm (length pm) cols r c = Finite g \<and> 0 \<le> g \<and>
    (\<forall>x y. pm ! r ! c = Finite x \<and>
       (c + 1 < cols \<and> pm ! r ! (c + 1) = Finite y \<or>
        r + 1 < length pm \<and> pm ! (r + 1) ! c = Finite y) \<and>
       1 / 2 ^ 500 \<le> \<bar>x - y\<bar> \<longrightarrow> 0 < g)"
proof -
  from assms obtain v where v: "pm ! r ! c = Finite v" "\<bar>v\<bar> \<le> 2 ^ 500"
    by blast
  define w where "w = (if c + 1 < cols then (case pm ! r ! (c + 1) of Finite y \<Rightarrow> y | _ \<Rightarrow> 0) else v)"
  define z where "z = (if r + 1 < length pm then (case pm ! (r + 1) ! c of Finite y \<Rightarrow> y | _ \<Rightarrow> 0) else v)"
  have w: "(if c + 1 < cols then cellAt pm r (c + 1) else Finite v) = Finite w" "\<bar>w\<bar> \<le> 2 ^ 500"
  proof -
    show "(if c + 1 < cols then cellAt pm r (c + 1) else Finite v) = Finite w"
    proof (cases "c + 1 < cols")
      case True
      with assms(2,3) obtain y where "pm ! r ! (c + 1) = Finite y"
        by blast
      with True assms(1,3) show ?thesis
        by (simp add: w_def cellAt_def)
    next
      case False
      then show ?thesis
        by (simp add: w_def)
    qed
    show "\<bar>w\<bar> \<le> 2 ^ 500"
    proof (cases "c + 1 < cols")
      case True
      with assms(2,3) obtain y where "pm ! r ! (c + 1) = Finite y" "\<bar>y\<bar> \<le> 2 ^ 500"
        by blast
      with True show ?thesis
        by (simp add: w_def)
    next
      case False
      with v(2) show ?thesis
        by (simp add: w_def)
    qed
  qed
  have z: "(if r + 1 < length pm then cellAt pm (r + 1) c else Finite v) = Finite z" "\<bar>z\<bar> \<le> 2 ^ 500"
  proof -
    show "(if r + 1 < length pm then cellAt pm (r + 1) c else Finite v) = Finite z"
    proof (cases "r + 1 < length pm")
      case True
      with assms(2,4) obtain y where "pm ! (r + 1) ! c = Finite y"
        by blast
      with True assms(1,4) show ?thesis
        by (simp add: z_def cellAt_def)
    next
      case False
      then show ?thesis
        by (simp add: z_def)
    qed
    show "\<bar>z\<bar> \<le> 2 ^ 500"
    proof (cases "r + 1 < length pm")
      case True
      with assms(2,4) obtain y where "pm ! (r + 1) ! c = Finite y" "\<bar>y\<bar> \<le> 2 ^ 500"
        by blast
      with True show ?thesis
        by (simp add: z_def)
    next
      case False
      with v(2) show ?thesis
        by (simp add: z_def)
    qed
  qed
  have cell: "cellAt pm r c = Finite v"
    using assms(1,3,4) v(1) by (simp add: cellAt_def)
  have grad: "gradAt pm (length pm) cols r c =
    js_sqrt (js_add
      (js_mul (js_abs (js_sub (Finite v) (Finite w))) (js_abs (js_sub (Finite v) (Finite w))))
      (js_mul (js_abs (js_sub (Finite v) (Finite z))) (js_abs (js_sub (Finite v) (Finite z)))))"
    unfolding gradAt_def Let_def cell w(1) z(1) by (rule refl)
  from gradient_bounded [OF v(2) w(2) z(2)] obtain g where g:
    "gradAt pm (length pm) cols r c = Finite g" "0 \<le> g"
    "1 / 2 ^ 500 \<le> \<bar>v - w\<bar> \<or> 1 / 2 ^ 500 \<le> \<bar>v - z\<bar> \<longrightarrow> 0 < g"
    unfolding grad [symmetric] by blast
  have "0 < g" if "pm ! r ! c = Finite x"
    "c + 1 < cols \<and> pm ! r ! (c + 1) = Finite y \<or> r + 1 < length pm \<and> pm ! (r + 1) ! c = Finite y"
    "1 / 2 ^ 500 \<le> \<bar>x - y\<bar>" for x y
  proof -
    have x: "x = v"
      using that(1) v(1) by simp
    from that(2) have "y = w \<or> y = z"
      by (auto simp: w_def z_def)
    with that(3) x g(3) show ?thesis
      by auto
  qed
  with g(1,2) show ?thesis
    by blast
qed

lemma gradAt_flat:
  assumes "\<forall>r<length pm. length (pm ! r) = cols"
    and "\<forall>r<length pm. \<forall>c<cols. pm ! r ! c = Finite v"
    and "r < length pm" and "c < cols"
  shows "gradAt pm (length pm) cols r c = Finite 0"
proof -
  have cell: "cellAt pm r c = Finite v"
    using assms by (simp add: cellAt_def)
  have w: "(if c + 1 < cols then cellAt pm r (c + 1) else Finite v) = Finite v"
    using assms by (simp add: cellAt_def)
  have z: "(if r + 1 < length pm then cellAt pm (r + 1) c else Finite v) = Finite v"
    using assms by (simp add: cellAt_def)
  show ?thesis
    unfolding gradAt_def Let_def cell w z by (rule gradient_flat)
qed

text \<open>
  Three matrices on which the claim fails. A matrix with a \<^verbatim>\<open>NaN\<close> entry (the
  application passes one when the grid has a single conductor in one direction):
  the gradient is \<^verbatim>\<open>NaN\<close>, the maximum stays 0, and the entry is returned as \<^verbatim>\<open>NaN\<close>.
  Entries of \<open>2\<^sup>6\<^sup>0\<^sup>0\<close>: the squares overflow, the gradients and the maximum are
  infinite, and the normalising loop stores \<^verbatim>\<open>Infinity / Infinity\<close>. Entries of
  \<open>2\<^sup>-\<^sup>6\<^sup>0\<^sup>0\<close>: the squares underflow to 0, so every gradient is 0 although the field is
  not flat, and no entry is 1.
\<close>

lemma stepMatrix_overflow:
  assumes "f64 x = x" and "0 < x" and "x < overflow_threshold" and "overflow_threshold \<le> x * x"
  shows "calculateStepMatrix [[Finite 0, Finite x], [Finite x, Finite 0]] =
           Inr [[NaN, NaN], [NaN, Finite 0]]"
proof -
  have t: "0 < overflow_threshold"
    by (simp add: overflow_threshold_def)
  have r: "round64 x = Finite x" "round64 (- x) = Finite (- x)" "round64 (x * x) = PosInfinity"
    using assms t by (simp_all add: round64_def f64_minus)
  have g: "gradAt [[Finite 0, Finite x], [Finite x, Finite 0]] (Suc (Suc 0)) (Suc (Suc 0)) 0 0 = PosInfinity"
    "gradAt [[Finite 0, Finite x], [Finite x, Finite 0]] (Suc (Suc 0)) (Suc (Suc 0)) 0 (Suc 0) = PosInfinity"
    "gradAt [[Finite 0, Finite x], [Finite x, Finite 0]] (Suc (Suc 0)) (Suc (Suc 0)) (Suc 0) 0 = PosInfinity"
    "gradAt [[Finite 0, Finite x], [Finite x, Finite 0]] (Suc (Suc 0)) (Suc (Suc 0)) (Suc 0) (Suc 0) = Finite 0"
    using assms(2) by (simp_all add: gradAt_def cellAt_def Let_def js_sub_def r round64_0 f64_0)
  show ?thesis
    by (simp add: calculateStepMatrix_def Let_def stepCell_def g raiseMax_def normalizeCell_def)
qed

lemma stepMatrix_underflow:
  assumes "f64 x = x" and "0 < x" and "x < overflow_threshold" and "x * x < 2 powr (- 1075)"
  shows "calculateStepMatrix [[Finite 0, Finite x], [Finite x, Finite 0]] =
           Inr [[Finite 0, Finite 0], [Finite 0, Finite 0]]"
proof -
  have t: "0 < overflow_threshold"
    by (simp add: overflow_threshold_def)
  have "\<bar>x * x\<bar> < 2 powr (- 1075)"
    using assms(4) by simp
  then have z: "f64 (x * x) = 0"
    by (rule f64_zeroI)
  have "x * x < overflow_threshold"
    using assms(4) t by (simp add: powr_minus_divide overflow_threshold_def)
  moreover have "0 \<le> x * x"
    by simp
  ultimately have "\<not> overflow_threshold \<le> x * x" "\<not> x * x \<le> - overflow_threshold"
    using t by linarith+
  then have xx: "round64 (x * x) = Finite 0"
    using z by (simp add: round64_def)
  have r: "round64 x = Finite x" "round64 (- x) = Finite (- x)"
    using assms t by (simp_all add: round64_def f64_minus)
  have g: "gradAt [[Finite 0, Finite x], [Finite x, Finite 0]] (Suc (Suc 0)) (Suc (Suc 0)) 0 0 = Finite 0"
    "gradAt [[Finite 0, Finite x], [Finite x, Finite 0]] (Suc (Suc 0)) (Suc (Suc 0)) 0 (Suc 0) = Finite 0"
    "gradAt [[Finite 0, Finite x], [Finite x, Finite 0]] (Suc (Suc 0)) (Suc (Suc 0)) (Suc 0) 0 = Finite 0"
    "gradAt [[Finite 0, Finite x], [Finite x, Finite 0]] (Suc (Suc 0)) (Suc (Suc 0)) (Suc 0) (Suc 0) = Finite 0"
    using assms(2) by (simp_all add: gradAt_def cellAt_def Let_def js_sub_def r xx round64_0 f64_0)
  show ?thesis
    by (simp add: calculateStepMatrix_def Let_def stepCell_def g raiseMax_def normalizeCell_def)
qed

lemma stepMatrix_NaN: "calculateStepMatrix [[NaN]] = Inr [[NaN]]"
  by (simp add: calculateStepMatrix_def Let_def stepCell_def gradAt_def cellAt_def js_sub_def
      raiseMax_def)

text \<open>
  C8, as stated, fails: on a non-empty rectangular matrix an entry of the result
  can be \<^verbatim>\<open>NaN\<close>, and the result of a field that is not flat can be all zeros.
\<close>

theorem calculateStepMatrix_counterexample:
  "calculateStepMatrix [[NaN]] = Inr [[NaN]] \<and>
   calculateStepMatrix [[Finite 0, Finite (2 ^ 600)], [Finite (2 ^ 600), Finite 0]] =
     Inr [[NaN, NaN], [NaN, Finite 0]] \<and>
   calculateStepMatrix [[Finite 0, Finite (1 / 2 ^ 600)], [Finite (1 / 2 ^ 600), Finite 0]] =
     Inr [[Finite 0, Finite 0], [Finite 0, Finite 0]]"
proof (intro conjI)
  show "calculateStepMatrix [[NaN]] = Inr [[NaN]]"
    by (rule stepMatrix_NaN)
  show "calculateStepMatrix [[Finite 0, Finite (2 ^ 600)], [Finite (2 ^ 600), Finite 0]] =
     Inr [[NaN, NaN], [NaN, Finite 0]]"
    by (rule stepMatrix_overflow) (rule f64_power2, simp_all add: overflow_threshold_def)
  have "f64 (1 / 2 ^ 600) = 1 / 2 ^ 600"
    using f64_ge_inverse_power2 [of 600 "1 / 2 ^ 600"] f64_le_pow2 [of "1 / 2 ^ 600" "- 600"]
    by (simp add: powr_minus_divide)
  then show "calculateStepMatrix [[Finite 0, Finite (1 / 2 ^ 600)], [Finite (1 / 2 ^ 600), Finite 0]] =
     Inr [[Finite 0, Finite 0], [Finite 0, Finite 0]]"
    by (rule stepMatrix_underflow) (simp_all add: overflow_threshold_def powr_minus_divide)
qed

text \<open>
  C8, amended. For a non-empty rectangular potential matrix of finite numbers of
  absolute value at most \<open>2\<^sup>5\<^sup>0\<^sup>0\<close>, \<^verbatim>\<open>calculateStepMatrix\<close> returns a matrix of the same
  dimensions whose entries are numbers in \<open>[0, 1]\<close>. Unless every computed gradient is
  0, an entry is exactly 1, at a cell whose gradient is the largest; that is the case
  as soon as a cell differs from its right or lower neighbour by at least \<open>2\<^sup>-\<^sup>5\<^sup>0\<^sup>0\<close>.
  When every computed gradient is 0, as for a flat field, every entry is 0.
\<close>

theorem calculateStepMatrix_unit_range:
  assumes "potentialMatrix \<noteq> []"
    and "\<forall>row\<in>set potentialMatrix. length row = length (potentialMatrix ! 0)"
    and "\<forall>row\<in>set potentialMatrix. \<forall>v\<in>set row. \<exists>x. v = Finite x \<and> \<bar>x\<bar> \<le> 2 ^ 500"
    and "rows = length potentialMatrix" and "cols = length (potentialMatrix ! 0)"
  shows "\<exists>stepMatrix.
    calculateStepMatrix potentialMatrix = Inr stepMatrix \<and>
    length stepMatrix = rows \<and> (\<forall>r<rows. length (stepMatrix ! r) = cols) \<and>
    (\<forall>r<rows. \<forall>c<cols. \<exists>x. stepMatrix ! r ! c = Finite x \<and> 0 \<le> x \<and> x \<le> 1) \<and>
    ((\<exists>r<rows. \<exists>c<cols. gradAt potentialMatrix rows cols r c \<noteq> Finite 0) \<longrightarrow>
       (\<exists>r<rows. \<exists>c<cols. stepMatrix ! r ! c = Finite 1 \<and>
          (\<forall>r'<rows. \<forall>c'<cols. js_le (gradAt potentialMatrix rows cols r' c')
             (gradAt potentialMatrix rows cols r c)))) \<and>
    ((\<forall>r<rows. \<forall>c<cols. gradAt potentialMatrix rows cols r c = Finite 0) \<longrightarrow>
       (\<forall>r<rows. \<forall>c<cols. stepMatrix ! r ! c = Finite 0)) \<and>
    ((\<exists>v. \<forall>r<rows. \<forall>c<cols. potentialMatrix ! r ! c = v) \<longrightarrow>
       (\<forall>r<rows. \<forall>c<cols. stepMatrix ! r ! c = Finite 0)) \<and>
    ((\<exists>r<rows. \<exists>c<cols. \<exists>x y. potentialMatrix ! r ! c = Finite x \<and>
         (c + 1 < cols \<and> potentialMatrix ! r ! (c + 1) = Finite y \<or>
          r + 1 < rows \<and> potentialMatrix ! (r + 1) ! c = Finite y) \<and>
         1 / 2 ^ 500 \<le> \<bar>x - y\<bar>) \<longrightarrow>
       (\<exists>r<rows. \<exists>c<cols. stepMatrix ! r ! c = Finite 1))"
proof -
  let ?G = "gradAt potentialMatrix rows cols"
  have rect: "\<forall>r<length potentialMatrix. length (potentialMatrix ! r) = cols"
    using assms(2,5) by simp
  have bounded: "\<forall>r<length potentialMatrix. \<forall>c<cols.
      \<exists>x. potentialMatrix ! r ! c = Finite x \<and> \<bar>x\<bar> \<le> 2 ^ 500"
  proof (intro allI impI)
    fix r c
    assume rc: "r < length potentialMatrix" "c < cols"
    then have "potentialMatrix ! r \<in> set potentialMatrix"
      by simp
    moreover have "potentialMatrix ! r ! c \<in> set (potentialMatrix ! r)"
      using rc rect by simp
    ultimately show "\<exists>x. potentialMatrix ! r ! c = Finite x \<and> \<bar>x\<bar> \<le> 2 ^ 500"
      using assms(3) by blast
  qed
  note grad = gradAt_rectangular [OF rect bounded, folded assms(4)]
  define g where "g = (\<lambda>r c. case ?G r c of Finite x \<Rightarrow> x | _ \<Rightarrow> 0)"
  have G: "?G r c = Finite (g r c)" and g0: "0 \<le> g r c" if "r < rows" "c < cols" for r c
    using grad [of r c] that assms(4) by (auto simp: g_def)
  have steep: "0 < g r c" if "r < rows" "c < cols" "potentialMatrix ! r ! c = Finite x"
    "c + 1 < cols \<and> potentialMatrix ! r ! (c + 1) = Finite y \<or>
     r + 1 < rows \<and> potentialMatrix ! (r + 1) ! c = Finite y"
    "1 / 2 ^ 500 \<le> \<bar>x - y\<bar>" for r c x y
  proof -
    from grad [of r c] that(1,2) assms(4) obtain h where h: "?G r c = Finite h"
      "\<forall>x y. potentialMatrix ! r ! c = Finite x \<and>
         (c + 1 < cols \<and> potentialMatrix ! r ! (c + 1) = Finite y \<or>
          r + 1 < rows \<and> potentialMatrix ! (r + 1) ! c = Finite y) \<and>
         1 / 2 ^ 500 \<le> \<bar>x - y\<bar> \<longrightarrow> 0 < h"
      by blast
    from h(2) that(3,4,5) have "0 < h"
      by blast
    with h(1) G [OF that(1,2)] show ?thesis
      by simp
  qed
  have Gall: "\<forall>r<rows. \<forall>c<cols. ?G r c = Finite (g r c)"
    using G by simp
  from calculateStepMatrix_cells [OF assms(1), folded assms(4,5), OF Gall] obtain sm mx where
    res: "calculateStepMatrix potentialMatrix = Inr sm"
    and dims: "length sm = rows" "\<forall>r<rows. length (sm ! r) = cols"
    and mx0: "0 \<le> mx"
    and ub: "\<And>r c. r < rows \<Longrightarrow> c < cols \<Longrightarrow> g r c \<le> mx"
    and att: "mx = 0 \<or> (\<exists>r<rows. \<exists>c<cols. g r c = mx)"
    and cell: "\<And>r c. r < rows \<Longrightarrow> c < cols \<Longrightarrow>
      sm ! r ! c = (if 0 < mx then js_div (Finite (g r c)) (Finite mx) else Finite (g r c))"
    by blast
  have range: "\<exists>x. sm ! r ! c = Finite x \<and> 0 \<le> x \<and> x \<le> 1" if "r < rows" "c < cols" for r c
  proof (cases "0 < mx")
    case True
    have q: "0 \<le> g r c / mx" "g r c / mx \<le> 1"
      using True g0 [OF that] ub [OF that] by simp_all
    have "sm ! r ! c = round64 (g r c / mx)"
      using cell [OF that] True by simp
    with round64_unit [OF q] show ?thesis
      by simp
  next
    case False
    with mx0 ub [OF that] g0 [OF that] have "g r c = 0"
      by simp
    with False cell [OF that] show ?thesis
      by simp
  qed
  have top: "\<exists>r<rows. \<exists>c<cols. sm ! r ! c = Finite 1 \<and>
      (\<forall>r'<rows. \<forall>c'<cols. js_le (?G r' c') (?G r c))" if "0 < mx"
  proof -
    from that att obtain r0 c0 where m: "r0 < rows" "c0 < cols" "g r0 c0 = mx"
      by auto
    have "sm ! r0 ! c0 = round64 1"
      using cell [OF m(1,2)] m(3) that by simp
    then have one: "sm ! r0 ! c0 = Finite 1"
      using round64_unit(1) [of 1] by (simp add: f64_1)
    have "js_le (?G r' c') (?G r0 c0)" if "r' < rows" "c' < cols" for r' c'
      using G [OF that] G [OF m(1,2)] ub [OF that] m(3) by simp
    with one m(1,2) show ?thesis
      by blast
  qed
  have one: "\<exists>r<rows. \<exists>c<cols. sm ! r ! c = Finite 1 \<and>
      (\<forall>r'<rows. \<forall>c'<cols. js_le (?G r' c') (?G r c))"
    if "\<exists>r<rows. \<exists>c<cols. ?G r c \<noteq> Finite 0"
  proof -
    from that obtain r c where rc: "r < rows" "c < cols" "?G r c \<noteq> Finite 0"
      by blast
    with G [OF rc(1,2)] g0 [OF rc(1,2)] have "0 < g r c"
      by (cases "g r c = 0") simp_all
    with ub [OF rc(1,2)] have "0 < mx"
      by simp
    then show ?thesis
      by (rule top)
  qed
  have zero: "\<forall>r<rows. \<forall>c<cols. sm ! r ! c = Finite 0"
    if "\<forall>r<rows. \<forall>c<cols. ?G r c = Finite 0"
  proof -
    have g: "g r c = 0" if "r < rows" "c < cols" for r c
      using G [OF that] \<open>\<forall>r<rows. \<forall>c<cols. ?G r c = Finite 0\<close> that by simp
    then have "mx = 0"
      using att by auto
    with cell g show ?thesis
      by simp
  qed
  have flat: "\<forall>r<rows. \<forall>c<cols. sm ! r ! c = Finite 0"
    if "\<exists>v. \<forall>r<rows. \<forall>c<cols. potentialMatrix ! r ! c = v"
  proof (cases "cols = 0")
    case True
    then show ?thesis
      by simp
  next
    case False
    from that obtain v where v: "\<And>r c. r < rows \<Longrightarrow> c < cols \<Longrightarrow> potentialMatrix ! r ! c = v"
      by blast
    have "0 < rows"
      using assms(1,4) by simp
    with bounded False assms(4) obtain x where "potentialMatrix ! 0 ! 0 = Finite x"
      by auto
    with v [of 0 0] False \<open>0 < rows\<close> have "v = Finite x"
      by simp
    with v have "\<forall>r<length potentialMatrix. \<forall>c<cols. potentialMatrix ! r ! c = Finite x"
      using assms(4) by simp
    from gradAt_flat [OF rect this] have "\<forall>r<rows. \<forall>c<cols. ?G r c = Finite 0"
      using assms(4) by simp
    then show ?thesis
      by (rule zero)
  qed
  have slope: "\<exists>r<rows. \<exists>c<cols. sm ! r ! c = Finite 1"
    if "\<exists>r<rows. \<exists>c<cols. \<exists>x y. potentialMatrix ! r ! c = Finite x \<and>
         (c + 1 < cols \<and> potentialMatrix ! r ! (c + 1) = Finite y \<or>
          r + 1 < rows \<and> potentialMatrix ! (r + 1) ! c = Finite y) \<and>
         1 / 2 ^ 500 \<le> \<bar>x - y\<bar>"
  proof -
    from that obtain r c x y where rc: "r < rows" "c < cols" "potentialMatrix ! r ! c = Finite x"
      "c + 1 < cols \<and> potentialMatrix ! r ! (c + 1) = Finite y \<or>
       r + 1 < rows \<and> potentialMatrix ! (r + 1) ! c = Finite y"
      "1 / 2 ^ 500 \<le> \<bar>x - y\<bar>"
      by blast
    from steep [OF this] ub [OF rc(1,2)] have "0 < mx"
      by simp
    from top [OF this] show ?thesis
      by blast
  qed
  have cells: "\<forall>r<rows. \<forall>c<cols. \<exists>x. sm ! r ! c = Finite x \<and> 0 \<le> x \<and> x \<le> 1"
    using range by simp
  show ?thesis
  proof (intro exI [of _ sm] conjI impI)
    show "calculateStepMatrix potentialMatrix = Inr sm"
      by (rule res)
    show "length sm = rows"
      by (rule dims(1))
    show "\<forall>r<rows. length (sm ! r) = cols"
      by (rule dims(2))
    show "\<forall>r<rows. \<forall>c<cols. \<exists>x. sm ! r ! c = Finite x \<and> 0 \<le> x \<and> x \<le> 1"
      by (rule cells)
    show "\<exists>r<rows. \<exists>c<cols. sm ! r ! c = Finite 1 \<and>
        (\<forall>r'<rows. \<forall>c'<cols. js_le (?G r' c') (?G r c))"
      if "\<exists>r<rows. \<exists>c<cols. ?G r c \<noteq> Finite 0"
      using that by (rule one)
    show "\<forall>r<rows. \<forall>c<cols. sm ! r ! c = Finite 0"
      if "\<forall>r<rows. \<forall>c<cols. ?G r c = Finite 0"
      using that by (rule zero)
    show "\<forall>r<rows. \<forall>c<cols. sm ! r ! c = Finite 0"
      if "\<exists>v. \<forall>r<rows. \<forall>c<cols. potentialMatrix ! r ! c = v"
      using that by (rule flat)
    show "\<exists>r<rows. \<exists>c<cols. sm ! r ! c = Finite 1"
      if "\<exists>r<rows. \<exists>c<cols. \<exists>x y. potentialMatrix ! r ! c = Finite x \<and>
         (c + 1 < cols \<and> potentialMatrix ! r ! (c + 1) = Finite y \<or>
          r + 1 < rows \<and> potentialMatrix ! (r + 1) ! c = Finite y) \<and>
         1 / 2 ^ 500 \<le> \<bar>x - y\<bar>"
      using that by (rule slope)
  qed
qed

text \<open>
  The witnesses: a 2 by 2 matrix with the gradients 5, 3, 4, 0, whose entries become
  1, the doubles 0.6 and 0.8, and 0; and a flat row.
\<close>

lemma f64_3: "f64 3 = 3"
  by (rule f64_eqI [where e = "1" and p = "2" and m = 6755399441055744]) simp_all

lemma f64_4: "f64 4 = 4"
  by (rule f64_eqI [where e = "2" and p = "4" and m = 4503599627370496]) simp_all

lemma f64_5: "f64 5 = 5"
  by (rule f64_eqI [where e = "2" and p = "4" and m = 5629499534213120]) simp_all

lemma f64_9: "f64 9 = 9"
  by (rule f64_eqI [where e = "3" and p = "8" and m = 5066549580791808]) simp_all

lemma f64_16: "f64 16 = 16"
  by (rule f64_eqI [where e = "4" and p = "16" and m = 4503599627370496]) simp_all

lemma f64_25: "f64 25 = 25"
  by (rule f64_eqI [where e = "4" and p = "16" and m = 7036874417766400]) simp_all

lemma f64_3_5: "f64 (3 / 5) = (5404319552844595 / 9007199254740992)"
  by (rule f64_eqI [where e = "- 1" and p = "(1 / 2)" and m = 5404319552844595]) (simp_all add: powr_minus_divide)

lemma f64_4_5: "f64 (4 / 5) = (3602879701896397 / 4503599627370496)"
  by (rule f64_eqI [where e = "- 1" and p = "(1 / 2)" and m = 7205759403792794]) (simp_all add: powr_minus_divide)

lemma sqrt_25: "sqrt 25 = 5"
  using real_sqrt_abs [of 5] by simp

lemma round64_examples:
  "round64 3 = Finite 3" "round64 (- 3) = Finite (- 3)" "round64 4 = Finite 4"
  "round64 (- 4) = Finite (- 4)" "round64 9 = Finite 9" "round64 16 = Finite 16"
  "round64 25 = Finite 25" "round64 1 = Finite 1"
  "round64 (3 / 5) = Finite (5404319552844595 / 9007199254740992)"
  "round64 (4 / 5) = Finite (3602879701896397 / 4503599627370496)"
  using f64_minus [of 3] f64_minus [of 4]
  by (simp_all add: round64_def overflow_threshold_def f64_3 f64_4 f64_9 f64_16 f64_25 f64_1
      f64_3_5 f64_4_5)

lemma gradAt_example:
  "gradAt [[Finite 0, Finite 3], [Finite 4, Finite 0]] (Suc (Suc 0)) (Suc (Suc 0)) 0 0 = Finite 5"
  "gradAt [[Finite 0, Finite 3], [Finite 4, Finite 0]] (Suc (Suc 0)) (Suc (Suc 0)) 0 (Suc 0) = Finite 3"
  "gradAt [[Finite 0, Finite 3], [Finite 4, Finite 0]] (Suc (Suc 0)) (Suc (Suc 0)) (Suc 0) 0 = Finite 4"
  "gradAt [[Finite 0, Finite 3], [Finite 4, Finite 0]] (Suc (Suc 0)) (Suc (Suc 0)) (Suc 0) (Suc 0) = Finite 0"
  by (simp_all add: gradAt_def cellAt_def Let_def js_sub_def round64_examples round64_0 f64_0
      sqrt_25 f64_5 f64_3 f64_4)

lemma calculateStepMatrix_example:
  "calculateStepMatrix [[Finite 0, Finite 3], [Finite 4, Finite 0]] =
     Inr [[Finite 1, Finite (5404319552844595 / 9007199254740992)],
          [Finite (3602879701896397 / 4503599627370496), Finite 0]]"
  by (simp add: calculateStepMatrix_def Let_def stepCell_def gradAt_example raiseMax_def
      normalizeCell_def round64_examples round64_0)

theorem calculateStepMatrix_unit_range_witness:
  "calculateStepMatrix [[Finite 0, Finite 3], [Finite 4, Finite 0]] =
     Inr [[Finite 1, Finite (5404319552844595 / 9007199254740992)],
          [Finite (3602879701896397 / 4503599627370496), Finite 0]] \<and>
   gradAt [[Finite 0, Finite 3], [Finite 4, Finite 0]] 2 2 0 0 = Finite 5 \<and>
   (\<exists>stepMatrix. calculateStepMatrix [[Finite 7, Finite 7]] = Inr stepMatrix \<and>
      length stepMatrix = 1 \<and> length (stepMatrix ! 0) = 2 \<and>
      stepMatrix ! 0 ! 0 = Finite 0 \<and> stepMatrix ! 0 ! 1 = Finite 0)"
proof -
  let ?pm = "[[Finite 0, Finite 3], [Finite 4, Finite 0]]"
  have h: "?pm \<noteq> []" "\<forall>row\<in>set ?pm. length row = length (?pm ! 0)"
    "\<forall>row\<in>set ?pm. \<forall>v\<in>set row. \<exists>x. v = Finite x \<and> \<bar>x\<bar> \<le> 2 ^ 500"
    "2 = length ?pm" "2 = length (?pm ! 0)"
    by simp_all
  from calculateStepMatrix_unit_range [OF h] obtain sm where
    "calculateStepMatrix ?pm = Inr sm" "length sm = 2"
    by blast
  with calculateStepMatrix_example
  have a: "calculateStepMatrix ?pm =
     Inr [[Finite 1, Finite (5404319552844595 / 9007199254740992)],
          [Finite (3602879701896397 / 4503599627370496), Finite 0]]"
    by simp
  have b: "gradAt ?pm 2 2 0 0 = Finite 5"
    using gradAt_example(1) by (simp add: numeral_2_eq_2)
  let ?fm = "[[Finite 7, Finite 7]]"
  have f: "?fm \<noteq> []" "\<forall>row\<in>set ?fm. length row = length (?fm ! 0)"
    "\<forall>row\<in>set ?fm. \<forall>v\<in>set row. \<exists>x. v = Finite x \<and> \<bar>x\<bar> \<le> 2 ^ 500"
    "1 = length ?fm" "2 = length (?fm ! 0)"
    by simp_all
  have flat: "\<exists>v. \<forall>r<1. \<forall>c<2. ?fm ! r ! c = v"
    by (intro exI [of _ "Finite 7"]) (simp add: less_Suc_eq numeral_2_eq_2)
  from calculateStepMatrix_unit_range [OF f]
  have c: "\<exists>stepMatrix. calculateStepMatrix ?fm = Inr stepMatrix \<and>
      length stepMatrix = 1 \<and> length (stepMatrix ! 0) = 2 \<and>
      stepMatrix ! 0 ! 0 = Finite 0 \<and> stepMatrix ! 0 ! 1 = Finite 0"
  proof (elim exE conjE)
    fix fm
    assume fm: "calculateStepMatrix ?fm = Inr fm" "length fm = 1"
      "\<forall>r<1. length (fm ! r) = 2"
      "(\<exists>v. \<forall>r<1. \<forall>c<2. ?fm ! r ! c = v) \<longrightarrow> (\<forall>r<1. \<forall>c<2. fm ! r ! c = Finite 0)"
    from fm(4) flat have "\<forall>r<1. \<forall>c<2. fm ! r ! c = Finite 0"
      by (rule mp)
    then have "fm ! 0 ! 0 = Finite 0" "fm ! 0 ! 1 = Finite 0"
      by simp_all
    with fm(1,2,3) show ?thesis
      by simp
  qed
  from a b c show ?thesis
    by (intro conjI)
qed

end
